theory Spec2Isabelle
  imports Complex_Main "HOL-Library.AList"
begin

section \<open>Decimal arithmetic of the converter\<close>

text \<open>
  \<^verbatim>\<open>main.py\<close> computes with Python's \<^verbatim>\<open>decimal.Decimal\<close> under the default context with
  \<^verbatim>\<open>getcontext().prec = 28\<close>: rounding \<^verbatim>\<open>ROUND_HALF_EVEN\<close>, \<^verbatim>\<open>Emax = 999999\<close>,
  \<^verbatim>\<open>Emin = -999999\<close>, no clamping, and the traps \<^verbatim>\<open>InvalidOperation\<close>,
  \<^verbatim>\<open>DivisionByZero\<close> and \<^verbatim>\<open>Overflow\<close>, which raise.

  A finite decimal is a sign, a coefficient and an exponent; its value is
  \<open>(-1)^sign * coefficient * 10^exponent\<close>. The embedding covers finite decimals: the amount is
  a finite number and every rate delivered by an upstream source is a finite number
  (\<^verbatim>\<open>NaN\<close> and \<^verbatim>\<open>Infinity\<close> are outside the model).
\<close>

datatype decimal = Decimal (dsign: bool) (dint: nat) (dexp: int)

datatype error =
    HTTPException nat string
  | InvalidOperation
  | DivisionByZero
  | Overflow
  | KeyError string

definition prec :: nat where
  "prec = 28"

definition Emax :: int where
  "Emax = 999999"

definition Emin :: int where
  "Emin = - 999999"

definition Etiny :: int where
  "Etiny = Emin - int prec + 1"

definition Etop :: int where
  "Etop = Emax - int prec + 1"

text \<open>\<^verbatim>\<open>len(self._int)\<close>: the number of decimal digits of the coefficient (\<open>0\<close> has one).\<close>

fun ndigits :: "nat \<Rightarrow> nat" where
  "ndigits n = (if n < 10 then 1 else Suc (ndigits (n div 10)))"

declare ndigits.simps [simp del]

text \<open>\<^verbatim>\<open>Decimal.__bool__\<close>: a finite decimal is truthy iff its coefficient is not zero.\<close>

definition truthy :: "decimal \<Rightarrow> bool" where
  "truthy d = (dint d \<noteq> 0)"

definition adjusted :: "decimal \<Rightarrow> int" where
  "adjusted d = dexp d + int (ndigits (dint d)) - 1"

text \<open>
  Dropping the last \<open>k\<close> digits of a coefficient with \<^verbatim>\<open>_round_half_even\<close>: the result is
  one larger than the truncation exactly when the dropped digits are above one half, or are
  exactly one half and the last kept digit is odd. With \<open>k\<close> beyond the length of the
  coefficient everything is dropped (Python then rounds \<^verbatim>\<open>1E(exp-1)\<close>, which truncates to
  \<open>0\<close>).
\<close>

definition round_half_even :: "nat \<Rightarrow> nat \<Rightarrow> nat" where
  "round_half_even c k =
     (let kept = c div 10 ^ k; dropped = c mod 10 ^ k; half = 5 * 10 ^ (k - 1)
      in if k = 0 then c
         else if dropped > half \<or> (dropped = half \<and> odd kept) then kept + 1
         else kept)"

text \<open>\<^verbatim>\<open>Decimal._fix\<close>: round to the precision of the context and keep the exponent in range.\<close>

definition dec_fix :: "decimal \<Rightarrow> error + decimal" where
  "dec_fix d =
     (if dint d = 0 then Inr (Decimal (dsign d) 0 (min (max (dexp d) Etiny) Emax))
      else
        let exp_min0 = int (ndigits (dint d)) + dexp d - int prec
        in if exp_min0 > Etop then Inl Overflow
           else
             let exp_min = max exp_min0 Etiny
             in if dexp d < exp_min then
                  let coeff = round_half_even (dint d) (nat (exp_min - dexp d))
                  in if ndigits coeff > prec then
                       (if exp_min + 1 > Etop then Inl Overflow
                        else Inr (Decimal (dsign d) (coeff div 10) (exp_min + 1)))
                     else Inr (Decimal (dsign d) coeff exp_min)
                else Inr d)"

text \<open>\<^verbatim>\<open>Decimal.__mul__\<close>\<close>

definition dec_mul :: "decimal \<Rightarrow> decimal \<Rightarrow> error + decimal" where
  "dec_mul x y = dec_fix (Decimal (dsign x \<noteq> dsign y) (dint x * dint y) (dexp x + dexp y))"

text \<open>
  \<^verbatim>\<open>Decimal.__truediv__\<close>. The loop of the exact case strips trailing zeros of the quotient
  while its exponent is below the ideal one.
\<close>

function strip_zeros :: "nat \<Rightarrow> int \<Rightarrow> int \<Rightarrow> nat \<times> int" where
  "strip_zeros coeff e ideal =
     (if e < ideal \<and> coeff mod 10 = 0 then strip_zeros (coeff div 10) (e + 1) ideal
      else (coeff, e))"
  by pat_completeness auto
termination
  by (relation "measure (\<lambda>(coeff, e, ideal). nat (ideal - e))") auto

declare strip_zeros.simps [simp del]

definition dec_div :: "decimal \<Rightarrow> decimal \<Rightarrow> error + decimal" where
  "dec_div x y =
     (let sign = (dsign x \<noteq> dsign y)
      in if dint y = 0 then (if dint x = 0 then Inl InvalidOperation else Inl DivisionByZero)
         else if dint x = 0 then dec_fix (Decimal sign 0 (dexp x - dexp y))
         else
           let shift = int (ndigits (dint y)) - int (ndigits (dint x)) + int prec + 1;
               e = dexp x - dexp y - shift;
               num = (if shift \<ge> 0 then dint x * 10 ^ nat shift else dint x);
               den = (if shift \<ge> 0 then dint y else dint y * 10 ^ nat (- shift));
               coeff = num div den;
               remainder = num mod den
           in if remainder \<noteq> 0 then
                dec_fix (Decimal sign (if coeff mod 5 = 0 then coeff + 1 else coeff) e)
              else
                (case strip_zeros coeff e (dexp x - dexp y) of
                   (coeff', e') \<Rightarrow> dec_fix (Decimal sign coeff' e')))"

text \<open>\<^verbatim>\<open>Decimal._rescale\<close> with \<^verbatim>\<open>ROUND_HALF_EVEN\<close>\<close>

definition rescale :: "decimal \<Rightarrow> int \<Rightarrow> decimal" where
  "rescale d e =
     (if dint d = 0 then Decimal (dsign d) 0 e
      else if dexp d \<ge> e then Decimal (dsign d) (dint d * 10 ^ nat (dexp d - e)) e
      else Decimal (dsign d) (round_half_even (dint d) (nat (e - dexp d))) e)"

text \<open>\<^verbatim>\<open>Decimal.quantize\<close> to the exponent \<open>e\<close> of its argument (here always \<^verbatim>\<open>1E-8\<close>).\<close>

definition quantize :: "decimal \<Rightarrow> int \<Rightarrow> error + decimal" where
  "quantize d e =
     (if \<not> (Etiny \<le> e \<and> e \<le> Emax) then Inl InvalidOperation
      else if dint d = 0 then dec_fix (Decimal (dsign d) 0 e)
      else if adjusted d > Emax then Inl InvalidOperation
      else if adjusted d - e + 1 > int prec then Inl InvalidOperation
      else
        let ans = rescale d e
        in if adjusted ans > Emax then Inl InvalidOperation
           else if ndigits (dint ans) > prec then Inl InvalidOperation
           else dec_fix ans)"

text \<open>The decimal digits of a coefficient, as \<^verbatim>\<open>str(int)\<close> gives them.\<close>

definition digit_char :: "nat \<Rightarrow> char" where
  "digit_char n = ''0123456789'' ! n"

fun digits_str :: "nat \<Rightarrow> string" where
  "digits_str n = (if n < 10 then [digit_char n] else digits_str (n div 10) @ [digit_char (n mod 10)])"

declare digits_str.simps [simp del]

text \<open>
  \<^verbatim>\<open>format(d, 'f')\<close> (\<^verbatim>\<open>Decimal.__format__\<close> with no precision, width or sign option): a
  zero with a positive exponent is rescaled to exponent \<open>0\<close>; the point is placed
  \<^verbatim>\<open>exp + len\<close> digits from the left.
\<close>

definition format_f :: "decimal \<Rightarrow> string" where
  "format_f d0 =
     (let d = (if dint d0 = 0 \<and> dexp d0 > 0 then Decimal (dsign d0) 0 0 else d0);
          ds = digits_str (dint d);
          dotplace = dexp d + int (length ds);
          intpart = (if dotplace < 0 then ''0''
                     else if dotplace > int (length ds)
                       then ds @ replicate (nat (dotplace - int (length ds))) (CHR ''0'')
                     else (if take (nat dotplace) ds = [] then ''0'' else take (nat dotplace) ds));
          fracpart = (if dotplace < 0 then replicate (nat (- dotplace)) (CHR ''0'') @ ds
                      else if dotplace > int (length ds) then []
                      else drop (nat dotplace) ds)
      in (if dsign d then ''-'' else []) @ intpart @ (if fracpart = [] then [] else ''.'' @ fracpart))"

text \<open>
  \<^verbatim>\<open>def fmt(n, decimals=8): return format(n.quantize(Decimal(10) ** -decimals), 'f')\<close>;
  \<^verbatim>\<open>Decimal(10) ** -8\<close> is \<^verbatim>\<open>Decimal('1E-8')\<close>, of which \<^verbatim>\<open>quantize\<close> uses the exponent.
\<close>

definition fmt :: "decimal \<Rightarrow> error + string" where
  "fmt n = (case quantize n (- 8) of Inl e \<Rightarrow> Inl e | Inr q \<Rightarrow> Inr (format_f q))"


section \<open>The cache and the three providers\<close>

text \<open>
  A Python \<^verbatim>\<open>dict\<close> is an association list with distinct keys in insertion order;
  \<^verbatim>\<open>d[k] = v\<close> is \<^const>\<open>AList.update\<close>, \<^verbatim>\<open>d.get(k)\<close> is \<^const>\<open>map_of\<close>, and a dict is
  truthy iff it is not empty.

  The module-level \<^verbatim>\<open>CACHE\<close> is a record. The field \<open>requests\<close> is not in the source: it
  logs the URL of every \<^verbatim>\<open>requests.get\<close> the code performs, so that the theorems can speak
  about upstream fetches.
\<close>

type_synonym rates = "(string \<times> decimal) list"

record cache =
  ecb_data :: "rates option"
  ecb_timestamp :: real
  binance_data :: "rates option"
  binance_timestamp :: real
  yahoo_data :: rates
  yahoo_timestamp :: real
  requests :: "string list"

definition CACHE_init :: cache where
  "CACHE_init = \<lparr>ecb_data = None, ecb_timestamp = 0, binance_data = None, binance_timestamp = 0,
     yahoo_data = [], yahoo_timestamp = 0, requests = []\<rparr>"

definition ECB_TTL :: real where
  "ECB_TTL = 60 * 60"

definition BINANCE_TTL :: real where
  "BINANCE_TTL = 10"

definition YAHOO_TTL :: real where
  "YAHOO_TTL = 10"

definition ECB_URL :: string where
  "ECB_URL = ''https://www.ecb.europa.eu/stats/eurofxref/eurofxref-daily.xml''"

definition BINANCE_URL_ALL :: string where
  "BINANCE_URL_ALL = ''https://api.binance.com/api/v3/ticker/price''"

definition YAHOO_URL :: string where
  "YAHOO_URL = ''https://query1.finance.yahoo.com/v8/finance/chart/''"

text \<open>
  \<^verbatim>\<open>if CACHE[...]["data"]\<close>: \<^verbatim>\<open>None\<close> and the empty dict are falsy. \<open>data_of\<close> reads the
  dict where the test has succeeded.
\<close>

definition data_truthy :: "rates option \<Rightarrow> bool" where
  "data_truthy d = (case d of None \<Rightarrow> False | Some m \<Rightarrow> m \<noteq> [])"

definition data_of :: "rates option \<Rightarrow> rates" where
  "data_of d = (case d of None \<Rightarrow> [] | Some m \<Rightarrow> m)"

text \<open>
  What the upstream sources answer is an input of the model. For the basket, everything inside
  the \<^verbatim>\<open>try\<close> that raises (the request, the XML parser, \<^verbatim>\<open>Decimal(...)\<close> of a rate) is
  \<open>EcbError\<close>; otherwise the document yields its \<^verbatim>\<open>Cube\<close> entries in order.
\<close>

datatype ecb_response = EcbError | EcbCubes rates

datatype binance_response = BinanceError | BinanceStatusNot200 | BinanceTickers rates

datatype yahoo_response = YahooError | YahooPrice decimal

definition dict_of :: "rates \<Rightarrow> rates \<Rightarrow> rates" where
  "dict_of init items = fold (\<lambda>(k, v) d. AList.update k v d) items init"

definition get_ecb_rates :: "real \<Rightarrow> ecb_response \<Rightarrow> cache \<Rightarrow> (error + rates) \<times> cache" where
  "get_ecb_rates now resp s =
     (if data_truthy (ecb_data s) \<and> now - ecb_timestamp s < ECB_TTL
      then (Inr (data_of (ecb_data s)), s)
      else
        let s1 = s\<lparr>requests := requests s @ [ECB_URL]\<rparr>
        in (case resp of
              EcbCubes cubes \<Rightarrow>
                let rates = dict_of [(''EUR'', Decimal False 10 (- 1))] cubes
                in (Inr rates, s1\<lparr>ecb_data := Some rates, ecb_timestamp := now\<rparr>)
            | EcbError \<Rightarrow>
                (if data_truthy (ecb_data s1) then (Inr (data_of (ecb_data s1)), s1)
                 else (Inl (HTTPException 503 ''ECB service unavailable''), s1))))"

text \<open>\<^verbatim>\<open>str.upper\<close> on ASCII letters.\<close>

definition upper_char :: "char \<Rightarrow> char" where
  "upper_char c =
     (case map_of (zip ''abcdefghijklmnopqrstuvwxyz'' ''ABCDEFGHIJKLMNOPQRSTUVWXYZ'') c of
        Some u \<Rightarrow> u
      | None \<Rightarrow> c)"

definition upper :: "string \<Rightarrow> string" where
  "upper s = map upper_char s"

text \<open>
  The pair provider. The response of the upstream is a function of the pair symbol; every
  exception inside the \<^verbatim>\<open>try\<close> (the request, the JSON decoding, a missing field,
  \<^verbatim>\<open>Decimal(str(price))\<close>) is \<open>YahooError\<close>.
\<close>

definition get_yahoo_rate ::
  "real \<Rightarrow> (string \<Rightarrow> yahoo_response) \<Rightarrow> string \<Rightarrow> string \<Rightarrow> cache \<Rightarrow> decimal option \<times> cache" where
  "get_yahoo_rate now resp base quote s =
     (let pair = upper base @ upper quote @ ''=X''
      in if map_of (yahoo_data s) pair \<noteq> None \<and> now - yahoo_timestamp s < YAHOO_TTL
         then (map_of (yahoo_data s) pair, s)
         else
           let s1 = s\<lparr>requests := requests s @ [YAHOO_URL @ pair]\<rparr>
           in (case resp pair of
                 YahooPrice v \<Rightarrow>
                   (Some v, s1\<lparr>yahoo_data := AList.update pair v (yahoo_data s1),
                                yahoo_timestamp := now\<rparr>)
               | YahooError \<Rightarrow> (None, s1)))"

definition get_binance_prices :: "real \<Rightarrow> binance_response \<Rightarrow> cache \<Rightarrow> rates \<times> cache" where
  "get_binance_prices now resp s =
     (if data_truthy (binance_data s) \<and> now - binance_timestamp s < BINANCE_TTL
      then (data_of (binance_data s), s)
      else
        let s1 = s\<lparr>requests := requests s @ [BINANCE_URL_ALL]\<rparr>
        in (case resp of
              BinanceTickers items \<Rightarrow>
                let data = dict_of [] items
                in (data, s1\<lparr>binance_data := Some data, binance_timestamp := now\<rparr>)
            | BinanceStatusNot200 \<Rightarrow> ([], s1)
            | BinanceError \<Rightarrow> ([], s1)))"

section \<open>The conversion endpoint\<close>

record conversion =
  res_from :: string
  res_to :: string
  res_amount :: string
  res_rate :: string
  res_converted :: string
  res_via :: string

text \<open>Sequencing of computations that may raise: the first error is the result.\<close>

definition ebind :: "'e + 'a \<Rightarrow> ('a \<Rightarrow> 'e + 'b) \<Rightarrow> 'e + 'b" where
  "ebind m f = (case m of Inl e \<Rightarrow> Inl e | Inr v \<Rightarrow> f v)"

text \<open>
  The returned dict: \<^verbatim>\<open>fmt(amount)\<close>, \<^verbatim>\<open>fmt(rate)\<close> and \<^verbatim>\<open>fmt(converted)\<close> are evaluated in
  this order in every branch. In the branch of \<^verbatim>\<open>binance+yahoo\<close> the rate is a product written
  inside the dict display, so it is computed after \<^verbatim>\<open>fmt(amount)\<close>; that branch is written out
  in \<open>crypto_to_fiat\<close>.
\<close>

definition response ::
  "string \<Rightarrow> string \<Rightarrow> decimal \<Rightarrow> decimal \<Rightarrow> decimal \<Rightarrow> string \<Rightarrow> error + conversion" where
  "response from_currency to_currency amount rate converted via =
     ebind (fmt amount) (\<lambda>a. ebind (fmt rate) (\<lambda>r. ebind (fmt converted) (\<lambda>c.
       Inr \<lparr>res_from = from_currency, res_to = to_currency, res_amount = a, res_rate = r,
            res_converted = c, res_via = via\<rparr>)))"

text \<open>\<^verbatim>\<open>if price:\<close> on the result of \<^verbatim>\<open>dict.get\<close> or of the pair provider.\<close>

definition present :: "decimal option \<Rightarrow> bool" where
  "present p = (case p of None \<Rightarrow> False | Some d \<Rightarrow> truthy d)"

text \<open>\<^verbatim>\<open>ecb_rates[k]\<close>\<close>

definition getitem :: "rates \<Rightarrow> string \<Rightarrow> error + decimal" where
  "getitem d k = (case map_of d k of None \<Rightarrow> Inl (KeyError k) | Some v \<Rightarrow> Inr v)"

definition is_in :: "string \<Rightarrow> rates \<Rightarrow> bool" where
  "is_in k d = (map_of d k \<noteq> None)"

text \<open>
  One request reads the clock once in each provider it calls and gets one answer from each
  upstream it asks.
\<close>

record env =
  now_ecb :: real
  now_binance :: real
  now_yahoo :: real
  ecb_resp :: ecb_response
  binance_resp :: binance_response
  yahoo_resp :: "string \<Rightarrow> yahoo_response"

definition crypto_to_crypto ::
  "rates \<Rightarrow> string \<Rightarrow> string \<Rightarrow> decimal \<Rightarrow> error + conversion" where
  "crypto_to_crypto binance_prices from_currency to_currency amount =
     (let unsupported = Inl (HTTPException 400
            (''Unsupported crypto pair: '' @ from_currency @ ''/'' @ to_currency));
          bridge =
            (case (map_of binance_prices (from_currency @ ''USDT''),
                   map_of binance_prices (to_currency @ ''USDT'')) of
               (Some from_usd, Some to_usd) \<Rightarrow>
                 if \<not> truthy from_usd \<or> \<not> truthy to_usd then unsupported
                 else
                   ebind (dec_mul amount from_usd) (\<lambda>usd_value.
                   ebind (dec_div usd_value to_usd) (\<lambda>converted.
                   ebind (dec_div from_usd to_usd) (\<lambda>rate.
                     response from_currency to_currency amount rate converted ''USDT'')))
             | _ \<Rightarrow> unsupported)
      in case map_of binance_prices (from_currency @ to_currency) of
           Some direct_price \<Rightarrow>
             if truthy direct_price then
               ebind (dec_mul amount direct_price) (\<lambda>converted.
                 response from_currency to_currency amount direct_price converted ''direct'')
             else bridge
         | None \<Rightarrow> bridge)"

definition crypto_to_fiat ::
  "env \<Rightarrow> rates \<Rightarrow> rates \<Rightarrow> cache \<Rightarrow> string \<Rightarrow> string \<Rightarrow> decimal
     \<Rightarrow> (error + conversion) \<times> cache" where
  "crypto_to_fiat e ecb_rates binance_prices s from_currency to_currency amount =
     (case map_of binance_prices (from_currency @ ''USDT'') of
        None \<Rightarrow> (Inl (HTTPException 400 (''Unsupported crypto: '' @ from_currency)), s)
      | Some crypto_price_usd \<Rightarrow>
          if \<not> truthy crypto_price_usd
          then (Inl (HTTPException 400 (''Unsupported crypto: '' @ from_currency)), s)
          else
            (case dec_mul amount crypto_price_usd of
               Inl err \<Rightarrow> (Inl err, s)
             | Inr usd_amount \<Rightarrow>
                 if to_currency = ''USD''
                 then (response from_currency to_currency amount crypto_price_usd usd_amount
                         ''binance'', s)
                 else
                   (case get_yahoo_rate (now_yahoo e) (yahoo_resp e) ''USD'' to_currency s of
                      (yahoo_rate, s') \<Rightarrow>
                        let basket =
                          ebind (getitem ecb_rates ''USD'') (\<lambda>usd.
                          ebind (dec_div (Decimal False 1 0) usd) (\<lambda>usd_to_eur.
                          ebind (dec_mul usd_amount usd_to_eur) (\<lambda>eur_amount.
                          ebind (getitem ecb_rates to_currency) (\<lambda>to_rate.
                          ebind (dec_mul eur_amount to_rate) (\<lambda>converted.
                          ebind (dec_mul crypto_price_usd usd_to_eur) (\<lambda>r1.
                          ebind (getitem ecb_rates to_currency) (\<lambda>to_rate'.
                          ebind (dec_mul r1 to_rate') (\<lambda>rate.
                            response from_currency to_currency amount rate converted
                              ''binance+ecb''))))))))
                        in (case yahoo_rate of
                              Some y \<Rightarrow>
                                if truthy y then
                                  ebind (dec_mul usd_amount y) (\<lambda>converted.
                                  ebind (fmt amount) (\<lambda>a.
                                  ebind (dec_mul crypto_price_usd y) (\<lambda>rate.
                                  ebind (fmt rate) (\<lambda>r.
                                  ebind (fmt converted) (\<lambda>c.
                                    Inr \<lparr>res_from = from_currency, res_to = to_currency,
                                         res_amount = a, res_rate = r, res_converted = c,
                                         res_via = ''binance+yahoo''\<rparr>)))))
                                else basket
                            | None \<Rightarrow> basket, s'))))"

definition fiat_to_crypto ::
  "env \<Rightarrow> rates \<Rightarrow> rates \<Rightarrow> cache \<Rightarrow> string \<Rightarrow> string \<Rightarrow> decimal
     \<Rightarrow> (error + conversion) \<times> cache" where
  "fiat_to_crypto e ecb_rates binance_prices s from_currency to_currency amount =
     (case map_of binance_prices (to_currency @ ''USDT'') of
        None \<Rightarrow> (Inl (HTTPException 400 (''Unsupported target crypto: '' @ to_currency)), s)
      | Some crypto_price_usd \<Rightarrow>
          if \<not> truthy crypto_price_usd
          then (Inl (HTTPException 400 (''Unsupported target crypto: '' @ to_currency)), s)
          else
            (case get_yahoo_rate (now_yahoo e) (yahoo_resp e) from_currency ''USD'' s of
               (yahoo_rate, s') \<Rightarrow>
                 let basket =
                   ebind (getitem ecb_rates from_currency) (\<lambda>from_rate.
                   ebind (dec_div amount from_rate) (\<lambda>eur.
                   ebind (getitem ecb_rates ''USD'') (\<lambda>usd. dec_mul eur usd)))
                 in (ebind
                       (case yahoo_rate of
                          Some y \<Rightarrow> if truthy y then dec_mul amount y else basket
                        | None \<Rightarrow> basket)
                       (\<lambda>usd_amount.
                     ebind (dec_div usd_amount crypto_price_usd) (\<lambda>converted.
                     ebind (dec_mul amount crypto_price_usd) (\<lambda>denom.
                     ebind (dec_div usd_amount denom) (\<lambda>rate.
                       response from_currency to_currency amount rate converted
                         (if present yahoo_rate then ''yahoo+binance'' else ''ecb+binance''))))),
                     s')))"

definition fiat_to_fiat ::
  "env \<Rightarrow> rates \<Rightarrow> cache \<Rightarrow> string \<Rightarrow> string \<Rightarrow> decimal \<Rightarrow> (error + conversion) \<times> cache" where
  "fiat_to_fiat e ecb_rates s from_currency to_currency amount =
     (case get_yahoo_rate (now_yahoo e) (yahoo_resp e) from_currency to_currency s of
        (yahoo_rate, s') \<Rightarrow>
          let basket =
            ebind (getitem ecb_rates from_currency) (\<lambda>from_rate.
            ebind (dec_div amount from_rate) (\<lambda>eur_amount.
            ebind (getitem ecb_rates to_currency) (\<lambda>to_rate.
            ebind (dec_mul eur_amount to_rate) (\<lambda>converted.
            ebind (getitem ecb_rates to_currency) (\<lambda>to_rate'.
            ebind (getitem ecb_rates from_currency) (\<lambda>from_rate'.
            ebind (dec_div to_rate' from_rate') (\<lambda>rate.
              response from_currency to_currency amount rate converted ''ecb'')))))))
          in (case yahoo_rate of
                Some y \<Rightarrow>
                  if truthy y then
                    ebind (dec_mul amount y) (\<lambda>converted.
                      response from_currency to_currency amount y converted ''yahoo'')
                  else basket
              | None \<Rightarrow> basket, s'))"

text \<open>
  \<^verbatim>\<open>convert\<close>: the argument \<open>amount\<close> is \<^verbatim>\<open>Decimal(str(amount))\<close>, the exact decimal of the
  shortest representation of the float that the query carried.
\<close>

definition convert ::
  "env \<Rightarrow> cache \<Rightarrow> string \<Rightarrow> string \<Rightarrow> decimal \<Rightarrow> (error + conversion) \<times> cache" where
  "convert e s from_code to_code amount =
     (let from_currency = upper from_code; to_currency = upper to_code
      in case get_ecb_rates (now_ecb e) (ecb_resp e) s of
           (Inl err, s1) \<Rightarrow> (Inl err, s1)
         | (Inr ecb_rates, s1) \<Rightarrow>
             (case get_binance_prices (now_binance e) (binance_resp e) s1 of
                (binance_prices, s2) \<Rightarrow>
                  if \<not> is_in from_currency ecb_rates \<and> \<not> is_in to_currency ecb_rates
                  then (crypto_to_crypto binance_prices from_currency to_currency amount, s2)
                  else if \<not> is_in from_currency ecb_rates \<and> is_in to_currency ecb_rates
                  then crypto_to_fiat e ecb_rates binance_prices s2 from_currency to_currency amount
                  else if is_in from_currency ecb_rates \<and> \<not> is_in to_currency ecb_rates
                  then fiat_to_crypto e ecb_rates binance_prices s2 from_currency to_currency amount
                  else if is_in from_currency ecb_rates \<and> is_in to_currency ecb_rates
                  then fiat_to_fiat e ecb_rates s2 from_currency to_currency amount
                  else (Inl (HTTPException 400
                         (''Unsupported conversion: '' @ from_currency @ '' -> '' @ to_currency)),
                        s2)))"

section \<open>Example data\<close>

text \<open>
  A basket with \<open>EUR = 1.0\<close>, \<open>USD = 1.08\<close> and \<open>JPY = 160.00\<close>, fetched into the empty cache at
  time \<open>1000\<close>, with the tickers and the pair rates left open.
\<close>

definition ex_cubes :: rates where
  "ex_cubes = [(''USD'', Decimal False 108 (- 2)), (''JPY'', Decimal False 16000 (- 2))]"

definition ex_basket :: rates where
  "ex_basket = [(''EUR'', Decimal False 10 (- 1)), (''USD'', Decimal False 108 (- 2)),
                (''JPY'', Decimal False 16000 (- 2))]"

definition ex_env :: "rates \<Rightarrow> (string \<Rightarrow> yahoo_response) \<Rightarrow> env" where
  "ex_env tickers yahoo =
     \<lparr>now_ecb = 1000, now_binance = 1000, now_yahoo = 1000, ecb_resp = EcbCubes ex_cubes,
      binance_resp = BinanceTickers tickers, yahoo_resp = yahoo\<rparr>"

text \<open>The cache after the two bulk fetches of such a request.\<close>

definition ex_cache :: "rates \<Rightarrow> cache" where
  "ex_cache tickers =
     \<lparr>ecb_data = Some ex_basket, ecb_timestamp = 1000,
      binance_data = Some (dict_of [] tickers), binance_timestamp = 1000,
      yahoo_data = [], yahoo_timestamp = 0, requests = [ECB_URL, BINANCE_URL_ALL]\<rparr>"

definition no_yahoo :: "string \<Rightarrow> yahoo_response" where
  "no_yahoo pair = YahooError"

definition tickers_zero_direct :: rates where
  "tickers_zero_direct =
     [(''BTCETH'', Decimal False 0 0), (''BTCUSDT'', Decimal False 60000 0),
      (''ETHUSDT'', Decimal False 3000 0)]"

definition tickers_direct :: rates where
  "tickers_direct =
     [(''BTCETH'', Decimal False 20 0), (''BTCUSDT'', Decimal False 60000 0),
      (''ETHUSDT'', Decimal False 3000 0)]"

definition tickers_usdt :: rates where
  "tickers_usdt = [(''BTCUSDT'', Decimal False 60000 0), (''ETHUSDT'', Decimal False 3000 0)]"

definition tickers_zero_usdt :: rates where
  "tickers_zero_usdt = [(''BTCUSDT'', Decimal False 0 0), (''ETHUSDT'', Decimal False 3000 0)]"

definition tickers_zero_target :: rates where
  "tickers_zero_target = [(''BTCUSDT'', Decimal False 0 0)]"

definition yahoo_const :: "decimal \<Rightarrow> string \<Rightarrow> yahoo_response" where
  "yahoo_const v pair = YahooPrice v"

text \<open>
  Every basket the code caches was built from \<^verbatim>\<open>{"EUR": Decimal("1.0")}\<close>, so a cached basket
  has the key \<open>EUR\<close>: an invariant of the cache.
\<close>

definition cache_ok :: "cache \<Rightarrow> bool" where
  "cache_ok s = (case ecb_data s of None \<Rightarrow> True | Some d \<Rightarrow> is_in ''EUR'' d)"

text \<open>A later request, two hours on, that finds the basket source down.\<close>

definition ex_env_down :: env where
  "ex_env_down =
     \<lparr>now_ecb = 8200, now_binance = 8200, now_yahoo = 8200, ecb_resp = EcbError,
      binance_resp = BinanceTickers tickers_usdt, yahoo_resp = no_yahoo\<rparr>"

text \<open>The cache after \<open>USDEUR=X\<close> was fetched at time \<open>1000\<close> and \<open>USDJPY=X\<close> at time \<open>90000\<close>.\<close>

definition ex_pairs :: cache where
  "ex_pairs =
     snd (get_yahoo_rate 90000 (yahoo_const (Decimal False 150 0)) ''USD'' ''JPY''
       (snd (get_yahoo_rate 1000 (yahoo_const (Decimal False 92 (- 2))) ''USD'' ''EUR''
          CACHE_init)))"

definition ex_pair_first :: cache where
  "ex_pair_first =
     CACHE_init\<lparr>requests := [YAHOO_URL @ ''USDEUR=X''],
       yahoo_data := [(''USDEUR=X'', Decimal False 92 (- 2))], yahoo_timestamp := 1000\<rparr>"

definition tickers_ce_usdt :: rates where
  "tickers_ce_usdt = [(''BTCUSDT'', (Decimal False 10 (- 1))), (''ETHUSDT'', (Decimal False 6 0))]"

definition tickers_ce_binance_yahoo :: rates where
  "tickers_ce_binance_yahoo = [(''BTCUSDT'', (Decimal False 46154963440974 0))]"

definition tickers_ce_binance_ecb :: rates where
  "tickers_ce_binance_ecb = [(''BTCUSDT'', (Decimal False 99 (- 1)))]"

definition tickers_ce_yahoo_binance :: rates where
  "tickers_ce_yahoo_binance = [(''BTCUSDT'', (Decimal False 520 (- 1)))]"

definition tickers_ce_ecb_binance :: rates where
  "tickers_ce_ecb_binance = [(''BTCUSDT'', (Decimal False 896 0))]"

section \<open>The value of a decimal\<close>

text \<open>
  The number a finite decimal denotes, \<open>(-1)^sign * coefficient * 10^exponent\<close>, and its
  magnitude. They are used to state how far a rounded result is from the exact one.
\<close>

definition val :: "decimal \<Rightarrow> real" where
  "val d = (if dsign d then - 1 else 1) * real (dint d) * 10 powi (dexp d)"

definition mag :: "decimal \<Rightarrow> real" where
  "mag d = real (dint d) * 10 powi (dexp d)"

text \<open>
  A normal number (\<^verbatim>\<open>Decimal.is_normal\<close>): non-zero, with an adjusted exponent of at least
  \<open>Emin\<close>.
\<close>

definition normal :: "decimal \<Rightarrow> bool" where
  "normal d = (dint d \<noteq> 0 \<and> Emin \<le> adjusted d)"

section \<open>Example data of the round trips\<close>

text \<open>Direct quotes and pair rates of the two directions that are not reciprocal.\<close>

definition tickers_rt_direct :: rates where
  "tickers_rt_direct = [(''BTCETH'', Decimal False 20 0), (''ETHBTC'', Decimal False 6 (- 2))]"

definition yahoo_rt :: "string \<Rightarrow> yahoo_response" where
  "yahoo_rt pair =
     (if pair = ''USDEUR=X'' then YahooPrice (Decimal False 9 (- 1))
      else if pair = ''EURUSD=X'' then YahooPrice (Decimal False 12 (- 1))
      else YahooError)"

text \<open>A basket whose rates have exponents beyond \<open>Emax\<close>, so that a quotient by them underflows.\<close>

definition wide_cubes :: rates where
  "wide_cubes = [(''USD'', Decimal False 2 1000020), (''JPY'', Decimal False 4 1000020)]"

definition wide_env :: env where
  "wide_env =
     \<lparr>now_ecb = 1000, now_binance = 1000, now_yahoo = 1000, ecb_resp = EcbCubes wide_cubes,
      binance_resp = BinanceTickers tickers_usdt, yahoo_resp = no_yahoo\<rparr>"

definition wide_basket :: rates where
  "wide_basket = [(''EUR'', Decimal False 10 (- 1)), (''USD'', Decimal False 2 1000020),
                  (''JPY'', Decimal False 4 1000020)]"

section \<open>Evaluation and routing lemmas\<close>

lemmas dec_eval = dec_mul_def dec_div_def dec_fix_def quantize_def rescale_def
  round_half_even_def fmt_def format_f_def adjusted_def truthy_def prec_def Emax_def Emin_def
  Etiny_def Etop_def ndigits.simps digits_str.simps digit_char_def strip_zeros.simps Let_def

lemma replicate_numeral_Cons: "replicate (numeral k) x = x # replicate (pred_numeral k) x"
  by (simp add: numeral_eq_Suc)

lemma upper_Nil: "upper [] = []"
  by (simp add: upper_def)

lemma upper_Cons: "upper (c # cs) = upper_char c # upper cs"
  by (simp add: upper_def)

lemma ex_get_ecb_rates:
  "get_ecb_rates (now_ecb (ex_env tickers yahoo)) (ecb_resp (ex_env tickers yahoo)) CACHE_init =
     (Inr ex_basket,
      CACHE_init\<lparr>requests := [ECB_URL], ecb_data := Some ex_basket, ecb_timestamp := 1000\<rparr>)"
  by (simp add: get_ecb_rates_def ex_env_def CACHE_init_def data_truthy_def dict_of_def Let_def
      ex_cubes_def ex_basket_def)

lemma ex_get_binance_prices:
  "get_binance_prices (now_binance (ex_env tickers yahoo)) (binance_resp (ex_env tickers yahoo))
     (CACHE_init\<lparr>requests := [ECB_URL], ecb_data := Some ex_basket, ecb_timestamp := 1000\<rparr>) =
     (dict_of [] tickers, ex_cache tickers)"
  by (simp add: get_binance_prices_def ex_env_def CACHE_init_def data_truthy_def ex_cache_def
      Let_def)

lemma convert_quadrants:
  assumes "get_ecb_rates (now_ecb e) (ecb_resp e) s = (Inr ecb_rates, s1)"
    and "get_binance_prices (now_binance e) (binance_resp e) s1 = (binance_prices, s2)"
  shows "convert e s from_code to_code amount =
     (if \<not> is_in (upper from_code) ecb_rates \<and> \<not> is_in (upper to_code) ecb_rates
      then (crypto_to_crypto binance_prices (upper from_code) (upper to_code) amount, s2)
      else if \<not> is_in (upper from_code) ecb_rates
      then crypto_to_fiat e ecb_rates binance_prices s2 (upper from_code) (upper to_code) amount
      else if \<not> is_in (upper to_code) ecb_rates
      then fiat_to_crypto e ecb_rates binance_prices s2 (upper from_code) (upper to_code) amount
      else fiat_to_fiat e ecb_rates s2 (upper from_code) (upper to_code) amount)"
  using assms by (simp add: convert_def Let_def)

lemma ex_convert:
  "convert (ex_env tickers yahoo) CACHE_init from_code to_code amount =
     (if \<not> is_in (upper from_code) ex_basket \<and> \<not> is_in (upper to_code) ex_basket
      then (crypto_to_crypto (dict_of [] tickers) (upper from_code) (upper to_code) amount,
            ex_cache tickers)
      else if \<not> is_in (upper from_code) ex_basket
      then crypto_to_fiat (ex_env tickers yahoo) ex_basket (dict_of [] tickers)
             (ex_cache tickers) (upper from_code) (upper to_code) amount
      else if \<not> is_in (upper to_code) ex_basket
      then fiat_to_crypto (ex_env tickers yahoo) ex_basket (dict_of [] tickers)
             (ex_cache tickers) (upper from_code) (upper to_code) amount
      else fiat_to_fiat (ex_env tickers yahoo) ex_basket (ex_cache tickers)
             (upper from_code) (upper to_code) amount)"
  by (rule convert_quadrants [OF ex_get_ecb_rates ex_get_binance_prices])

lemma response_ok:
  assumes "fmt amount = Inr a" "fmt rate = Inr r" "fmt converted = Inr c"
  shows "response f t amount rate converted via =
     Inr \<lparr>res_from = f, res_to = t, res_amount = a, res_rate = r, res_converted = c,
          res_via = via\<rparr>"
  using assms by (simp add: response_def ebind_def)

lemma cc_direct:
  assumes "map_of prices (f @ t) = Some p" "truthy p" "dec_mul amount p = Inr c"
  shows "crypto_to_crypto prices f t amount = response f t amount p c ''direct''"
  using assms by (simp add: crypto_to_crypto_def ebind_def Let_def)

lemma cc_unsupported:
  assumes "\<not> present (map_of prices (f @ t))"
    "\<not> present (map_of prices (f @ ''USDT'')) \<or> \<not> present (map_of prices (t @ ''USDT''))"
  shows "crypto_to_crypto prices f t amount =
     Inl (HTTPException 400 (''Unsupported crypto pair: '' @ f @ ''/'' @ t))"
  using assms
  by (auto simp add: crypto_to_crypto_def present_def Let_def split: option.splits)

lemma cc_bridge:
  assumes "\<not> present (map_of prices (f @ t))"
    "map_of prices (f @ ''USDT'') = Some from_usd" "truthy from_usd"
    "map_of prices (t @ ''USDT'') = Some to_usd" "truthy to_usd"
    "dec_mul amount from_usd = Inr usd_value" "dec_div usd_value to_usd = Inr c"
    "dec_div from_usd to_usd = Inr r"
  shows "crypto_to_crypto prices f t amount = response f t amount r c ''USDT''"
  using assms
  by (auto simp add: crypto_to_crypto_def present_def ebind_def Let_def split: option.splits)

lemma is_in_ex_basket: "is_in k ex_basket = (k = ''EUR'' \<or> k = ''USD'' \<or> k = ''JPY'')"
  by (auto simp add: is_in_def ex_basket_def)

lemma map_of_ex_basket:
  "map_of ex_basket ''EUR'' = Some (Decimal False 10 (- 1))"
  "map_of ex_basket ''USD'' = Some (Decimal False 108 (- 2))"
  "map_of ex_basket ''JPY'' = Some (Decimal False 16000 (- 2))"
  by (simp_all add: ex_basket_def)

lemma upper_codes:
  "upper ''BTC'' = ''BTC''" "upper ''ETH'' = ''ETH''" "upper ''USD'' = ''USD''"
  "upper ''EUR'' = ''EUR''" "upper ''JPY'' = ''JPY''" "upper ''XYZ'' = ''XYZ''"
  by (simp_all add: upper_Cons upper_Nil upper_char_def)

lemma dict_of_tickers:
  "dict_of [] tickers_zero_direct = tickers_zero_direct"
  "dict_of [] tickers_direct = tickers_direct"
  "dict_of [] tickers_usdt = tickers_usdt"
  by (simp_all add: dict_of_def tickers_zero_direct_def tickers_direct_def tickers_usdt_def)

lemma fmt_examples:
  "fmt (Decimal False 10 (- 1)) = Inr ''1.00000000''"
  "fmt (Decimal False 20 0) = Inr ''20.00000000''"
  "fmt (Decimal False 200 (- 1)) = Inr ''20.00000000''"
  "fmt (Decimal False 0 0) = Inr ''0.00000000''"
  by (simp_all add: dec_eval replicate_numeral_Cons)

lemma arith_btc_eth:
  "dec_mul (Decimal False 10 (- 1)) (Decimal False 60000 0) = Inr (Decimal False 600000 (- 1))"
  "dec_div (Decimal False 600000 (- 1)) (Decimal False 3000 0) = Inr (Decimal False 200 (- 1))"
  "dec_div (Decimal False 60000 0) (Decimal False 3000 0) = Inr (Decimal False 20 0)"
  "dec_mul (Decimal False 10 (- 1)) (Decimal False 20 0) = Inr (Decimal False 200 (- 1))"
  by (simp_all add: dec_eval)

section \<open>Crypto to crypto\<close>

text \<open>
  C2 (as amended). For a request whose two codes are both outside the fiat basket mapping:
  if the symbol from+to is listed with a non-zero price, the result has that price as rate and
  via = direct; otherwise (absent or listed as zero), if from+USDT or to+USDT is absent or
  zero, the request fails with the 400 "Unsupported crypto pair" error; otherwise the rate is
  (from+USDT price) / (to+USDT price), converted is (amount * from+USDT price) / (to+USDT price)
  and via = USDT. The success cases hold when the decimal operations and the formatting to 8
  places do not raise.
\<close>

theorem crypto_to_crypto_routing:
  assumes "get_ecb_rates (now_ecb e) (ecb_resp e) s = (Inr ecb_rates, s1)"
    and "get_binance_prices (now_binance e) (binance_resp e) s1 = (prices, s2)"
    and "\<not> is_in (upper from_code) ecb_rates" and "\<not> is_in (upper to_code) ecb_rates"
  shows
    "(map_of prices (upper from_code @ upper to_code) = Some p \<and> truthy p \<and>
      dec_mul amount p = Inr c \<and>
      fmt amount = Inr fa \<and> fmt p = Inr fr \<and> fmt c = Inr fc \<longrightarrow>
        convert e s from_code to_code amount =
          (Inr \<lparr>res_from = upper from_code, res_to = upper to_code, res_amount = fa, res_rate = fr,
                res_converted = fc, res_via = ''direct''\<rparr>, s2)) \<and>
     (\<not> present (map_of prices (upper from_code @ upper to_code)) \<and>
      (\<not> present (map_of prices (upper from_code @ ''USDT'')) \<or>
       \<not> present (map_of prices (upper to_code @ ''USDT''))) \<longrightarrow>
        convert e s from_code to_code amount =
          (Inl (HTTPException 400
             (''Unsupported crypto pair: '' @ upper from_code @ ''/'' @ upper to_code)), s2)) \<and>
     (\<not> present (map_of prices (upper from_code @ upper to_code)) \<and>
      map_of prices (upper from_code @ ''USDT'') = Some from_usd \<and> truthy from_usd \<and>
      map_of prices (upper to_code @ ''USDT'') = Some to_usd \<and> truthy to_usd \<and>
      dec_mul amount from_usd = Inr usd_value \<and> dec_div usd_value to_usd = Inr cb \<and>
      dec_div from_usd to_usd = Inr rb \<and>
      fmt amount = Inr fa \<and> fmt rb = Inr frb \<and> fmt cb = Inr fcb \<longrightarrow>
        convert e s from_code to_code amount =
          (Inr \<lparr>res_from = upper from_code, res_to = upper to_code, res_amount = fa, res_rate = frb,
                res_converted = fcb, res_via = ''USDT''\<rparr>, s2))"
proof -
  have q: "convert e s from_code to_code amount =
      (crypto_to_crypto prices (upper from_code) (upper to_code) amount, s2)"
    using assms by (simp add: convert_quadrants)
  show ?thesis
    by (simp add: q cc_direct cc_unsupported cc_bridge response_ok)
qed

theorem crypto_to_crypto_routing_witness:
  "convert (ex_env tickers_direct no_yahoo) CACHE_init ''BTC'' ''ETH'' (Decimal False 10 (- 1)) =
     (Inr \<lparr>res_from = ''BTC'', res_to = ''ETH'', res_amount = ''1.00000000'',
           res_rate = ''20.00000000'', res_converted = ''20.00000000'', res_via = ''direct''\<rparr>,
      ex_cache tickers_direct) \<and>
   convert (ex_env tickers_usdt no_yahoo) CACHE_init ''BTC'' ''XYZ'' (Decimal False 10 (- 1)) =
     (Inl (HTTPException 400 ''Unsupported crypto pair: BTC/XYZ''), ex_cache tickers_usdt) \<and>
   convert (ex_env tickers_usdt no_yahoo) CACHE_init ''BTC'' ''ETH'' (Decimal False 10 (- 1)) =
     (Inr \<lparr>res_from = ''BTC'', res_to = ''ETH'', res_amount = ''1.00000000'',
           res_rate = ''20.00000000'', res_converted = ''20.00000000'', res_via = ''USDT''\<rparr>,
      ex_cache tickers_usdt)"
proof -
  note r1 = crypto_to_crypto_routing [where from_code = "''BTC''" and to_code = "''ETH''"
      and p = "Decimal False 20 0" and amount = "Decimal False 10 (- 1)"
      and c = "Decimal False 200 (- 1)" and fa = "''1.00000000''" and fr = "''20.00000000''"
      and fc = "''20.00000000''", OF ex_get_ecb_rates [of tickers_direct no_yahoo]
      ex_get_binance_prices [of tickers_direct no_yahoo]]
  note r2 = crypto_to_crypto_routing [where from_code = "''BTC''" and to_code = "''XYZ''",
      OF ex_get_ecb_rates [of tickers_usdt no_yahoo]
      ex_get_binance_prices [of tickers_usdt no_yahoo]]
  note r3 = crypto_to_crypto_routing [where from_code = "''BTC''" and to_code = "''ETH''"
      and amount = "Decimal False 10 (- 1)" and fa = "''1.00000000''"
      and from_usd = "Decimal False 60000 0" and to_usd = "Decimal False 3000 0"
      and usd_value = "Decimal False 600000 (- 1)" and cb = "Decimal False 200 (- 1)"
      and rb = "Decimal False 20 0" and frb = "''20.00000000''" and fcb = "''20.00000000''",
      OF ex_get_ecb_rates [of tickers_usdt no_yahoo]
      ex_get_binance_prices [of tickers_usdt no_yahoo]]
  have a: "convert (ex_env tickers_direct no_yahoo) CACHE_init ''BTC'' ''ETH''
      (Decimal False 10 (- 1)) =
     (Inr \<lparr>res_from = ''BTC'', res_to = ''ETH'', res_amount = ''1.00000000'',
           res_rate = ''20.00000000'', res_converted = ''20.00000000'', res_via = ''direct''\<rparr>,
      ex_cache tickers_direct)"
    using r1
    by (simp add: upper_codes is_in_ex_basket dict_of_def fmt_examples arith_btc_eth
        truthy_def tickers_direct_def)
  have b: "convert (ex_env tickers_usdt no_yahoo) CACHE_init ''BTC'' ''XYZ''
      (Decimal False 10 (- 1)) =
     (Inl (HTTPException 400 ''Unsupported crypto pair: BTC/XYZ''), ex_cache tickers_usdt)"
    using r2
    by (simp add: upper_codes is_in_ex_basket dict_of_def present_def tickers_usdt_def)
  have c: "convert (ex_env tickers_usdt no_yahoo) CACHE_init ''BTC'' ''ETH''
      (Decimal False 10 (- 1)) =
     (Inr \<lparr>res_from = ''BTC'', res_to = ''ETH'', res_amount = ''1.00000000'',
           res_rate = ''20.00000000'', res_converted = ''20.00000000'', res_via = ''USDT''\<rparr>,
      ex_cache tickers_usdt)"
    using r3
    by (simp add: upper_codes is_in_ex_basket dict_of_def fmt_examples arith_btc_eth
        truthy_def present_def tickers_usdt_def)
  show ?thesis
    using a b c by simp
qed

text \<open>
  The claim as stated fails where a listed price is zero: with \<open>BTCETH\<close> listed at \<open>0\<close> the
  result is not the direct one (rate \<open>0\<close>, via = direct) but the bridged one.
\<close>

theorem crypto_to_crypto_zero_direct_counterexample:
  "\<not> is_in (upper ''BTC'') ex_basket \<and> \<not> is_in (upper ''ETH'') ex_basket \<and>
   map_of (dict_of [] tickers_zero_direct) (upper ''BTC'' @ upper ''ETH'') =
     Some (Decimal False 0 0) \<and>
   convert (ex_env tickers_zero_direct no_yahoo) CACHE_init ''BTC'' ''ETH''
       (Decimal False 10 (- 1)) =
     (Inr \<lparr>res_from = ''BTC'', res_to = ''ETH'', res_amount = ''1.00000000'',
           res_rate = ''20.00000000'', res_converted = ''20.00000000'', res_via = ''USDT''\<rparr>,
      ex_cache tickers_zero_direct)"
  by (simp add: ex_convert upper_codes is_in_ex_basket dict_of_tickers)
    (simp add: tickers_zero_direct_def crypto_to_crypto_def present_def truthy_def ebind_def
      arith_btc_eth response_def fmt_examples)

section \<open>Routing lemmas of the fiat quadrants\<close>

lemma cf_unsupported:
  assumes "\<not> present (map_of prices (f @ ''USDT''))"
  shows "crypto_to_fiat e ecb_rates prices s f t amount =
     (Inl (HTTPException 400 (''Unsupported crypto: '' @ f)), s)"
  using assms by (auto simp add: crypto_to_fiat_def present_def split: option.splits)

lemma cf_usd:
  assumes "map_of prices (f @ ''USDT'') = Some p" "truthy p" "dec_mul amount p = Inr usd_amount"
  shows "crypto_to_fiat e ecb_rates prices s f ''USD'' amount =
     (response f ''USD'' amount p usd_amount ''binance'', s)"
  using assms by (simp add: crypto_to_fiat_def)

lemma cf_yahoo:
  assumes "map_of prices (f @ ''USDT'') = Some p" "truthy p" "dec_mul amount p = Inr usd_amount"
    "t \<noteq> ''USD''" "get_yahoo_rate (now_yahoo e) (yahoo_resp e) ''USD'' t s = (Some y, s')"
    "truthy y" "dec_mul usd_amount y = Inr c" "dec_mul p y = Inr r"
  shows "crypto_to_fiat e ecb_rates prices s f t amount =
     (response f t amount r c ''binance+yahoo'', s')"
  using assms by (simp add: crypto_to_fiat_def ebind_def Let_def response_def)

lemma cf_ecb:
  assumes "map_of prices (f @ ''USDT'') = Some p" "truthy p" "dec_mul amount p = Inr usd_amount"
    "t \<noteq> ''USD''" "get_yahoo_rate (now_yahoo e) (yahoo_resp e) ''USD'' t s = (yahoo_rate, s')"
    "\<not> present yahoo_rate"
    "map_of ecb_rates ''USD'' = Some usd" "dec_div (Decimal False 1 0) usd = Inr usd_to_eur"
    "dec_mul usd_amount usd_to_eur = Inr eur_amount" "map_of ecb_rates t = Some to_rate"
    "dec_mul eur_amount to_rate = Inr c" "dec_mul p usd_to_eur = Inr r1"
    "dec_mul r1 to_rate = Inr r"
  shows "crypto_to_fiat e ecb_rates prices s f t amount =
     (response f t amount r c ''binance+ecb'', s')"
  using assms
  by (auto simp add: crypto_to_fiat_def ebind_def Let_def getitem_def present_def
      split: option.splits)

lemma fc_unsupported:
  assumes "\<not> present (map_of prices (t @ ''USDT''))"
  shows "fiat_to_crypto e ecb_rates prices s f t amount =
     (Inl (HTTPException 400 (''Unsupported target crypto: '' @ t)), s)"
  using assms by (auto simp add: fiat_to_crypto_def present_def split: option.splits)

lemma fc_yahoo:
  assumes "map_of prices (t @ ''USDT'') = Some p" "truthy p"
    "get_yahoo_rate (now_yahoo e) (yahoo_resp e) f ''USD'' s = (Some y, s')" "truthy y"
  shows "fiat_to_crypto e ecb_rates prices s f t amount =
     (ebind (dec_mul amount y) (\<lambda>usd_amount.
      ebind (dec_div usd_amount p) (\<lambda>converted.
      ebind (dec_mul amount p) (\<lambda>denom.
      ebind (dec_div usd_amount denom) (\<lambda>rate.
        response f t amount rate converted ''yahoo+binance'')))), s')"
  using assms by (simp add: fiat_to_crypto_def Let_def present_def)

lemma fc_ecb:
  assumes "map_of prices (t @ ''USDT'') = Some p" "truthy p"
    "get_yahoo_rate (now_yahoo e) (yahoo_resp e) f ''USD'' s = (yahoo_rate, s')"
    "\<not> present yahoo_rate"
  shows "fiat_to_crypto e ecb_rates prices s f t amount =
     (ebind (ebind (getitem ecb_rates f) (\<lambda>from_rate.
             ebind (dec_div amount from_rate) (\<lambda>eur.
             ebind (getitem ecb_rates ''USD'') (\<lambda>usd. dec_mul eur usd)))) (\<lambda>usd_amount.
      ebind (dec_div usd_amount p) (\<lambda>converted.
      ebind (dec_mul amount p) (\<lambda>denom.
      ebind (dec_div usd_amount denom) (\<lambda>rate.
        response f t amount rate converted ''ecb+binance'')))), s')"
  using assms
  by (auto simp add: fiat_to_crypto_def Let_def present_def split: option.splits)

lemma ff_yahoo:
  assumes "get_yahoo_rate (now_yahoo e) (yahoo_resp e) f t s = (Some y, s')" "truthy y"
    "dec_mul amount y = Inr c"
  shows "fiat_to_fiat e ecb_rates s f t amount = (response f t amount y c ''yahoo'', s')"
  using assms by (simp add: fiat_to_fiat_def Let_def ebind_def)

lemma ff_ecb:
  assumes "get_yahoo_rate (now_yahoo e) (yahoo_resp e) f t s = (yahoo_rate, s')"
    "\<not> present yahoo_rate"
    "map_of ecb_rates f = Some from_rate" "map_of ecb_rates t = Some to_rate"
    "dec_div amount from_rate = Inr eur_amount" "dec_mul eur_amount to_rate = Inr c"
    "dec_div to_rate from_rate = Inr r"
  shows "fiat_to_fiat e ecb_rates s f t amount = (response f t amount r c ''ecb'', s')"
  using assms
  by (auto simp add: fiat_to_fiat_def Let_def ebind_def getitem_def present_def
      split: option.splits)

lemma arith_half_btc:
  "dec_mul (Decimal False 5 (- 1)) (Decimal False 60000 0) = Inr (Decimal False 300000 (- 1))"
  by (simp add: dec_eval)

lemma fmt_half_btc:
  "fmt (Decimal False 5 (- 1)) = Inr ''0.50000000''"
  "fmt (Decimal False 60000 0) = Inr ''60000.00000000''"
  "fmt (Decimal False 300000 (- 1)) = Inr ''30000.00000000''"
  by (simp_all add: dec_eval replicate_numeral_Cons)

section \<open>Crypto to fiat\<close>

text \<open>
  C3 (as amended). For a request whose from code is outside the fiat basket mapping and whose
  to code is in it: if from+USDT is absent from the crypto price mapping (or listed at zero)
  the request fails with the 400 "Unsupported crypto" error; if from+USDT is listed with a
  non-zero price and to is USD, the result has that price as rate, converted = amount * price
  and via = binance, provided the multiplication and the formatting to 8 places do not raise.
  In particular from = BTC, to = USD, amount = 0.5 with BTCUSDT at 60000 gives converted
  \<^verbatim>\<open>30000.00000000\<close> and via = binance.
\<close>

theorem crypto_to_fiat_routing:
  assumes "get_ecb_rates (now_ecb e) (ecb_resp e) s = (Inr ecb_rates, s1)"
    and "get_binance_prices (now_binance e) (binance_resp e) s1 = (prices, s2)"
  shows
    "(\<not> is_in (upper from_code) ecb_rates \<and> is_in (upper to_code) ecb_rates \<and>
      \<not> present (map_of prices (upper from_code @ ''USDT'')) \<longrightarrow>
        convert e s from_code to_code amount =
          (Inl (HTTPException 400 (''Unsupported crypto: '' @ upper from_code)), s2)) \<and>
     (\<not> is_in (upper from_code) ecb_rates \<and> is_in (upper to_code) ecb_rates \<and>
      map_of prices (upper from_code @ ''USDT'') = Some p \<and> truthy p \<and>
      upper to_code = ''USD'' \<and> dec_mul amount p = Inr c \<and>
      fmt amount = Inr fa \<and> fmt p = Inr fr \<and> fmt c = Inr fc \<longrightarrow>
        convert e s from_code to_code amount =
          (Inr \<lparr>res_from = upper from_code, res_to = ''USD'', res_amount = fa, res_rate = fr,
                res_converted = fc, res_via = ''binance''\<rparr>, s2)) \<and>
     (\<not> is_in ''BTC'' ecb_rates \<and> is_in ''USD'' ecb_rates \<and>
      map_of prices ''BTCUSDT'' = Some (Decimal False 60000 0) \<longrightarrow>
        convert e s ''BTC'' ''USD'' (Decimal False 5 (- 1)) =
          (Inr \<lparr>res_from = ''BTC'', res_to = ''USD'', res_amount = ''0.50000000'',
                res_rate = ''60000.00000000'', res_converted = ''30000.00000000'',
                res_via = ''binance''\<rparr>, s2))"
proof -
  note q = convert_quadrants [OF assms]
  have 1: "\<not> is_in (upper from_code) ecb_rates \<and> is_in (upper to_code) ecb_rates \<and>
      \<not> present (map_of prices (upper from_code @ ''USDT'')) \<longrightarrow>
        convert e s from_code to_code amount =
          (Inl (HTTPException 400 (''Unsupported crypto: '' @ upper from_code)), s2)"
    by (simp add: q cf_unsupported)
  have 2: "\<not> is_in (upper from_code) ecb_rates \<and> is_in (upper to_code) ecb_rates \<and>
      map_of prices (upper from_code @ ''USDT'') = Some p \<and> truthy p \<and>
      upper to_code = ''USD'' \<and> dec_mul amount p = Inr c \<and>
      fmt amount = Inr fa \<and> fmt p = Inr fr \<and> fmt c = Inr fc \<longrightarrow>
        convert e s from_code to_code amount =
          (Inr \<lparr>res_from = upper from_code, res_to = ''USD'', res_amount = fa, res_rate = fr,
                res_converted = fc, res_via = ''binance''\<rparr>, s2)"
    by (clarsimp simp add: q cf_usd response_ok)
  have 3: "\<not> is_in ''BTC'' ecb_rates \<and> is_in ''USD'' ecb_rates \<and>
      map_of prices ''BTCUSDT'' = Some (Decimal False 60000 0) \<longrightarrow>
        convert e s ''BTC'' ''USD'' (Decimal False 5 (- 1)) =
          (Inr \<lparr>res_from = ''BTC'', res_to = ''USD'', res_amount = ''0.50000000'',
                res_rate = ''60000.00000000'', res_converted = ''30000.00000000'',
                res_via = ''binance''\<rparr>, s2)"
    using cf_usd [of prices "''BTC''" "Decimal False 60000 0" "Decimal False 5 (- 1)"
        "Decimal False 300000 (- 1)" e ecb_rates s2]
    by (simp add: q upper_codes arith_half_btc truthy_def response_ok fmt_half_btc)
  show ?thesis
    using 1 2 3 by blast
qed

theorem crypto_to_fiat_routing_witness:
  "convert (ex_env tickers_usdt no_yahoo) CACHE_init ''XYZ'' ''USD'' (Decimal False 5 (- 1)) =
     (Inl (HTTPException 400 ''Unsupported crypto: XYZ''), ex_cache tickers_usdt) \<and>
   convert (ex_env tickers_usdt no_yahoo) CACHE_init ''BTC'' ''USD'' (Decimal False 5 (- 1)) =
     (Inr \<lparr>res_from = ''BTC'', res_to = ''USD'', res_amount = ''0.50000000'',
           res_rate = ''60000.00000000'', res_converted = ''30000.00000000'',
           res_via = ''binance''\<rparr>, ex_cache tickers_usdt)"
proof -
  note r = crypto_to_fiat_routing [OF ex_get_ecb_rates [of tickers_usdt no_yahoo]
      ex_get_binance_prices [of tickers_usdt no_yahoo]]
  have a: "convert (ex_env tickers_usdt no_yahoo) CACHE_init ''XYZ'' ''USD''
      (Decimal False 5 (- 1)) =
     (Inl (HTTPException 400 ''Unsupported crypto: XYZ''), ex_cache tickers_usdt)"
    using r [where from_code = "''XYZ''" and to_code = "''USD''"]
    by (simp add: upper_codes is_in_ex_basket dict_of_def tickers_usdt_def present_def)
  have b: "convert (ex_env tickers_usdt no_yahoo) CACHE_init ''BTC'' ''USD''
      (Decimal False 5 (- 1)) =
     (Inr \<lparr>res_from = ''BTC'', res_to = ''USD'', res_amount = ''0.50000000'',
           res_rate = ''60000.00000000'', res_converted = ''30000.00000000'',
           res_via = ''binance''\<rparr>, ex_cache tickers_usdt)"
    using r [where from_code = "''BTC''" and to_code = "''USD''"
        and p = "Decimal False 60000 0" and amount = "Decimal False 5 (- 1)"
        and c = "Decimal False 300000 (- 1)" and fa = "''0.50000000''"
        and fr = "''60000.00000000''" and fc = "''30000.00000000''"]
    by (simp add: upper_codes is_in_ex_basket dict_of_def tickers_usdt_def truthy_def
        arith_half_btc fmt_half_btc)
  show ?thesis
    using a b by simp
qed

text \<open>
  The claim as stated fails where from+USDT is listed at zero: the request is refused with the
  400 error instead of returning rate \<open>0\<close> via binance.
\<close>

theorem crypto_to_fiat_zero_price_counterexample:
  "\<not> is_in (upper ''BTC'') ex_basket \<and> is_in (upper ''USD'') ex_basket \<and>
   map_of (dict_of [] tickers_zero_usdt) (upper ''BTC'' @ ''USDT'') = Some (Decimal False 0 0) \<and>
   convert (ex_env tickers_zero_usdt no_yahoo) CACHE_init ''BTC'' ''USD''
       (Decimal False 5 (- 1)) =
     (Inl (HTTPException 400 ''Unsupported crypto: BTC''), ex_cache tickers_zero_usdt)"
  by (simp add: ex_convert upper_codes is_in_ex_basket dict_of_def tickers_zero_usdt_def
      crypto_to_fiat_def truthy_def)

section \<open>Zero operands\<close>

lemma dec_fix_zero:
  "dec_fix (Decimal sg 0 ex) = Inr (Decimal sg 0 (min (max ex Etiny) Emax))"
  by (simp add: dec_fix_def)

lemma dec_mul_zero_left:
  assumes "dint x = 0"
  shows "\<exists>z. dec_mul x y = Inr z \<and> dint z = 0"
  using assms by (simp add: dec_mul_def dec_fix_zero)

lemma dec_mul_zero_right:
  assumes "dint y = 0"
  shows "\<exists>z. dec_mul x y = Inr z \<and> dint z = 0"
  using assms by (simp add: dec_mul_def dec_fix_zero)

lemma dec_div_zero_left:
  assumes "dint x = 0" "dint y \<noteq> 0"
  shows "\<exists>z. dec_div x y = Inr z \<and> dint z = 0"
  using assms by (simp add: dec_div_def dec_fix_zero)

lemma dec_div_zero_zero:
  assumes "dint x = 0" "dint y = 0"
  shows "dec_div x y = Inl InvalidOperation"
  using assms by (simp add: dec_div_def)

lemma zero_rate:
  assumes "dint amount = 0" "dint p \<noteq> 0" "dint usd_amount = 0"
  shows "ebind (dec_div usd_amount p) (\<lambda>converted.
         ebind (dec_mul amount p) (\<lambda>denom.
         ebind (dec_div usd_amount denom) (\<lambda>rate.
           response f t amount rate converted via))) = Inl InvalidOperation"
proof -
  obtain c where c: "dec_div usd_amount p = Inr c"
    using dec_div_zero_left [OF assms(3) assms(2)] by blast
  obtain d where d: "dec_mul amount p = Inr d" "dint d = 0"
    using dec_mul_zero_left [OF assms(1)] by blast
  show ?thesis
    by (simp add: ebind_def c d dec_div_zero_zero [OF assms(3) d(2)])
qed

lemma ex_get_yahoo_rate_error:
  "get_yahoo_rate (now_yahoo (ex_env tickers no_yahoo)) (yahoo_resp (ex_env tickers no_yahoo))
     base quote (ex_cache tickers) =
     (None, (ex_cache tickers)\<lparr>requests :=
        [ECB_URL, BINANCE_URL_ALL, YAHOO_URL @ upper base @ upper quote @ ''=X'']\<rparr>)"
  by (simp add: get_yahoo_rate_def ex_env_def ex_cache_def no_yahoo_def Let_def)

section \<open>Fiat to crypto with amount zero\<close>

text \<open>
  C9 (as amended). For every request whose from code is in the fiat basket mapping and whose to
  code is not, with amount = 0 and to+USDT listed at a non-zero price, the request raises an
  unhandled error instead of returning a result or a 4xx error: the decimal
  \<^verbatim>\<open>InvalidOperation\<close> of a division of zero by zero (in the rate computation
  \<^verbatim>\<open>usd_amount / (amount * crypto_price_usd)\<close>, or already in \<^verbatim>\<open>amount / ecb_rates[from]\<close>
  when that basket entry is zero), except that it is \<^verbatim>\<open>KeyError('USD')\<close> when the pair provider
  yields no usable rate, the basket has no USD entry and the basket entry of from is not zero.
\<close>

theorem fiat_to_crypto_zero_amount:
  assumes "get_ecb_rates (now_ecb e) (ecb_resp e) s = (Inr ecb_rates, s1)"
    and "get_binance_prices (now_binance e) (binance_resp e) s1 = (prices, s2)"
    and "is_in (upper from_code) ecb_rates" and "\<not> is_in (upper to_code) ecb_rates"
    and "dint amount = 0"
    and "map_of prices (upper to_code @ ''USDT'') = Some p" and "truthy p"
    and "get_yahoo_rate (now_yahoo e) (yahoo_resp e) (upper from_code) ''USD'' s2 =
           (yahoo_rate, s3)"
  shows "convert e s from_code to_code amount =
     (Inl (if present yahoo_rate \<or> is_in ''USD'' ecb_rates \<or>
              \<not> present (map_of ecb_rates (upper from_code))
           then InvalidOperation else KeyError ''USD''), s3)"
proof -
  have q: "convert e s from_code to_code amount =
      fiat_to_crypto e ecb_rates prices s2 (upper from_code) (upper to_code) amount"
    using assms(3,4) by (simp add: convert_quadrants [OF assms(1,2)])
  have p0: "dint p \<noteq> 0"
    using assms(7) by (simp add: truthy_def)
  show ?thesis
  proof (cases "present yahoo_rate")
    case True
    then obtain y where y: "yahoo_rate = Some y" "truthy y"
      by (auto simp add: present_def split: option.splits)
    obtain u where u: "dec_mul amount y = Inr u" "dint u = 0"
      using dec_mul_zero_left [OF assms(5)] by blast
    have "fiat_to_crypto e ecb_rates prices s2 (upper from_code) (upper to_code) amount =
        (Inl InvalidOperation, s3)"
      using fc_yahoo [OF assms(6,7) assms(8) [unfolded y(1)] y(2)]
        zero_rate [OF assms(5) p0 u(2)]
      by (simp add: u(1) ebind_def)
    then show ?thesis
      using True by (simp add: q)
  next
    case False
    obtain fr where fr: "map_of ecb_rates (upper from_code) = Some fr"
      using assms(3) by (auto simp add: is_in_def)
    note e1 = fc_ecb [OF assms(6,7,8) False, of ecb_rates amount]
    show ?thesis
    proof (cases "truthy fr")
      case nz: True
      obtain eur where eur: "dec_div amount fr = Inr eur" "dint eur = 0"
        using dec_div_zero_left [OF assms(5)] nz by (auto simp add: truthy_def)
      show ?thesis
      proof (cases "map_of ecb_rates ''USD''")
        case None
        then show ?thesis
          using False nz
          by (simp add: q e1 getitem_def fr eur ebind_def is_in_def present_def)
      next
        case (Some usd)
        obtain u where u: "dec_mul eur usd = Inr u" "dint u = 0"
          using dec_mul_zero_left [OF eur(2)] by blast
        have "fiat_to_crypto e ecb_rates prices s2 (upper from_code) (upper to_code) amount =
            (Inl InvalidOperation, s3)"
          using zero_rate [OF assms(5) p0 u(2)]
          by (simp add: e1 getitem_def fr eur(1) Some u(1) ebind_def)
        then show ?thesis
          using Some by (simp add: q is_in_def)
      qed
    next
      case z: False
      have "dec_div amount fr = Inl InvalidOperation"
        using dec_div_zero_zero [OF assms(5)] z by (simp add: truthy_def)
      then show ?thesis
        using False z by (simp add: q e1 getitem_def fr ebind_def present_def)
    qed
  qed
qed

theorem fiat_to_crypto_zero_amount_witness:
  "fst (convert (ex_env tickers_usdt no_yahoo) CACHE_init ''USD'' ''BTC'' (Decimal False 0 (- 1)))
     = Inl InvalidOperation"
  using fiat_to_crypto_zero_amount [OF ex_get_ecb_rates [of tickers_usdt no_yahoo]
      ex_get_binance_prices [of tickers_usdt no_yahoo], where from_code = "''USD''"
      and to_code = "''BTC''" and amount = "Decimal False 0 (- 1)"
      and p = "Decimal False 60000 0", OF _ _ _ _ _ ex_get_yahoo_rate_error]
  by (simp add: upper_codes is_in_ex_basket dict_of_def tickers_usdt_def truthy_def)

text \<open>
  The claim as stated fails where to+USDT is listed at zero: the request gets the 400 error of
  an unsupported target.
\<close>

theorem fiat_to_crypto_zero_target_counterexample:
  "is_in (upper ''USD'') ex_basket \<and> \<not> is_in (upper ''BTC'') ex_basket \<and>
   map_of (dict_of [] tickers_zero_target) (upper ''BTC'' @ ''USDT'') = Some (Decimal False 0 0) \<and>
   convert (ex_env tickers_zero_target no_yahoo) CACHE_init ''USD'' ''BTC''
       (Decimal False 0 (- 1)) =
     (Inl (HTTPException 400 ''Unsupported target crypto: BTC''), ex_cache tickers_zero_target)"
  by (simp add: ex_convert upper_codes is_in_ex_basket dict_of_def tickers_zero_target_def
      fiat_to_crypto_def truthy_def)

lemma ex_get_yahoo_rate_price:
  "get_yahoo_rate (now_yahoo (ex_env tickers (yahoo_const v)))
     (yahoo_resp (ex_env tickers (yahoo_const v))) base quote (ex_cache tickers) =
     (Some v, (ex_cache tickers)\<lparr>requests :=
        [ECB_URL, BINANCE_URL_ALL, YAHOO_URL @ upper base @ upper quote @ ''=X''],
        yahoo_data := [(upper base @ upper quote @ ''=X'', v)], yahoo_timestamp := 1000\<rparr>)"
  by (simp add: get_yahoo_rate_def ex_env_def ex_cache_def yahoo_const_def Let_def)

lemma arith_usd_eur:
  "dec_div (Decimal False 1000 (- 1)) (Decimal False 108 (- 2)) =
     Inr (Decimal False 9259259259259259259259259259 (- 26))"
  "dec_mul (Decimal False 9259259259259259259259259259 (- 26)) (Decimal False 10 (- 1)) =
     Inr (Decimal False 9259259259259259259259259259 (- 26))"
  "dec_div (Decimal False 10 (- 1)) (Decimal False 108 (- 2)) =
     Inr (Decimal False 9259259259259259259259259259 (- 28))"
  by (simp_all add: dec_eval)

lemma fmt_usd_eur:
  "fmt (Decimal False 1000 (- 1)) = Inr ''100.00000000''"
  "fmt (Decimal False 9259259259259259259259259259 (- 26)) = Inr ''92.59259259''"
  "fmt (Decimal False 9259259259259259259259259259 (- 28)) = Inr ''0.92592593''"
  by (simp_all add: dec_eval replicate_numeral_Cons)

section \<open>Zero is treated as absent\<close>



section \<open>Fiat to fiat\<close>

lemma get_yahoo_rate_error:
  assumes "\<not> (map_of (yahoo_data s) (upper base @ upper quote @ ''=X'') \<noteq> None \<and>
             now - yahoo_timestamp s < YAHOO_TTL)"
    and "resp (upper base @ upper quote @ ''=X'') = YahooError"
  shows "get_yahoo_rate now resp base quote s =
     (None, s\<lparr>requests := requests s @ [YAHOO_URL @ upper base @ upper quote @ ''=X'']\<rparr>)"
  using assms by (auto simp add: get_yahoo_rate_def Let_def)

text \<open>
  C5 (as amended). For a request whose two codes are both in the fiat basket mapping: the pair
  provider returns a rate or absent and never an error, and a failed fetch (any exception of
  the request, the decoding or the conversion of the price) yields absent; when it yields
  absent or zero, the result is computed from the basket as rate = basket[to] / basket[from],
  converted = (amount / basket[from]) * basket[to], with via = ecb; when it yields a non-zero
  rate, the result has that rate and via = yahoo. The success cases hold when the decimal
  operations and the formatting to 8 places do not raise (in particular basket[from] is not
  zero).
\<close>

theorem fiat_to_fiat_routing:
  assumes "get_ecb_rates (now_ecb e) (ecb_resp e) s = (Inr ecb_rates, s1)"
    and "get_binance_prices (now_binance e) (binance_resp e) s1 = (prices, s2)"
    and "is_in (upper from_code) ecb_rates" and "is_in (upper to_code) ecb_rates"
  shows
    "(\<not> (map_of (yahoo_data s2) (upper (upper from_code) @ upper (upper to_code) @ ''=X'') \<noteq> None
         \<and> now_yahoo e - yahoo_timestamp s2 < YAHOO_TTL) \<and>
      yahoo_resp e (upper (upper from_code) @ upper (upper to_code) @ ''=X'') = YahooError \<longrightarrow>
        fst (get_yahoo_rate (now_yahoo e) (yahoo_resp e) (upper from_code) (upper to_code) s2)
          = None) \<and>
     (get_yahoo_rate (now_yahoo e) (yahoo_resp e) (upper from_code) (upper to_code) s2 =
        (yahoo_rate, s3) \<and> \<not> present yahoo_rate \<and>
      map_of ecb_rates (upper from_code) = Some from_rate \<and>
      map_of ecb_rates (upper to_code) = Some to_rate \<and>
      dec_div amount from_rate = Inr eur_amount \<and> dec_mul eur_amount to_rate = Inr ce \<and>
      dec_div to_rate from_rate = Inr re \<and>
      fmt amount = Inr fa \<and> fmt re = Inr fre \<and> fmt ce = Inr fce \<longrightarrow>
        convert e s from_code to_code amount =
          (Inr \<lparr>res_from = upper from_code, res_to = upper to_code, res_amount = fa,
                res_rate = fre, res_converted = fce, res_via = ''ecb''\<rparr>, s3)) \<and>
     (get_yahoo_rate (now_yahoo e) (yahoo_resp e) (upper from_code) (upper to_code) s2 =
        (Some y, s3) \<and> truthy y \<and> dec_mul amount y = Inr cy \<and>
      fmt amount = Inr fa \<and> fmt y = Inr fy \<and> fmt cy = Inr fcy \<longrightarrow>
        convert e s from_code to_code amount =
          (Inr \<lparr>res_from = upper from_code, res_to = upper to_code, res_amount = fa,
                res_rate = fy, res_converted = fcy, res_via = ''yahoo''\<rparr>, s3))"
proof -
  have q: "convert e s from_code to_code amount =
      fiat_to_fiat e ecb_rates s2 (upper from_code) (upper to_code) amount"
    using assms(3,4) by (simp add: convert_quadrants [OF assms(1,2)])
  have 1: "\<not> (map_of (yahoo_data s2) (upper (upper from_code) @ upper (upper to_code) @ ''=X'')
          \<noteq> None \<and> now_yahoo e - yahoo_timestamp s2 < YAHOO_TTL) \<and>
      yahoo_resp e (upper (upper from_code) @ upper (upper to_code) @ ''=X'') = YahooError \<longrightarrow>
        fst (get_yahoo_rate (now_yahoo e) (yahoo_resp e) (upper from_code) (upper to_code) s2)
          = None"
    using get_yahoo_rate_error [of s2 "upper from_code" "upper to_code" "now_yahoo e"
        "yahoo_resp e"]
    by auto
  have 2: "get_yahoo_rate (now_yahoo e) (yahoo_resp e) (upper from_code) (upper to_code) s2 =
        (yahoo_rate, s3) \<and> \<not> present yahoo_rate \<and>
      map_of ecb_rates (upper from_code) = Some from_rate \<and>
      map_of ecb_rates (upper to_code) = Some to_rate \<and>
      dec_div amount from_rate = Inr eur_amount \<and> dec_mul eur_amount to_rate = Inr ce \<and>
      dec_div to_rate from_rate = Inr re \<and>
      fmt amount = Inr fa \<and> fmt re = Inr fre \<and> fmt ce = Inr fce \<longrightarrow>
        convert e s from_code to_code amount =
          (Inr \<lparr>res_from = upper from_code, res_to = upper to_code, res_amount = fa,
                res_rate = fre, res_converted = fce, res_via = ''ecb''\<rparr>, s3)"
  proof (intro impI, elim conjE)
    assume h: "get_yahoo_rate (now_yahoo e) (yahoo_resp e) (upper from_code) (upper to_code) s2
        = (yahoo_rate, s3)" "\<not> present yahoo_rate"
      "map_of ecb_rates (upper from_code) = Some from_rate"
      "map_of ecb_rates (upper to_code) = Some to_rate"
      "dec_div amount from_rate = Inr eur_amount" "dec_mul eur_amount to_rate = Inr ce"
      "dec_div to_rate from_rate = Inr re"
      "fmt amount = Inr fa" "fmt re = Inr fre" "fmt ce = Inr fce"
    show "convert e s from_code to_code amount =
          (Inr \<lparr>res_from = upper from_code, res_to = upper to_code, res_amount = fa,
                res_rate = fre, res_converted = fce, res_via = ''ecb''\<rparr>, s3)"
      by (simp add: q ff_ecb [OF h(1,2,3,4,5,6,7)] response_ok [OF h(8,9,10)])
  qed
  have 3: "get_yahoo_rate (now_yahoo e) (yahoo_resp e) (upper from_code) (upper to_code) s2 =
        (Some y, s3) \<and> truthy y \<and> dec_mul amount y = Inr cy \<and>
      fmt amount = Inr fa \<and> fmt y = Inr fy \<and> fmt cy = Inr fcy \<longrightarrow>
        convert e s from_code to_code amount =
          (Inr \<lparr>res_from = upper from_code, res_to = upper to_code, res_amount = fa,
                res_rate = fy, res_converted = fcy, res_via = ''yahoo''\<rparr>, s3)"
  proof (intro impI, elim conjE)
    assume h: "get_yahoo_rate (now_yahoo e) (yahoo_resp e) (upper from_code) (upper to_code) s2
        = (Some y, s3)" "truthy y" "dec_mul amount y = Inr cy"
      "fmt amount = Inr fa" "fmt y = Inr fy" "fmt cy = Inr fcy"
    show "convert e s from_code to_code amount =
          (Inr \<lparr>res_from = upper from_code, res_to = upper to_code, res_amount = fa,
                res_rate = fy, res_converted = fcy, res_via = ''yahoo''\<rparr>, s3)"
      by (simp add: q ff_yahoo [OF h(1,2,3)] response_ok [OF h(4,5,6)])
  qed
  show ?thesis
    using 1 2 3 by blast
qed

lemma arith_usd_eur_yahoo:
  "dec_mul (Decimal False 1000 (- 1)) (Decimal False 92 (- 2)) = Inr (Decimal False 92000 (- 3))"
  by (simp add: dec_eval)

lemma fmt_usd_eur_yahoo:
  "fmt (Decimal False 92 (- 2)) = Inr ''0.92000000''"
  "fmt (Decimal False 92000 (- 3)) = Inr ''92.00000000''"
  by (simp_all add: dec_eval replicate_numeral_Cons)

theorem fiat_to_fiat_routing_witness:
  "fst (get_yahoo_rate (now_yahoo (ex_env tickers_usdt no_yahoo))
      (yahoo_resp (ex_env tickers_usdt no_yahoo)) ''USD'' ''EUR'' (ex_cache tickers_usdt)) = None \<and>
   fst (convert (ex_env tickers_usdt no_yahoo) CACHE_init ''USD'' ''EUR''
      (Decimal False 1000 (- 1))) =
     Inr \<lparr>res_from = ''USD'', res_to = ''EUR'', res_amount = ''100.00000000'',
          res_rate = ''0.92592593'', res_converted = ''92.59259259'', res_via = ''ecb''\<rparr> \<and>
   fst (convert (ex_env tickers_usdt (yahoo_const (Decimal False 92 (- 2)))) CACHE_init
      ''USD'' ''EUR'' (Decimal False 1000 (- 1))) =
     Inr \<lparr>res_from = ''USD'', res_to = ''EUR'', res_amount = ''100.00000000'',
          res_rate = ''0.92000000'', res_converted = ''92.00000000'', res_via = ''yahoo''\<rparr>"
proof -
  note r = fiat_to_fiat_routing [OF ex_get_ecb_rates [of tickers_usdt no_yahoo]
      ex_get_binance_prices [of tickers_usdt no_yahoo], where from_code = "''USD''"
      and to_code = "''EUR''" and amount = "Decimal False 1000 (- 1)"
      and fa = "''100.00000000''" and yahoo_rate = None
      and from_rate = "Decimal False 108 (- 2)" and to_rate = "Decimal False 10 (- 1)"
      and eur_amount = "Decimal False 9259259259259259259259259259 (- 26)"
      and ce = "Decimal False 9259259259259259259259259259 (- 26)"
      and re = "Decimal False 9259259259259259259259259259 (- 28)"
      and fre = "''0.92592593''" and fce = "''92.59259259''"
      and ?s3.0 = "(ex_cache tickers_usdt)\<lparr>requests :=
        [ECB_URL, BINANCE_URL_ALL, YAHOO_URL @ upper ''USD'' @ upper ''EUR'' @ ''=X'']\<rparr>"]
  have a: "fst (get_yahoo_rate (now_yahoo (ex_env tickers_usdt no_yahoo))
      (yahoo_resp (ex_env tickers_usdt no_yahoo)) ''USD'' ''EUR'' (ex_cache tickers_usdt)) = None"
    using r
    by (simp add: upper_codes is_in_ex_basket ex_get_yahoo_rate_error [of _ "''USD''" "''EUR''"])
  have b: "fst (convert (ex_env tickers_usdt no_yahoo) CACHE_init ''USD'' ''EUR''
      (Decimal False 1000 (- 1))) =
     Inr \<lparr>res_from = ''USD'', res_to = ''EUR'', res_amount = ''100.00000000'',
          res_rate = ''0.92592593'', res_converted = ''92.59259259'', res_via = ''ecb''\<rparr>"
    using r
    by (simp add: upper_codes is_in_ex_basket ex_get_yahoo_rate_error [of _ "''USD''" "''EUR''"]
        present_def map_of_ex_basket arith_usd_eur fmt_usd_eur)
  have c: "fst (convert (ex_env tickers_usdt (yahoo_const (Decimal False 92 (- 2)))) CACHE_init
      ''USD'' ''EUR'' (Decimal False 1000 (- 1))) =
     Inr \<lparr>res_from = ''USD'', res_to = ''EUR'', res_amount = ''100.00000000'',
          res_rate = ''0.92000000'', res_converted = ''92.00000000'', res_via = ''yahoo''\<rparr>"
    using fiat_to_fiat_routing [OF
      ex_get_ecb_rates [of tickers_usdt "yahoo_const (Decimal False 92 (- 2))"]
      ex_get_binance_prices [of tickers_usdt "yahoo_const (Decimal False 92 (- 2))"],
      where from_code = "''USD''" and to_code = "''EUR''" and amount = "Decimal False 1000 (- 1)"
      and fa = "''100.00000000''" and y = "Decimal False 92 (- 2)"
      and cy = "Decimal False 92000 (- 3)" and fy = "''0.92000000''"
      and fcy = "''92.00000000''"
      and ?s3.0 = "(ex_cache tickers_usdt)\<lparr>requests :=
        [ECB_URL, BINANCE_URL_ALL, YAHOO_URL @ upper ''USD'' @ upper ''EUR'' @ ''=X''],
        yahoo_data := [(upper ''USD'' @ upper ''EUR'' @ ''=X'', Decimal False 92 (- 2))],
        yahoo_timestamp := 1000\<rparr>"]
    by (simp add: upper_codes is_in_ex_basket ex_get_yahoo_rate_price [of _ _ "''USD''" "''EUR''"]
        truthy_def arith_usd_eur_yahoo fmt_usd_eur_yahoo fmt_usd_eur)
  show ?thesis
    using a b c by simp
qed

text \<open>
  The claim as stated fails where the pair provider yields the rate zero: the result is the
  basket one (via = ecb), not rate \<open>0\<close> via yahoo.
\<close>

theorem fiat_to_fiat_zero_rate_counterexample:
  "is_in (upper ''USD'') ex_basket \<and> is_in (upper ''EUR'') ex_basket \<and>
   fst (get_yahoo_rate (now_yahoo (ex_env tickers_usdt (yahoo_const (Decimal False 0 0))))
      (yahoo_resp (ex_env tickers_usdt (yahoo_const (Decimal False 0 0)))) ''USD'' ''EUR''
      (ex_cache tickers_usdt)) = Some (Decimal False 0 0) \<and>
   fst (convert (ex_env tickers_usdt (yahoo_const (Decimal False 0 0))) CACHE_init ''USD'' ''EUR''
      (Decimal False 1000 (- 1))) =
     Inr \<lparr>res_from = ''USD'', res_to = ''EUR'', res_amount = ''100.00000000'',
          res_rate = ''0.92592593'', res_converted = ''92.59259259'', res_via = ''ecb''\<rparr>"
  by (simp add: ex_convert upper_codes is_in_ex_basket ex_get_yahoo_rate_price)
    (simp add: fiat_to_fiat_def ex_get_yahoo_rate_price [of _ _ "''USD''" "''EUR''"] upper_codes
      truthy_def getitem_def map_of_ex_basket ebind_def arith_usd_eur response_def fmt_usd_eur)

section \<open>The basket provider\<close>

lemma is_in_Cons: "is_in k ((k', v) # d) = (k = k' \<or> is_in k d)"
  by (auto simp add: is_in_def)

lemma is_in_update: "is_in k (AList.update k' v d) = (k = k' \<or> is_in k d)"
  by (auto simp add: is_in_def update_conv')

lemma is_in_fold_update:
  "is_in k (fold (\<lambda>(k, v) d. AList.update k v d) items d) =
     (is_in k d \<or> k \<in> fst ` set items)"
proof (induction items arbitrary: d)
  case Nil
  show ?case by simp
next
  case (Cons a items)
  obtain k' v' where a: "a = (k', v')" by (cases a)
  show ?case
    by (auto simp add: a Cons.IH is_in_update)
qed

lemma is_in_dict_of:
  "is_in k (dict_of init items) = (is_in k init \<or> k \<in> fst ` set items)"
  by (simp add: dict_of_def is_in_fold_update)

lemma cache_ok_init: "cache_ok CACHE_init"
  by (simp add: cache_ok_def CACHE_init_def)

lemma cache_ok_get_ecb_rates:
  assumes "cache_ok s"
  shows "cache_ok (snd (get_ecb_rates now resp s))"
  using assms
  by (auto simp add: get_ecb_rates_def cache_ok_def Let_def is_in_dict_of is_in_Cons
      split: ecb_response.splits option.splits)

lemma cache_ok_get_binance_prices:
  assumes "cache_ok s"
  shows "cache_ok (snd (get_binance_prices now resp s))"
  using assms
  by (auto simp add: get_binance_prices_def cache_ok_def Let_def
      split: binance_response.splits option.splits)

lemma cache_ok_get_yahoo_rate:
  assumes "cache_ok s"
  shows "cache_ok (snd (get_yahoo_rate now resp base quote s))"
  using assms
  by (auto simp add: get_yahoo_rate_def cache_ok_def Let_def
      split: yahoo_response.splits option.splits)

lemma cache_ok_crypto_to_fiat:
  assumes "cache_ok s"
  shows "cache_ok (snd (crypto_to_fiat e ecb_rates prices s f t amount))"
proof -
  have "snd (crypto_to_fiat e ecb_rates prices s f t amount) = s \<or>
      snd (crypto_to_fiat e ecb_rates prices s f t amount) =
        snd (get_yahoo_rate (now_yahoo e) (yahoo_resp e) ''USD'' t s)"
    by (simp add: crypto_to_fiat_def Let_def split: option.splits sum.splits prod.splits)
  then show ?thesis
    using assms cache_ok_get_yahoo_rate [OF assms] by auto
qed

lemma cache_ok_fiat_to_crypto:
  assumes "cache_ok s"
  shows "cache_ok (snd (fiat_to_crypto e ecb_rates prices s f t amount))"
proof -
  have "snd (fiat_to_crypto e ecb_rates prices s f t amount) = s \<or>
      snd (fiat_to_crypto e ecb_rates prices s f t amount) =
        snd (get_yahoo_rate (now_yahoo e) (yahoo_resp e) f ''USD'' s)"
    by (simp add: fiat_to_crypto_def Let_def split: option.splits sum.splits prod.splits)
  then show ?thesis
    using assms cache_ok_get_yahoo_rate [OF assms] by auto
qed

lemma cache_ok_fiat_to_fiat:
  assumes "cache_ok s"
  shows "cache_ok (snd (fiat_to_fiat e ecb_rates s f t amount))"
proof -
  have "snd (fiat_to_fiat e ecb_rates s f t amount) =
        snd (get_yahoo_rate (now_yahoo e) (yahoo_resp e) f t s)"
    by (simp add: fiat_to_fiat_def Let_def split: option.splits sum.splits prod.splits)
  then show ?thesis
    using cache_ok_get_yahoo_rate [OF assms] by auto
qed

lemma cache_ok_convert:
  assumes "cache_ok s"
  shows "cache_ok (snd (convert e s from_code to_code amount))"
proof (cases "get_ecb_rates (now_ecb e) (ecb_resp e) s")
  case (Pair r s1)
  have s1: "cache_ok s1"
    using cache_ok_get_ecb_rates [OF assms, of "now_ecb e" "ecb_resp e"] Pair by simp
  show ?thesis
  proof (cases r)
    case (Inl err)
    then show ?thesis
      using Pair s1 by (simp add: convert_def)
  next
    case (Inr ecb_rates)
    obtain prices s2 where b: "get_binance_prices (now_binance e) (binance_resp e) s1 =
        (prices, s2)"
      by (cases "get_binance_prices (now_binance e) (binance_resp e) s1")
    have s2: "cache_ok s2"
      using cache_ok_get_binance_prices [OF s1, of "now_binance e" "binance_resp e"] b by simp
    show ?thesis
      using s2
      by (simp add: convert_quadrants [OF Pair [unfolded Inr] b] cache_ok_crypto_to_fiat
          cache_ok_fiat_to_crypto cache_ok_fiat_to_fiat)
  qed
qed

text \<open>
  C4. When the fetch of the fiat basket fails: if a cached basket mapping exists (the fetch was
  attempted, so that mapping is older than the TTL) it is returned and the request proceeds with
  it; if none exists the request fails with the 503 error, whatever the codes and the amount
  are, pure crypto to crypto requests included, the basket being read before any quadrant is
  chosen.
\<close>

theorem basket_fetch_failure:
  assumes "cache_ok s" and "ecb_resp e = EcbError"
    and "\<not> (data_truthy (ecb_data s) \<and> now_ecb e - ecb_timestamp s < ECB_TTL)"
  shows
    "(ecb_data s = Some d \<longrightarrow>
        get_ecb_rates (now_ecb e) (ecb_resp e) s =
          (Inr d, s\<lparr>requests := requests s @ [ECB_URL]\<rparr>) \<and>
        (get_binance_prices (now_binance e) (binance_resp e)
            (s\<lparr>requests := requests s @ [ECB_URL]\<rparr>) = (prices, s2) \<longrightarrow>
         convert e s from_code to_code amount =
           (if \<not> is_in (upper from_code) d \<and> \<not> is_in (upper to_code) d
            then (crypto_to_crypto prices (upper from_code) (upper to_code) amount, s2)
            else if \<not> is_in (upper from_code) d
            then crypto_to_fiat e d prices s2 (upper from_code) (upper to_code) amount
            else if \<not> is_in (upper to_code) d
            then fiat_to_crypto e d prices s2 (upper from_code) (upper to_code) amount
            else fiat_to_fiat e d s2 (upper from_code) (upper to_code) amount))) \<and>
     (ecb_data s = None \<longrightarrow>
        convert e s from_code to_code amount =
          (Inl (HTTPException 503 ''ECB service unavailable''),
           s\<lparr>requests := requests s @ [ECB_URL]\<rparr>))"
proof -
  have 1: "get_ecb_rates (now_ecb e) (ecb_resp e) s =
      (Inr d, s\<lparr>requests := requests s @ [ECB_URL]\<rparr>)" if d: "ecb_data s = Some d"
  proof -
    have "d \<noteq> []"
      using assms(1) d by (auto simp add: cache_ok_def is_in_def)
    then show ?thesis
      using assms(2,3) d by (simp add: get_ecb_rates_def Let_def data_truthy_def data_of_def)
  qed
  have 2: "convert e s from_code to_code amount =
          (Inl (HTTPException 503 ''ECB service unavailable''),
           s\<lparr>requests := requests s @ [ECB_URL]\<rparr>)" if "ecb_data s = None"
    using that assms(2)
    by (simp add: convert_def get_ecb_rates_def Let_def data_truthy_def)
  show ?thesis
    using 1 2 convert_quadrants [OF 1] by auto
qed

theorem basket_fetch_failure_witness:
  "get_ecb_rates (now_ecb ex_env_down) (ecb_resp ex_env_down) (ex_cache tickers_usdt) =
     (Inr ex_basket,
      (ex_cache tickers_usdt)\<lparr>requests := requests (ex_cache tickers_usdt) @ [ECB_URL]\<rparr>) \<and>
   fst (convert ex_env_down (ex_cache tickers_usdt) ''BTC'' ''ETH'' (Decimal False 10 (- 1))) =
     Inr \<lparr>res_from = ''BTC'', res_to = ''ETH'', res_amount = ''1.00000000'',
          res_rate = ''20.00000000'', res_converted = ''20.00000000'', res_via = ''USDT''\<rparr> \<and>
   fst (convert ex_env_down CACHE_init ''BTC'' ''ETH'' (Decimal False 10 (- 1))) =
     Inl (HTTPException 503 ''ECB service unavailable'')"
proof -
  have ok: "cache_ok (ex_cache tickers_usdt)"
    by (simp add: cache_ok_def ex_cache_def is_in_ex_basket)
  have b: "get_binance_prices (now_binance ex_env_down) (binance_resp ex_env_down)
      ((ex_cache tickers_usdt)\<lparr>requests := requests (ex_cache tickers_usdt) @ [ECB_URL]\<rparr>) =
      (tickers_usdt, snd (get_binance_prices (now_binance ex_env_down)
         (binance_resp ex_env_down)
         ((ex_cache tickers_usdt)\<lparr>requests := requests (ex_cache tickers_usdt) @ [ECB_URL]\<rparr>)))"
    by (simp add: get_binance_prices_def ex_env_down_def ex_cache_def BINANCE_TTL_def Let_def
        dict_of_tickers)
  have cc: "crypto_to_crypto tickers_usdt ''BTC'' ''ETH'' (Decimal False 10 (- 1)) =
      Inr \<lparr>res_from = ''BTC'', res_to = ''ETH'', res_amount = ''1.00000000'',
          res_rate = ''20.00000000'', res_converted = ''20.00000000'', res_via = ''USDT''\<rparr>"
    by (simp add: tickers_usdt_def crypto_to_crypto_def truthy_def ebind_def arith_btc_eth
        response_def fmt_examples)
  have a: "get_ecb_rates (now_ecb ex_env_down) (ecb_resp ex_env_down) (ex_cache tickers_usdt) =
     (Inr ex_basket,
      (ex_cache tickers_usdt)\<lparr>requests := requests (ex_cache tickers_usdt) @ [ECB_URL]\<rparr>) \<and>
   fst (convert ex_env_down (ex_cache tickers_usdt) ''BTC'' ''ETH'' (Decimal False 10 (- 1))) =
     Inr \<lparr>res_from = ''BTC'', res_to = ''ETH'', res_amount = ''1.00000000'',
          res_rate = ''20.00000000'', res_converted = ''20.00000000'', res_via = ''USDT''\<rparr>"
    using basket_fetch_failure [OF ok, where e = ex_env_down and d = ex_basket
        and prices = tickers_usdt and from_code = "''BTC''" and to_code = "''ETH''"
        and amount = "Decimal False 10 (- 1)"
        and ?s2.0 = "snd (get_binance_prices (now_binance ex_env_down)
         (binance_resp ex_env_down)
         ((ex_cache tickers_usdt)\<lparr>requests := requests (ex_cache tickers_usdt) @ [ECB_URL]\<rparr>))"]
      b
    by (simp add: cc upper_codes is_in_ex_basket)
      (simp add: ex_env_down_def ex_cache_def ECB_TTL_def)
  have c: "fst (convert ex_env_down CACHE_init ''BTC'' ''ETH'' (Decimal False 10 (- 1))) =
     Inl (HTTPException 503 ''ECB service unavailable'')"
    using basket_fetch_failure [OF cache_ok_init, where e = ex_env_down
        and from_code = "''BTC''" and to_code = "''ETH''" and amount = "Decimal False 10 (- 1)"]
    by (simp add: ex_env_down_def CACHE_init_def data_truthy_def)
  show ?thesis
    using a c by simp
qed

section \<open>Cache freshness\<close>

lemma get_yahoo_rate_cached:
  assumes "map_of (yahoo_data s) (upper base @ upper quote @ ''=X'') \<noteq> None"
    and "now - yahoo_timestamp s < YAHOO_TTL"
  shows "get_yahoo_rate now resp base quote s =
     (map_of (yahoo_data s) (upper base @ upper quote @ ''=X''), s)"
  using assms by (simp add: get_yahoo_rate_def Let_def)

lemma get_yahoo_rate_fetch:
  assumes "\<not> (map_of (yahoo_data s) (upper base @ upper quote @ ''=X'') \<noteq> None \<and>
             now - yahoo_timestamp s < YAHOO_TTL)"
  shows "get_yahoo_rate now resp base quote s =
     (case resp (upper base @ upper quote @ ''=X'') of
        YahooPrice v \<Rightarrow>
          (Some v, s\<lparr>requests := requests s @ [YAHOO_URL @ upper base @ upper quote @ ''=X''],
                      yahoo_data := AList.update (upper base @ upper quote @ ''=X'') v
                        (yahoo_data s),
                      yahoo_timestamp := now\<rparr>)
      | YahooError \<Rightarrow>
          (None, s\<lparr>requests := requests s @ [YAHOO_URL @ upper base @ upper quote @ ''=X'']\<rparr>))"
  using assms by (auto simp add: get_yahoo_rate_def Let_def split: yahoo_response.splits)

lemma get_yahoo_rate_requests:
  "requests (snd (get_yahoo_rate now resp base quote s)) =
     (if map_of (yahoo_data s) (upper base @ upper quote @ ''=X'') \<noteq> None \<and>
         now - yahoo_timestamp s < YAHOO_TTL
      then requests s
      else requests s @ [YAHOO_URL @ upper base @ upper quote @ ''=X''])"
  by (auto simp add: get_yahoo_rate_def Let_def split: yahoo_response.splits)

lemma get_yahoo_rate_fetched:
  assumes "get_yahoo_rate now resp base quote s = (Some v, s')"
    and "requests s' \<noteq> requests s"
  shows "s' = s\<lparr>requests := requests s @ [YAHOO_URL @ upper base @ upper quote @ ''=X''],
                 yahoo_data := AList.update (upper base @ upper quote @ ''=X'') v (yahoo_data s),
                 yahoo_timestamp := now\<rparr>"
proof (cases "map_of (yahoo_data s) (upper base @ upper quote @ ''=X'') \<noteq> None \<and>
    now - yahoo_timestamp s < YAHOO_TTL")
  case True
  then have "s' = s"
    using assms(1) by (simp add: get_yahoo_rate_cached)
  then show ?thesis
    using assms(2) by simp
next
  case False
  show ?thesis
    using assms(1) by (auto simp add: get_yahoo_rate_fetch [OF False] split: yahoo_response.splits)
qed

text \<open>
  C6. The pair provider serves a cached value, without a request, exactly when the pair key is
  in the pair mapping and the one shared timestamp is within the 10 second TTL; otherwise it
  sends one request for the pair. Consequently a pair fetched at any earlier time is served
  without refetching when another pair was fetched less than 10 seconds ago, and a pair whose
  fetch is 10 or more seconds old is requested again.
\<close>

theorem pair_cache_shared_timestamp:
  "(requests (snd (get_yahoo_rate now resp base quote s)) = requests s \<longleftrightarrow>
      map_of (yahoo_data s) (upper base @ upper quote @ ''=X'') \<noteq> None \<and>
      now - yahoo_timestamp s < YAHOO_TTL) \<and>
   (map_of (yahoo_data s) (upper base @ upper quote @ ''=X'') \<noteq> None \<and>
    now - yahoo_timestamp s < YAHOO_TTL \<longrightarrow>
      get_yahoo_rate now resp base quote s =
        (map_of (yahoo_data s) (upper base @ upper quote @ ''=X''), s)) \<and>
   (\<not> (map_of (yahoo_data s) (upper base @ upper quote @ ''=X'') \<noteq> None \<and>
       now - yahoo_timestamp s < YAHOO_TTL) \<longrightarrow>
      requests (snd (get_yahoo_rate now resp base quote s)) =
        requests s @ [YAHOO_URL @ upper base @ upper quote @ ''=X'']) \<and>
   (get_yahoo_rate ta ra base quote s = (Some va, sa) \<and> requests sa \<noteq> requests s \<and>
    get_yahoo_rate tb rb base' quote' sa = (Some vb, sb) \<and> requests sb \<noteq> requests sa \<and>
    upper base' @ upper quote' @ ''=X'' \<noteq> upper base @ upper quote @ ''=X'' \<and>
    t - tb < YAHOO_TTL \<longrightarrow>
      get_yahoo_rate t r base quote sb = (Some va, sb)) \<and>
   (get_yahoo_rate ta ra base quote s = (Some va, sa) \<and> requests sa \<noteq> requests s \<and>
    \<not> t - ta < YAHOO_TTL \<longrightarrow>
      requests (snd (get_yahoo_rate t r base quote sa)) =
        requests sa @ [YAHOO_URL @ upper base @ upper quote @ ''=X''])"
proof -
  have 1: "requests (snd (get_yahoo_rate now resp base quote s)) = requests s \<longleftrightarrow>
      map_of (yahoo_data s) (upper base @ upper quote @ ''=X'') \<noteq> None \<and>
      now - yahoo_timestamp s < YAHOO_TTL"
    by (simp add: get_yahoo_rate_requests)
  have 2: "map_of (yahoo_data s) (upper base @ upper quote @ ''=X'') \<noteq> None \<and>
    now - yahoo_timestamp s < YAHOO_TTL \<longrightarrow>
      get_yahoo_rate now resp base quote s =
        (map_of (yahoo_data s) (upper base @ upper quote @ ''=X''), s)"
    by (simp add: get_yahoo_rate_cached)
  have 3: "\<not> (map_of (yahoo_data s) (upper base @ upper quote @ ''=X'') \<noteq> None \<and>
       now - yahoo_timestamp s < YAHOO_TTL) \<longrightarrow>
      requests (snd (get_yahoo_rate now resp base quote s)) =
        requests s @ [YAHOO_URL @ upper base @ upper quote @ ''=X'']"
    by (simp add: get_yahoo_rate_requests)
  have 4: "get_yahoo_rate t r base quote sb = (Some va, sb)"
    if h: "get_yahoo_rate ta ra base quote s = (Some va, sa)" "requests sa \<noteq> requests s"
      "get_yahoo_rate tb rb base' quote' sa = (Some vb, sb)" "requests sb \<noteq> requests sa"
      "upper base' @ upper quote' @ ''=X'' \<noteq> upper base @ upper quote @ ''=X''"
      "t - tb < YAHOO_TTL"
  proof -
    note sa = get_yahoo_rate_fetched [OF h(1,2)]
    note sb = get_yahoo_rate_fetched [OF h(3,4)]
    have d: "map_of (yahoo_data sb) (upper base @ upper quote @ ''=X'') = Some va"
      using h(5) by (simp add: sb sa update_conv')
    have ts: "yahoo_timestamp sb = tb"
      by (simp add: sb)
    show ?thesis
      using get_yahoo_rate_cached [of sb base quote t r] d ts h(6) by simp
  qed
  have 5: "requests (snd (get_yahoo_rate t r base quote sa)) =
        requests sa @ [YAHOO_URL @ upper base @ upper quote @ ''=X'']"
    if h: "get_yahoo_rate ta ra base quote s = (Some va, sa)" "requests sa \<noteq> requests s"
      "\<not> t - ta < YAHOO_TTL"
  proof -
    note sa = get_yahoo_rate_fetched [OF h(1,2)]
    have "yahoo_timestamp sa = ta"
      by (simp add: sa)
    then show ?thesis
      using h(3) by (simp add: get_yahoo_rate_requests)
  qed
  show ?thesis
    using 1 2 3 4 5 by blast
qed

lemma ex_pair_first_fetch:
  "get_yahoo_rate 1000 (yahoo_const (Decimal False 92 (- 2))) ''USD'' ''EUR'' CACHE_init =
     (Some (Decimal False 92 (- 2)), ex_pair_first)"
  by (simp add: get_yahoo_rate_def yahoo_const_def CACHE_init_def ex_pair_first_def Let_def
      upper_codes)

lemma ex_pairs_fetch:
  "get_yahoo_rate 90000 (yahoo_const (Decimal False 150 0)) ''USD'' ''JPY'' ex_pair_first =
     (Some (Decimal False 150 0), ex_pairs)"
  by (simp add: ex_pairs_def ex_pair_first_fetch)
    (simp add: get_yahoo_rate_def yahoo_const_def CACHE_init_def ex_pair_first_def Let_def
      upper_codes)

theorem pair_cache_shared_timestamp_witness:
  "get_yahoo_rate 90005 no_yahoo ''USD'' ''EUR'' ex_pairs =
     (Some (Decimal False 92 (- 2)), ex_pairs) \<and>
   requests (snd (get_yahoo_rate 1010 no_yahoo ''USD'' ''EUR'' ex_pair_first)) =
     [YAHOO_URL @ ''USDEUR=X'', YAHOO_URL @ ''USDEUR=X'']"
proof -
  note r = pair_cache_shared_timestamp [where s = CACHE_init and ta = 1000
      and ra = "yahoo_const (Decimal False 92 (- 2))" and base = "''USD''" and quote = "''EUR''"
      and va = "Decimal False 92 (- 2)" and sa = ex_pair_first and tb = 90000
      and rb = "yahoo_const (Decimal False 150 0)" and base' = "''USD''" and quote' = "''JPY''"
      and vb = "Decimal False 150 0" and sb = ex_pairs and r = no_yahoo]
  have q: "requests ex_pair_first \<noteq> requests CACHE_init"
    "requests ex_pairs \<noteq> requests ex_pair_first"
    by (simp_all add: ex_pairs_def ex_pair_first_fetch get_yahoo_rate_requests)
      (simp_all add: ex_pair_first_def CACHE_init_def upper_codes)
  have a: "get_yahoo_rate 90005 no_yahoo ''USD'' ''EUR'' ex_pairs =
     (Some (Decimal False 92 (- 2)), ex_pairs)"
    using r [where t = 90005] q
    by (simp add: ex_pair_first_fetch ex_pairs_fetch upper_codes YAHOO_TTL_def)
  have b: "requests (snd (get_yahoo_rate 1010 no_yahoo ''USD'' ''EUR'' ex_pair_first)) =
     [YAHOO_URL @ ''USDEUR=X'', YAHOO_URL @ ''USDEUR=X'']"
    using r [where t = 1010] q
    by (simp add: ex_pair_first_fetch ex_pairs_fetch upper_codes YAHOO_TTL_def)
      (simp add: ex_pair_first_def)
  show ?thesis
    using a b by simp
qed

lemma get_ecb_rates_requests:
  "requests (snd (get_ecb_rates now resp s)) =
     (if data_truthy (ecb_data s) \<and> now - ecb_timestamp s < ECB_TTL then requests s
      else requests s @ [ECB_URL])"
  by (auto simp add: get_ecb_rates_def Let_def split: ecb_response.splits)

lemma get_binance_prices_requests:
  "requests (snd (get_binance_prices now resp s)) =
     (if data_truthy (binance_data s) \<and> now - binance_timestamp s < BINANCE_TTL then requests s
      else requests s @ [BINANCE_URL_ALL])"
  by (auto simp add: get_binance_prices_def Let_def split: binance_response.splits)

lemma dict_of_not_Nil:
  assumes "init \<noteq> [] \<or> items \<noteq> []"
  shows "dict_of init items \<noteq> []"
proof -
  have "\<exists>k. is_in k (dict_of init items)"
  proof (cases init)
    case Nil
    then obtain k v rest where "items = (k, v) # rest"
      using assms by (cases items) auto
    then have "is_in k (dict_of init items)"
      by (simp add: is_in_dict_of)
    then show ?thesis ..
  next
    case (Cons a rest)
    obtain k v where "a = (k, v)" by (cases a)
    then have "is_in k (dict_of init items)"
      by (simp add: is_in_dict_of Cons is_in_Cons)
    then show ?thesis ..
  qed
  then show ?thesis
    by (auto simp add: is_in_def)
qed

lemma get_ecb_rates_fetched:
  assumes "get_ecb_rates now (EcbCubes cubes) s = (r, s')" and "requests s' \<noteq> requests s"
  shows "data_truthy (ecb_data s') \<and> ecb_timestamp s' = now"
proof -
  have "\<not> (data_truthy (ecb_data s) \<and> now - ecb_timestamp s < ECB_TTL)"
    using assms get_ecb_rates_requests [of now "EcbCubes cubes" s] by auto
  then have "s' = s\<lparr>requests := requests s @ [ECB_URL],
      ecb_data := Some (dict_of [(''EUR'', Decimal False 10 (- 1))] cubes),
      ecb_timestamp := now\<rparr>"
    using assms(1) by (auto simp add: get_ecb_rates_def Let_def)
  then show ?thesis
    by (simp add: data_truthy_def dict_of_not_Nil)
qed

lemma get_binance_prices_fetched:
  assumes "get_binance_prices now (BinanceTickers items) s = (r, s')"
    and "requests s' \<noteq> requests s" and "items \<noteq> []"
  shows "data_truthy (binance_data s') \<and> binance_timestamp s' = now"
proof -
  have "\<not> (data_truthy (binance_data s) \<and> now - binance_timestamp s < BINANCE_TTL)"
    using assms get_binance_prices_requests [of now "BinanceTickers items" s] by auto
  then have "s' = s\<lparr>requests := requests s @ [BINANCE_URL_ALL],
      binance_data := Some (dict_of [] items), binance_timestamp := now\<rparr>"
    using assms(1) by (auto simp add: get_binance_prices_def Let_def)
  then show ?thesis
    using assms(3) by (simp add: data_truthy_def dict_of_not_Nil)
qed

text \<open>
  C7 (as amended). After a successful fetch at time \<open>t0\<close> (for the crypto price source: one that
  returned at least one symbol), a read of the same source at a time \<open>t\<close> with
  \<open>t - t0 < TTL\<close> sends no request, and a read with \<open>t - t0 \<ge> TTL\<close> sends exactly one. For
  the pair source the second read is of the same pair.
\<close>

theorem cache_freshness:
  "(get_ecb_rates tf (EcbCubes cubes) s = (ra, sa) \<and> requests sa \<noteq> requests s \<longrightarrow>
      requests (snd (get_ecb_rates t respa sa)) =
        (if t - tf < ECB_TTL then requests sa else requests sa @ [ECB_URL])) \<and>
   (get_binance_prices tf (BinanceTickers items) s = (rb, sb) \<and> requests sb \<noteq> requests s \<and>
    items \<noteq> [] \<longrightarrow>
      requests (snd (get_binance_prices t respb sb)) =
        (if t - tf < BINANCE_TTL then requests sb else requests sb @ [BINANCE_URL_ALL])) \<and>
   (get_yahoo_rate tf respf base quote s = (Some v, sc) \<and> requests sc \<noteq> requests s \<longrightarrow>
      requests (snd (get_yahoo_rate t respc base quote sc)) =
        (if t - tf < YAHOO_TTL then requests sc
         else requests sc @ [YAHOO_URL @ upper base @ upper quote @ ''=X'']))"
proof -
  have 1: "requests (snd (get_ecb_rates t respa sa)) =
        (if t - tf < ECB_TTL then requests sa else requests sa @ [ECB_URL])"
    if "get_ecb_rates tf (EcbCubes cubes) s = (ra, sa)" "requests sa \<noteq> requests s"
    using get_ecb_rates_fetched [OF that] by (simp add: get_ecb_rates_requests)
  have 2: "requests (snd (get_binance_prices t respb sb)) =
        (if t - tf < BINANCE_TTL then requests sb else requests sb @ [BINANCE_URL_ALL])"
    if "get_binance_prices tf (BinanceTickers items) s = (rb, sb)" "requests sb \<noteq> requests s"
      "items \<noteq> []"
    using get_binance_prices_fetched [OF that] by (simp add: get_binance_prices_requests)
  have 3: "requests (snd (get_yahoo_rate t respc base quote sc)) =
        (if t - tf < YAHOO_TTL then requests sc
         else requests sc @ [YAHOO_URL @ upper base @ upper quote @ ''=X''])"
    if h: "get_yahoo_rate tf respf base quote s = (Some v, sc)" "requests sc \<noteq> requests s"
  proof -
    note sc = get_yahoo_rate_fetched [OF h]
    have "map_of (yahoo_data sc) (upper base @ upper quote @ ''=X'') = Some v"
      "yahoo_timestamp sc = tf"
      by (simp_all add: sc update_conv')
    then show ?thesis
      by (simp add: get_yahoo_rate_requests)
  qed
  show ?thesis
    using 1 2 3 by blast
qed

theorem cache_freshness_witness:
  "requests (snd (get_binance_prices 1005 BinanceError (ex_cache tickers_usdt))) =
     [ECB_URL, BINANCE_URL_ALL] \<and>
   requests (snd (get_binance_prices 1010 BinanceError (ex_cache tickers_usdt))) =
     [ECB_URL, BINANCE_URL_ALL, BINANCE_URL_ALL] \<and>
   requests (snd (get_yahoo_rate 1005 no_yahoo ''USD'' ''EUR'' ex_pair_first)) =
     [YAHOO_URL @ ''USDEUR=X'']"
proof -
  have f: "get_binance_prices 1000 (BinanceTickers tickers_usdt)
      (CACHE_init\<lparr>requests := [ECB_URL], ecb_data := Some ex_basket, ecb_timestamp := 1000\<rparr>) =
      (dict_of [] tickers_usdt, ex_cache tickers_usdt)"
    using ex_get_binance_prices [of tickers_usdt no_yahoo] by (simp add: ex_env_def)
  have n: "requests (ex_cache tickers_usdt) \<noteq> requests (CACHE_init\<lparr>requests := [ECB_URL],
      ecb_data := Some ex_basket, ecb_timestamp := 1000\<rparr>)" "tickers_usdt \<noteq> []"
    by (simp_all add: ex_cache_def tickers_usdt_def)
  note r = cache_freshness [where tf = 1000 and items = tickers_usdt
      and sb = "ex_cache tickers_usdt" and rb = "dict_of [] tickers_usdt"
      and s = "CACHE_init\<lparr>requests := [ECB_URL], ecb_data := Some ex_basket,
        ecb_timestamp := 1000\<rparr>" and respb = BinanceError]
  have a: "requests (snd (get_binance_prices 1005 BinanceError (ex_cache tickers_usdt))) =
     [ECB_URL, BINANCE_URL_ALL]"
    using r [where t = 1005] f n by (simp add: BINANCE_TTL_def) (simp add: ex_cache_def)
  have b: "requests (snd (get_binance_prices 1010 BinanceError (ex_cache tickers_usdt))) =
     [ECB_URL, BINANCE_URL_ALL, BINANCE_URL_ALL]"
    using r [where t = 1010] f n by (simp add: BINANCE_TTL_def) (simp add: ex_cache_def)
  have c: "requests (snd (get_yahoo_rate 1005 no_yahoo ''USD'' ''EUR'' ex_pair_first)) =
     [YAHOO_URL @ ''USDEUR=X'']"
    using cache_freshness [where tf = 1000 and s = CACHE_init
        and respf = "yahoo_const (Decimal False 92 (- 2))" and base = "''USD''"
        and quote = "''EUR''" and v = "Decimal False 92 (- 2)" and sc = ex_pair_first
        and t = 1005 and respc = no_yahoo]
    by (simp add: ex_pair_first_fetch YAHOO_TTL_def) (simp add: ex_pair_first_def CACHE_init_def)
  show ?thesis
    using a b c by simp
qed

text \<open>
  The claim as stated fails for the crypto price source when the successful fetch returned an
  empty ticker list: the cached empty dict is falsy, and a second read at the same instant
  fetches again.
\<close>

theorem cache_freshness_empty_tickers_counterexample:
  "get_binance_prices 1000 (BinanceTickers []) CACHE_init =
     ([], CACHE_init\<lparr>requests := [BINANCE_URL_ALL], binance_data := Some [],
            binance_timestamp := 1000\<rparr>) \<and>
   (1000 :: real) - 1000 < BINANCE_TTL \<and>
   requests (snd (get_binance_prices 1000 (BinanceTickers [])
      (CACHE_init\<lparr>requests := [BINANCE_URL_ALL], binance_data := Some [],
         binance_timestamp := 1000\<rparr>))) = [BINANCE_URL_ALL, BINANCE_URL_ALL]"
  by (simp add: get_binance_prices_def CACHE_init_def data_truthy_def dict_of_def Let_def
      BINANCE_TTL_def)

section \<open>The converted field and amount * rate\<close>

lemma response_inv:
  assumes "response f t amount rate converted via = Inr res"
  shows "fmt rate = Inr (res_rate res) \<and> fmt converted = Inr (res_converted res) \<and>
    fmt amount = Inr (res_amount res) \<and> res_via res = via"
  using assms by (auto simp add: response_def ebind_def split: sum.splits)

lemma cc_single:
  assumes "crypto_to_crypto prices f t amount = Inr res"
  shows "res_via res \<noteq> ''binance'' \<and> res_via res \<noteq> ''yahoo'' \<and>
    (res_via res = ''direct'' \<longrightarrow>
      (\<exists>direct_price. map_of prices (f @ t) = Some direct_price \<and>
         fmt direct_price = Inr (res_rate res) \<and>
         ebind (dec_mul amount direct_price) fmt = Inr (res_converted res)))"
  using assms
  by (auto simp add: crypto_to_crypto_def Let_def ebind_def
      split: option.splits sum.splits if_splits dest!: response_inv)

lemma cf_single:
  assumes "crypto_to_fiat e ecb_rates prices s f t amount = (Inr res, s')"
  shows "res_via res \<noteq> ''direct'' \<and> res_via res \<noteq> ''yahoo'' \<and>
    (res_via res = ''binance'' \<longrightarrow>
      (\<exists>crypto_price_usd. map_of prices (f @ ''USDT'') = Some crypto_price_usd \<and>
         fmt crypto_price_usd = Inr (res_rate res) \<and>
         ebind (dec_mul amount crypto_price_usd) fmt = Inr (res_converted res)))"
  using assms
  by (auto simp add: crypto_to_fiat_def Let_def ebind_def
      split: option.splits sum.splits if_splits prod.splits dest!: response_inv)

lemma fc_single:
  assumes "fiat_to_crypto e ecb_rates prices s f t amount = (Inr res, s')"
  shows "res_via res \<noteq> ''direct'' \<and> res_via res \<noteq> ''binance'' \<and> res_via res \<noteq> ''yahoo''"
  using assms
  by (auto simp add: fiat_to_crypto_def Let_def ebind_def
      split: option.splits sum.splits if_splits prod.splits dest!: response_inv)

lemma ff_single_aux:
  assumes "fiat_to_fiat e ecb_rates s f t amount = (Inr res, s')"
    and "res_via res = ''yahoo''"
  shows "\<exists>yahoo_rate c.
    get_yahoo_rate (now_yahoo e) (yahoo_resp e) f t s = (Some yahoo_rate, s') \<and>
    fmt yahoo_rate = Inr (res_rate res) \<and> dec_mul amount yahoo_rate = Inr c \<and>
    fmt c = Inr (res_converted res)"
  using assms
  by (auto simp add: fiat_to_fiat_def Let_def ebind_def
      split: option.splits sum.splits if_splits prod.splits dest!: response_inv)

lemma ff_single:
  assumes "fiat_to_fiat e ecb_rates s f t amount = (Inr res, s')"
  shows "res_via res \<noteq> ''direct'' \<and> res_via res \<noteq> ''binance'' \<and>
    (res_via res = ''yahoo'' \<longrightarrow>
      (\<exists>yahoo_rate. get_yahoo_rate (now_yahoo e) (yahoo_resp e) f t s = (Some yahoo_rate, s') \<and>
         fmt yahoo_rate = Inr (res_rate res) \<and>
         ebind (dec_mul amount yahoo_rate) fmt = Inr (res_converted res)))"
proof -
  have "res_via res \<noteq> ''direct'' \<and> res_via res \<noteq> ''binance''"
    using assms
    by (auto simp add: fiat_to_fiat_def Let_def ebind_def
        split: option.splits sum.splits if_splits prod.splits dest!: response_inv)
  moreover have "\<exists>yahoo_rate.
      get_yahoo_rate (now_yahoo e) (yahoo_resp e) f t s = (Some yahoo_rate, s') \<and>
      fmt yahoo_rate = Inr (res_rate res) \<and>
      ebind (dec_mul amount yahoo_rate) fmt = Inr (res_converted res)"
    if "res_via res = ''yahoo''"
    using ff_single_aux [OF assms that] by (auto simp add: ebind_def)
  ultimately show ?thesis
    by blast
qed

lemma ex_btc_usd:
  "convert (ex_env tickers_usdt no_yahoo) CACHE_init ''BTC'' ''USD'' (Decimal False 5 (- 1)) =
     (Inr \<lparr>res_from = ''BTC'', res_to = ''USD'', res_amount = ''0.50000000'',
           res_rate = ''60000.00000000'', res_converted = ''30000.00000000'',
           res_via = ''binance''\<rparr>, ex_cache tickers_usdt)"
  by (simp add: ex_convert upper_codes is_in_ex_basket dict_of_def)
    (simp add: tickers_usdt_def crypto_to_fiat_def truthy_def arith_half_btc response_def
      ebind_def fmt_half_btc)

text \<open>
  C1 (as amended). For every request that returns a success result with via = direct, binance
  or yahoo (the strategies with a single rate), the rate field is \<^verbatim>\<open>fmt\<close> of the price the code
  used (the direct price of from+to, the from+USDT price, or the pair rate that the pair
  provider returned for from and to), and the converted field is exactly \<^verbatim>\<open>fmt(amount * rate)\<close>
  for that same price.
\<close>

theorem converted_is_amount_times_rate:
  assumes "convert e s from_code to_code amount = (Inr res, s')"
    and "get_ecb_rates (now_ecb e) (ecb_resp e) s = (Inr ecb_rates, sa)"
    and "get_binance_prices (now_binance e) (binance_resp e) sa = (binance_prices, sb)"
  shows "(res_via res = ''direct'' \<longrightarrow>
      (\<exists>direct_price.
         map_of binance_prices (upper from_code @ upper to_code) = Some direct_price \<and>
         fmt direct_price = Inr (res_rate res) \<and>
         ebind (dec_mul amount direct_price) fmt = Inr (res_converted res))) \<and>
    (res_via res = ''binance'' \<longrightarrow>
      (\<exists>crypto_price_usd.
         map_of binance_prices (upper from_code @ ''USDT'') = Some crypto_price_usd \<and>
         fmt crypto_price_usd = Inr (res_rate res) \<and>
         ebind (dec_mul amount crypto_price_usd) fmt = Inr (res_converted res))) \<and>
    (res_via res = ''yahoo'' \<longrightarrow>
      (\<exists>yahoo_rate.
         get_yahoo_rate (now_yahoo e) (yahoo_resp e) (upper from_code) (upper to_code) sb =
           (Some yahoo_rate, s') \<and>
         fmt yahoo_rate = Inr (res_rate res) \<and>
         ebind (dec_mul amount yahoo_rate) fmt = Inr (res_converted res)))"
proof -
  note q = convert_quadrants [OF assms(2,3), of from_code to_code amount]
  show ?thesis
    using assms(1) q
      cc_single [of binance_prices "upper from_code" "upper to_code" amount res]
      cf_single [of e ecb_rates binance_prices sb "upper from_code" "upper to_code" amount res s']
      fc_single [of e ecb_rates binance_prices sb "upper from_code" "upper to_code" amount res s']
      ff_single [of e ecb_rates sb "upper from_code" "upper to_code" amount res s']
    by (auto split: if_splits)
qed

theorem converted_is_amount_times_rate_witness:
  "convert (ex_env tickers_usdt no_yahoo) CACHE_init ''BTC'' ''USD'' (Decimal False 5 (- 1)) =
     (Inr \<lparr>res_from = ''BTC'', res_to = ''USD'', res_amount = ''0.50000000'',
           res_rate = ''60000.00000000'', res_converted = ''30000.00000000'',
           res_via = ''binance''\<rparr>, ex_cache tickers_usdt) \<and>
   (\<exists>crypto_price_usd.
      map_of (dict_of [] tickers_usdt) ''BTCUSDT'' = Some crypto_price_usd \<and>
      fmt crypto_price_usd = Inr ''60000.00000000'' \<and>
      ebind (dec_mul (Decimal False 5 (- 1)) crypto_price_usd) fmt = Inr ''30000.00000000'')"
  using converted_is_amount_times_rate [OF ex_btc_usd ex_get_ecb_rates [of tickers_usdt no_yahoo]
      ex_get_binance_prices [of tickers_usdt no_yahoo]] ex_btc_usd
  by (simp add: upper_codes)

lemma arith_ce_a:
  "dec_mul (Decimal False 3 (- 8)) (Decimal False 10 (- 1)) = Inr (Decimal False 30 (- 9))"
  "dec_div (Decimal False 30 (- 9)) (Decimal False 6 0) = Inr (Decimal False 5 (- 9))"
  "dec_div (Decimal False 10 (- 1)) (Decimal False 6 0) = Inr (Decimal False 1666666666666666666666666667 (- 28))"
  "dec_mul (Decimal False 3 (- 8)) (Decimal False 1666666666666666666666666667 (- 28)) = Inr (Decimal False 5000000000000000000000000001 (- 36))"
  "dec_div (Decimal False 104625 (- 14)) (Decimal False 108 (- 2)) = Inr (Decimal False 96875 (- 14))"
  by (simp_all add: dec_eval)

lemma arith_ce_b:
  "dec_mul (Decimal False 96875 (- 14)) (Decimal False 16000 (- 2)) = Inr (Decimal False 1550000000 (- 16))"
  "dec_div (Decimal False 16000 (- 2)) (Decimal False 108 (- 2)) = Inr (Decimal False 1481481481481481481481481481 (- 25))"
  "dec_mul (Decimal False 104625 (- 14)) (Decimal False 1481481481481481481481481481 (- 25)) = Inr (Decimal False 1549999999999999999999999999 (- 34))"
  "dec_mul (Decimal False 765353504358846 (- 14)) (Decimal False 46154963440974 0) = Inr (Decimal False 3532486301310387208383575600 (- 13))"
  "dec_mul (Decimal False 3532486301310387208383575600 (- 13)) (Decimal False 248527 0) = Inr (Decimal False 8779182230057666017379448931 (- 8))"
  by (simp_all add: dec_eval)

lemma arith_ce_c:
  "dec_mul (Decimal False 46154963440974 0) (Decimal False 248527 0) = Inr (Decimal False 11470754599094945298 0)"
  "dec_mul (Decimal False 765353504358846 (- 14)) (Decimal False 11470754599094945298 0) = Inr (Decimal False 8779182230057666017379448932 (- 8))"
  "dec_mul (Decimal False 87 (- 8)) (Decimal False 99 (- 1)) = Inr (Decimal False 8613 (- 9))"
  "dec_div (Decimal False (Suc 0) 0) (Decimal False 108 (- 2)) = Inr (Decimal False 9259259259259259259259259259 (- 28))"
  "dec_mul (Decimal False 8613 (- 9)) (Decimal False 9259259259259259259259259259 (- 28)) = Inr (Decimal False 7975000000000000000000000000 (- 33))"
  by (simp_all add: dec_eval)

lemma arith_ce_d:
  "dec_mul (Decimal False 7975000000000000000000000000 (- 33)) (Decimal False 10 (- 1)) = Inr (Decimal False 7975000000000000000000000000 (- 33))"
  "dec_mul (Decimal False 99 (- 1)) (Decimal False 9259259259259259259259259259 (- 28)) = Inr (Decimal False 9166666666666666666666666666 (- 27))"
  "dec_mul (Decimal False 9166666666666666666666666666 (- 27)) (Decimal False 10 (- 1)) = Inr (Decimal False 9166666666666666666666666666 (- 27))"
  "dec_mul (Decimal False 87 (- 8)) (Decimal False 9166666666666666666666666666 (- 27)) = Inr (Decimal False 7974999999999999999999999999 (- 33))"
  "dec_mul (Decimal False 39 (- 8)) (Decimal False 658 0) = Inr (Decimal False 25662 (- 8))"
  by (simp_all add: dec_eval)

lemma arith_ce_e:
  "dec_div (Decimal False 25662 (- 8)) (Decimal False 520 (- 1)) = Inr (Decimal False 4935 (- 9))"
  "dec_mul (Decimal False 39 (- 8)) (Decimal False 520 (- 1)) = Inr (Decimal False 20280 (- 9))"
  "dec_div (Decimal False 25662 (- 8)) (Decimal False 20280 (- 9)) = Inr (Decimal False 1265384615384615384615384615 (- 26))"
  "dec_mul (Decimal False 39 (- 8)) (Decimal False 1265384615384615384615384615 (- 26)) = Inr (Decimal False 4934999999999999999999999998 (- 33))"
  "dec_div (Decimal False 35 (- 2)) (Decimal False 108 (- 2)) = Inr (Decimal False 3240740740740740740740740741 (- 28))"
  by (simp_all add: dec_eval)

lemma arith_ce_f:
  "dec_mul (Decimal False 3240740740740740740740740741 (- 28)) (Decimal False 108 (- 2)) = Inr (Decimal False 3500000000000000000000000000 (- 28))"
  "dec_div (Decimal False 3500000000000000000000000000 (- 28)) (Decimal False 896 0) = Inr (Decimal False 3906250000000000000000000 (- 28))"
  "dec_mul (Decimal False 35 (- 2)) (Decimal False 896 0) = Inr (Decimal False 31360 (- 2))"
  "dec_div (Decimal False 3500000000000000000000000000 (- 28)) (Decimal False 31360 (- 2)) = Inr (Decimal False 1116071428571428571428571429 (- 30))"
  "dec_mul (Decimal False 35 (- 2)) (Decimal False 1116071428571428571428571429 (- 30)) = Inr (Decimal False 3906250000000000000000000002 (- 31))"
  by (simp_all add: dec_eval)

lemma fmt_ce_a:
  "fmt (Decimal False 3 (- 8)) = Inr ''0.00000003''"
  "fmt (Decimal False 1666666666666666666666666667 (- 28)) = Inr ''0.16666667''"
  "fmt (Decimal False 5 (- 9)) = Inr ''0.00000000''"
  "fmt (Decimal False 5000000000000000000000000001 (- 36)) = Inr ''0.00000001''"
  by (simp_all add: dec_eval replicate_numeral_Cons)

lemma fmt_ce_b:
  "fmt (Decimal False 104625 (- 14)) = Inr ''0.00000000''"
  "fmt (Decimal False 1481481481481481481481481481 (- 25)) = Inr ''148.14814815''"
  "fmt (Decimal False 1550000000 (- 16)) = Inr ''0.00000016''"
  "fmt (Decimal False 1549999999999999999999999999 (- 34)) = Inr ''0.00000015''"
  by (simp_all add: dec_eval replicate_numeral_Cons)

lemma fmt_ce_c:
  "fmt (Decimal False 765353504358846 (- 14)) = Inr ''7.65353504''"
  "fmt (Decimal False 11470754599094945298 0) = Inr ''11470754599094945298.00000000''"
  "fmt (Decimal False 8779182230057666017379448931 (- 8)) = Inr ''87791822300576660173.79448931''"
  "fmt (Decimal False 8779182230057666017379448932 (- 8)) = Inr ''87791822300576660173.79448932''"
  by (simp_all add: dec_eval replicate_numeral_Cons)

lemma fmt_ce_d:
  "fmt (Decimal False 87 (- 8)) = Inr ''0.00000087''"
  "fmt (Decimal False 9166666666666666666666666666 (- 27)) = Inr ''9.16666667''"
  "fmt (Decimal False 7975000000000000000000000000 (- 33)) = Inr ''0.00000798''"
  "fmt (Decimal False 7974999999999999999999999999 (- 33)) = Inr ''0.00000797''"
  by (simp_all add: dec_eval replicate_numeral_Cons)

lemma fmt_ce_e:
  "fmt (Decimal False 39 (- 8)) = Inr ''0.00000039''"
  "fmt (Decimal False 1265384615384615384615384615 (- 26)) = Inr ''12.65384615''"
  "fmt (Decimal False 4935 (- 9)) = Inr ''0.00000494''"
  "fmt (Decimal False 4934999999999999999999999998 (- 33)) = Inr ''0.00000493''"
  by (simp_all add: dec_eval replicate_numeral_Cons)

lemma fmt_ce_f:
  "fmt (Decimal False 35 (- 2)) = Inr ''0.35000000''"
  "fmt (Decimal False 1116071428571428571428571429 (- 30)) = Inr ''0.00111607''"
  "fmt (Decimal False 3906250000000000000000000 (- 28)) = Inr ''0.00039062''"
  "fmt (Decimal False 3906250000000000000000000002 (- 31)) = Inr ''0.00039063''"
  by (simp_all add: dec_eval replicate_numeral_Cons)

lemmas arith_ce = arith_ce_a arith_ce_b arith_ce_c arith_ce_d arith_ce_e arith_ce_f

lemmas fmt_ce = fmt_ce_a fmt_ce_b fmt_ce_c fmt_ce_d fmt_ce_e fmt_ce_f

lemma ce_usdt:
  "fst (convert (ex_env tickers_ce_usdt no_yahoo) CACHE_init ''BTC'' ''ETH'' (Decimal False 3 (- 8))) =
     Inr \<lparr>res_from = ''BTC'', res_to = ''ETH'', res_amount = ''0.00000003'', res_rate = ''0.16666667'', res_converted = ''0.00000000'', res_via = ''USDT''\<rparr>"
  by (simp add: ex_convert upper_codes is_in_ex_basket dict_of_def)
    (simp add: tickers_ce_usdt_def crypto_to_crypto_def upper_codes truthy_def present_def
      getitem_def map_of_ex_basket ebind_def arith_ce response_def fmt_ce Let_def)

lemma ce_ecb:
  "fst (convert (ex_env tickers_usdt no_yahoo) CACHE_init ''USD'' ''JPY'' (Decimal False 104625 (- 14))) =
     Inr \<lparr>res_from = ''USD'', res_to = ''JPY'', res_amount = ''0.00000000'', res_rate = ''148.14814815'', res_converted = ''0.00000016'', res_via = ''ecb''\<rparr>"
  by (simp add: ex_convert upper_codes is_in_ex_basket dict_of_def)
    (simp add: fiat_to_fiat_def ex_get_yahoo_rate_error [of _ "''USD''" "''JPY''"] upper_codes truthy_def present_def
      getitem_def map_of_ex_basket ebind_def arith_ce response_def fmt_ce Let_def)

lemma ce_binance_yahoo:
  "fst (convert (ex_env tickers_ce_binance_yahoo (yahoo_const (Decimal False 248527 0))) CACHE_init ''BTC'' ''JPY'' (Decimal False 765353504358846 (- 14))) =
     Inr \<lparr>res_from = ''BTC'', res_to = ''JPY'', res_amount = ''7.65353504'', res_rate = ''11470754599094945298.00000000'', res_converted = ''87791822300576660173.79448931'', res_via = ''binance+yahoo''\<rparr>"
  by (simp add: ex_convert upper_codes is_in_ex_basket dict_of_def)
    (simp add: tickers_ce_binance_yahoo_def crypto_to_fiat_def ex_get_yahoo_rate_price [of _ _ "''USD''" "''JPY''"] upper_codes truthy_def present_def
      getitem_def map_of_ex_basket ebind_def arith_ce response_def fmt_ce Let_def)

lemma ce_binance_ecb:
  "fst (convert (ex_env tickers_ce_binance_ecb no_yahoo) CACHE_init ''BTC'' ''EUR'' (Decimal False 87 (- 8))) =
     Inr \<lparr>res_from = ''BTC'', res_to = ''EUR'', res_amount = ''0.00000087'', res_rate = ''9.16666667'', res_converted = ''0.00000798'', res_via = ''binance+ecb''\<rparr>"
  by (simp add: ex_convert upper_codes is_in_ex_basket dict_of_def)
    (simp add: tickers_ce_binance_ecb_def crypto_to_fiat_def ex_get_yahoo_rate_error [of _ "''USD''" "''EUR''"] upper_codes truthy_def present_def
      getitem_def map_of_ex_basket ebind_def arith_ce response_def fmt_ce Let_def)

lemma ce_yahoo_binance:
  "fst (convert (ex_env tickers_ce_yahoo_binance (yahoo_const (Decimal False 658 0))) CACHE_init ''JPY'' ''BTC'' (Decimal False 39 (- 8))) =
     Inr \<lparr>res_from = ''JPY'', res_to = ''BTC'', res_amount = ''0.00000039'', res_rate = ''12.65384615'', res_converted = ''0.00000494'', res_via = ''yahoo+binance''\<rparr>"
  by (simp add: ex_convert upper_codes is_in_ex_basket dict_of_def)
    (simp add: tickers_ce_yahoo_binance_def fiat_to_crypto_def ex_get_yahoo_rate_price [of _ _ "''JPY''" "''USD''"] upper_codes truthy_def present_def
      getitem_def map_of_ex_basket ebind_def arith_ce response_def fmt_ce Let_def)

lemma ce_ecb_binance:
  "fst (convert (ex_env tickers_ce_ecb_binance no_yahoo) CACHE_init ''USD'' ''BTC'' (Decimal False 35 (- 2))) =
     Inr \<lparr>res_from = ''USD'', res_to = ''BTC'', res_amount = ''0.35000000'', res_rate = ''0.00111607'', res_converted = ''0.00039062'', res_via = ''ecb+binance''\<rparr>"
  by (simp add: ex_convert upper_codes is_in_ex_basket dict_of_def)
    (simp add: tickers_ce_ecb_binance_def fiat_to_crypto_def ex_get_yahoo_rate_error [of _ "''USD''" "''USD''"] upper_codes truthy_def present_def
      getitem_def map_of_ex_basket ebind_def arith_ce response_def fmt_ce Let_def)

text \<open>
  The claim as stated fails for each of the six composed strategies: the converted field is
  computed along another order of 28-digit roundings than \<^verbatim>\<open>amount * rate\<close>, and the two differ
  after formatting. Each line of results below is followed by the rate the code computed,
  \<^verbatim>\<open>amount * rate\<close> and its formatting.
\<close>

theorem converted_is_amount_times_rate_counterexample:
  "fst (convert (ex_env tickers_ce_usdt no_yahoo) CACHE_init ''BTC'' ''ETH'' (Decimal False 3 (- 8))) =
     Inr \<lparr>res_from = ''BTC'', res_to = ''ETH'', res_amount = ''0.00000003'', res_rate = ''0.16666667'', res_converted = ''0.00000000'', res_via = ''USDT''\<rparr> \<and>
   dec_div (Decimal False 10 (- 1)) (Decimal False 6 0) = Inr (Decimal False 1666666666666666666666666667 (- 28)) \<and>
   dec_mul (Decimal False 3 (- 8)) (Decimal False 1666666666666666666666666667 (- 28)) = Inr (Decimal False 5000000000000000000000000001 (- 36)) \<and>
   fmt (Decimal False 5000000000000000000000000001 (- 36)) = Inr ''0.00000001'' \<and>
   fst (convert (ex_env tickers_usdt no_yahoo) CACHE_init ''USD'' ''JPY'' (Decimal False 104625 (- 14))) =
     Inr \<lparr>res_from = ''USD'', res_to = ''JPY'', res_amount = ''0.00000000'', res_rate = ''148.14814815'', res_converted = ''0.00000016'', res_via = ''ecb''\<rparr> \<and>
   dec_div (Decimal False 16000 (- 2)) (Decimal False 108 (- 2)) = Inr (Decimal False 1481481481481481481481481481 (- 25)) \<and>
   dec_mul (Decimal False 104625 (- 14)) (Decimal False 1481481481481481481481481481 (- 25)) = Inr (Decimal False 1549999999999999999999999999 (- 34)) \<and>
   fmt (Decimal False 1549999999999999999999999999 (- 34)) = Inr ''0.00000015'' \<and>
   fst (convert (ex_env tickers_ce_binance_yahoo (yahoo_const (Decimal False 248527 0))) CACHE_init ''BTC'' ''JPY'' (Decimal False 765353504358846 (- 14))) =
     Inr \<lparr>res_from = ''BTC'', res_to = ''JPY'', res_amount = ''7.65353504'', res_rate = ''11470754599094945298.00000000'', res_converted = ''87791822300576660173.79448931'', res_via = ''binance+yahoo''\<rparr> \<and>
   dec_mul (Decimal False 46154963440974 0) (Decimal False 248527 0) = Inr (Decimal False 11470754599094945298 0) \<and>
   dec_mul (Decimal False 765353504358846 (- 14)) (Decimal False 11470754599094945298 0) = Inr (Decimal False 8779182230057666017379448932 (- 8)) \<and>
   fmt (Decimal False 8779182230057666017379448932 (- 8)) = Inr ''87791822300576660173.79448932'' \<and>
   fst (convert (ex_env tickers_ce_binance_ecb no_yahoo) CACHE_init ''BTC'' ''EUR'' (Decimal False 87 (- 8))) =
     Inr \<lparr>res_from = ''BTC'', res_to = ''EUR'', res_amount = ''0.00000087'', res_rate = ''9.16666667'', res_converted = ''0.00000798'', res_via = ''binance+ecb''\<rparr> \<and>
   dec_div (Decimal False 1 0) (Decimal False 108 (- 2)) = Inr (Decimal False 9259259259259259259259259259 (- 28)) \<and>
   dec_mul (Decimal False 99 (- 1)) (Decimal False 9259259259259259259259259259 (- 28)) = Inr (Decimal False 9166666666666666666666666666 (- 27)) \<and>
   dec_mul (Decimal False 9166666666666666666666666666 (- 27)) (Decimal False 10 (- 1)) = Inr (Decimal False 9166666666666666666666666666 (- 27)) \<and>
   dec_mul (Decimal False 87 (- 8)) (Decimal False 9166666666666666666666666666 (- 27)) = Inr (Decimal False 7974999999999999999999999999 (- 33)) \<and>
   fmt (Decimal False 7974999999999999999999999999 (- 33)) = Inr ''0.00000797'' \<and>
   fst (convert (ex_env tickers_ce_yahoo_binance (yahoo_const (Decimal False 658 0))) CACHE_init ''JPY'' ''BTC'' (Decimal False 39 (- 8))) =
     Inr \<lparr>res_from = ''JPY'', res_to = ''BTC'', res_amount = ''0.00000039'', res_rate = ''12.65384615'', res_converted = ''0.00000494'', res_via = ''yahoo+binance''\<rparr> \<and>
   dec_mul (Decimal False 39 (- 8)) (Decimal False 658 0) = Inr (Decimal False 25662 (- 8)) \<and>
   dec_mul (Decimal False 39 (- 8)) (Decimal False 520 (- 1)) = Inr (Decimal False 20280 (- 9)) \<and>
   dec_div (Decimal False 25662 (- 8)) (Decimal False 20280 (- 9)) = Inr (Decimal False 1265384615384615384615384615 (- 26)) \<and>
   dec_mul (Decimal False 39 (- 8)) (Decimal False 1265384615384615384615384615 (- 26)) = Inr (Decimal False 4934999999999999999999999998 (- 33)) \<and>
   fmt (Decimal False 4934999999999999999999999998 (- 33)) = Inr ''0.00000493'' \<and>
   fst (convert (ex_env tickers_ce_ecb_binance no_yahoo) CACHE_init ''USD'' ''BTC'' (Decimal False 35 (- 2))) =
     Inr \<lparr>res_from = ''USD'', res_to = ''BTC'', res_amount = ''0.35000000'', res_rate = ''0.00111607'', res_converted = ''0.00039062'', res_via = ''ecb+binance''\<rparr> \<and>
   dec_div (Decimal False 35 (- 2)) (Decimal False 108 (- 2)) = Inr (Decimal False 3240740740740740740740740741 (- 28)) \<and>
   dec_mul (Decimal False 3240740740740740740740740741 (- 28)) (Decimal False 108 (- 2)) = Inr (Decimal False 3500000000000000000000000000 (- 28)) \<and>
   dec_mul (Decimal False 35 (- 2)) (Decimal False 896 0) = Inr (Decimal False 31360 (- 2)) \<and>
   dec_div (Decimal False 3500000000000000000000000000 (- 28)) (Decimal False 31360 (- 2)) = Inr (Decimal False 1116071428571428571428571429 (- 30)) \<and>
   dec_mul (Decimal False 35 (- 2)) (Decimal False 1116071428571428571428571429 (- 30)) = Inr (Decimal False 3906250000000000000000000002 (- 31)) \<and>
   fmt (Decimal False 3906250000000000000000000002 (- 31)) = Inr ''0.00039063''"
  using ce_usdt ce_ecb ce_binance_yahoo ce_binance_ecb ce_yahoo_binance ce_ecb_binance
  by (simp add: arith_ce fmt_ce)

section \<open>Rounding errors of the decimal operations\<close>

lemma ndigits_pos: "0 < ndigits n"
  by (induction n rule: ndigits.induct) (simp add: ndigits.simps)

lemma ndigits_upper: "n < 10 ^ ndigits n"
proof (induction n rule: ndigits.induct)
  case (1 n)
  show ?case
  proof (cases "n < 10")
    case True
    then show ?thesis by (simp add: ndigits.simps)
  next
    case False
    then have "n div 10 < 10 ^ ndigits (n div 10)"
      using 1 by simp
    then have "n < 10 * 10 ^ ndigits (n div 10)"
      by (simp add: div_less_iff_less_mult mult.commute)
    then show ?thesis
      using False by (simp add: ndigits.simps [of n])
  qed
qed

lemma ndigits_lower: "n \<noteq> 0 \<Longrightarrow> 10 ^ (ndigits n - 1) \<le> n"
proof (induction n rule: ndigits.induct)
  case (1 n)
  show ?case
  proof (cases "n < 10")
    case True
    then show ?thesis using 1(2) by (simp add: ndigits.simps)
  next
    case False
    then have nz: "n div 10 \<noteq> 0" by (simp add: div_eq_0_iff)
    have "10 ^ (ndigits (n div 10) - 1) \<le> n div 10"
      using 1(1) [OF False nz] .
    then have "10 * 10 ^ (ndigits (n div 10) - 1) \<le> n"
      by (metis div_times_less_eq_dividend mult.commute mult_le_mono2 order_trans)
    moreover have "ndigits n - 1 = Suc (ndigits (n div 10) - 1)"
      using False ndigits_pos [of "n div 10"] by (simp add: ndigits.simps [of n])
    ultimately show ?thesis by simp
  qed
qed

lemma round_half_even_error:
  assumes "0 < k"
  shows "2 * \<bar>int (round_half_even c k) * 10 ^ k - int c\<bar> \<le> 10 ^ k"
proof -
  define kept where "kept = c div 10 ^ k"
  define dropped where "dropped = c mod 10 ^ k"
  have c: "c = kept * 10 ^ k + dropped"
    unfolding kept_def dropped_def by (rule div_mult_mod_eq [symmetric])
  have d: "dropped < 10 ^ k"
    by (simp add: dropped_def)
  have h: "(10::nat) ^ k = 2 * (5 * 10 ^ (k - 1))"
    using assms by (cases k) simp_all
  define half where "half = (5::nat) * 10 ^ (k - 1)"
  have r: "round_half_even c k =
      (if dropped > half \<or> (dropped = half \<and> odd kept) then kept + 1 else kept)"
    using assms by (simp add: round_half_even_def Let_def kept_def dropped_def half_def)
  have pk: "(10::int) ^ k = 2 * int half"
    using h by (simp add: half_def) (metis of_nat_numeral of_nat_power of_nat_mult)
  have dk: "int dropped < 2 * int half"
    using d pk by (metis of_nat_less_iff of_nat_numeral of_nat_power)
  have ic: "int c = int kept * (2 * int half) + int dropped"
    using c h by (simp add: half_def)
  show ?thesis
  proof (cases "dropped > half \<or> (dropped = half \<and> odd kept)")
    case True
    then have rv: "round_half_even c k = kept + 1"
      using r by simp
    have "int (round_half_even c k) * 10 ^ k - int c = 2 * int half - int dropped"
      by (simp add: rv ic pk algebra_simps)
    then show ?thesis
      using True dk by (auto simp add: pk)
  next
    case False
    then have rv: "round_half_even c k = kept"
      using r by simp
    have "int (round_half_even c k) * 10 ^ k - int c = - int dropped"
      by (simp add: rv ic pk algebra_simps)
    then show ?thesis
      using False by (auto simp add: pk)
  qed
qed

lemma val_Decimal: "val (Decimal sg c ex) = (if sg then - 1 else 1) * real c * 10 powi ex"
  by (simp add: val_def)

lemma round_half_even_ge: "c div 10 ^ k \<le> round_half_even c k"
  by (simp add: round_half_even_def Let_def)

lemma half_gap:
  fixes A C K P :: int
  assumes "2 * \<bar>A - C\<bar> \<le> K" and "P + K \<le> A" and "C < P" and "0 < K"
  shows False
  using assms by presburger

lemma round_half_even_upper:
  assumes "0 < k" and "c < 10 ^ (k + p)"
  shows "round_half_even c k \<le> 10 ^ p"
proof (rule ccontr)
  assume "\<not> round_half_even c k \<le> 10 ^ p"
  then have "int (round_half_even c k) \<ge> 10 ^ p + 1"
    by (metis add.commute not_le of_nat_Suc of_nat_le_iff of_nat_numeral of_nat_power
        Suc_leI plus_1_eq_Suc)
  then have "int (round_half_even c k) * 10 ^ k \<ge> (10 ^ p + 1) * 10 ^ k"
    by (rule mult_right_mono) simp
  then have 1: "int (round_half_even c k) * 10 ^ k \<ge> 10 ^ (k + p) + 10 ^ k"
    by (simp add: algebra_simps power_add)
  have 2: "int c < 10 ^ (k + p)"
    using assms(2) by (metis of_nat_less_iff of_nat_numeral of_nat_power)
  have 3: "(0::int) < 10 ^ k" by simp
  show False
    by (rule half_gap [OF round_half_even_error [OF assms(1), of c] 1 2 3])
qed

lemma val_mag: "val d = (if dsign d then - mag d else mag d)"
  by (simp add: val_def mag_def)

lemma abs_val_diff:
  assumes "dsign x = dsign y"
  shows "\<bar>val x - val y\<bar> = \<bar>mag x - mag y\<bar>"
  using assms by (simp add: val_mag abs_minus_commute)

lemma mag_nonneg: "0 \<le> mag d"
  by (simp add: mag_def)

lemma abs_val: "\<bar>val d\<bar> = mag d"
  using mag_nonneg [of d] by (simp add: val_mag)

lemma powi_add_nat: "(10::real) powi (e + int k) = 10 powi e * 10 ^ k"
  by (simp add: power_int_add)

lemma round_value:
  assumes "0 < k"
  shows "2 * \<bar>real (round_half_even c k) * 10 powi (e + int k) - real c * 10 powi e\<bar>
    \<le> 10 powi (e + int k)"
proof -
  have "real_of_int (2 * \<bar>int (round_half_even c k) * 10 ^ k - int c\<bar>) \<le> real_of_int (10 ^ k)"
    using round_half_even_error [OF assms, of c] by (rule of_int_le_iff [THEN iffD2])
  then have 1: "2 * \<bar>real (round_half_even c k) * 10 ^ k - real c\<bar> \<le> 10 ^ k"
    by simp
  have "2 * \<bar>real (round_half_even c k) * 10 powi (e + int k) - real c * 10 powi e\<bar> =
      (2 * \<bar>real (round_half_even c k) * 10 ^ k - real c\<bar>) * 10 powi e"
  proof -
    have "real (round_half_even c k) * 10 powi (e + int k) - real c * 10 powi e =
        (real (round_half_even c k) * 10 ^ k - real c) * 10 powi e"
      by (simp add: powi_add_nat algebra_simps)
    then show ?thesis
      by (simp add: abs_mult)
  qed
  also have "\<dots> \<le> 10 ^ k * 10 powi e"
    by (rule mult_right_mono [OF 1]) simp
  finally show ?thesis
    by (simp add: powi_add_nat mult.commute)
qed

lemma ndigits_ge_imp:
  assumes "p < ndigits n" and "0 < p"
  shows "10 ^ p \<le> n"
proof -
  have "ndigits 0 = 1"
    by (simp add: ndigits.simps [of 0])
  then have nz: "n \<noteq> 0"
    using assms by (cases "n = 0") auto
  have "(10::nat) ^ p \<le> 10 ^ (ndigits n - 1)"
    using assms(1) by (intro power_increasing) auto
  then show ?thesis
    using ndigits_lower [OF nz] by linarith
qed

lemma div_power_lower:
  assumes "10 ^ (k + p) \<le> (c::nat)"
  shows "10 ^ p \<le> c div 10 ^ k"
proof -
  have "(10::nat) ^ p = 10 ^ (k + p) div 10 ^ k"
    by (simp add: power_add)
  also have "\<dots> \<le> c div 10 ^ k"
    by (rule div_le_mono [OF assms])
  finally show ?thesis .
qed

text \<open>The result of a rounding \<open>dec_fix\<close>: same sign, and a coefficient at the new exponent.\<close>

lemma dec_fix_rounded:
  assumes "dec_fix d = Inr d'" and "dint d \<noteq> 0"
  shows "dsign d' = dsign d \<and>
    (d' = d \<or>
     (\<exists>k. 0 < k \<and> mag d' = real (round_half_even (dint d) k) * 10 powi (dexp d + int k) \<and>
        (10 ^ 27 \<le> round_half_even (dint d) k \<or>
         d' = Decimal (dsign d) (round_half_even (dint d) k) Etiny)))"
proof -
  define L where "L = ndigits (dint d)"
  define exp_min0 where "exp_min0 = int L + dexp d - int prec"
  define exp_min where "exp_min = max exp_min0 Etiny"
  define k where "k = nat (exp_min - dexp d)"
  define coeff where "coeff = round_half_even (dint d) k"
  have fx: "dec_fix d =
      (if exp_min0 > Etop then Inl Overflow
       else if dexp d < exp_min then
         (if ndigits coeff > prec then
            (if exp_min + 1 > Etop then Inl Overflow
             else Inr (Decimal (dsign d) (coeff div 10) (exp_min + 1)))
          else Inr (Decimal (dsign d) coeff exp_min))
       else Inr d)"
    using assms(2)
    by (simp add: dec_fix_def Let_def L_def exp_min0_def exp_min_def k_def coeff_def)
  show ?thesis
  proof (cases "dexp d < exp_min")
    case False
    then have "d' = d"
      using assms(1) fx by (auto split: if_splits)
    then show ?thesis by simp
  next
    case True
    then have kpos: "0 < k" and ek: "dexp d + int k = exp_min"
      by (simp_all add: k_def)
    have "int L \<le> int k + 28"
      using True by (simp add: k_def exp_min_def exp_min0_def prec_def)
    then have Lk: "L \<le> k + 28" by linarith
    have "dint d < 10 ^ L"
      by (simp add: L_def ndigits_upper)
    also have "\<dots> \<le> 10 ^ (k + 28)"
      using Lk by (intro power_increasing) auto
    finally have up: "coeff \<le> 10 ^ 28"
      unfolding coeff_def by (rule round_half_even_upper [OF kpos])
    have low: "10 ^ 27 \<le> coeff" if "exp_min = exp_min0"
    proof -
      have "int L = int k + 28"
        using True that by (simp add: k_def exp_min0_def prec_def)
      then have "L - 1 = k + 27" by linarith
      then have "10 ^ (k + 27) \<le> dint d"
        using ndigits_lower [OF assms(2)] by (simp add: L_def)
      then have "10 ^ 27 \<le> dint d div 10 ^ k"
        by (rule div_power_lower)
      then show ?thesis
        using round_half_even_ge [of "dint d" k] by (simp add: coeff_def)
    qed
    have tiny: "exp_min = Etiny" if "exp_min \<noteq> exp_min0"
      using that by (simp add: exp_min_def max_def split: if_splits)
    show ?thesis
    proof (cases "ndigits coeff > prec")
      case big: True
      then have "10 ^ 28 \<le> coeff"
        by (intro ndigits_ge_imp) (simp_all add: prec_def)
      then have c28: "coeff = 10 ^ 28"
        using up by simp
      have d': "d' = Decimal (dsign d) (coeff div 10) (exp_min + 1)"
        using assms(1) fx True big by (auto split: if_splits)
      have "mag d' = real coeff * 10 powi exp_min"
        by (simp add: d' mag_def c28 power_int_add)
      then show ?thesis
        using kpos ek c28 by (auto simp add: d' coeff_def [symmetric])
    next
      case small: False
      have d': "d' = Decimal (dsign d) coeff exp_min"
        using assms(1) fx True small by (auto split: if_splits)
      have m: "mag d' = real coeff * 10 powi exp_min"
        by (simp add: d' mag_def)
      show ?thesis
      proof (cases "exp_min = exp_min0")
        case True
        then show ?thesis
          using kpos ek m low by (auto simp add: d' coeff_def [symmetric])
      next
        case False
        then show ?thesis
          using kpos ek m tiny by (auto simp add: d' coeff_def [symmetric])
      qed
    qed
  qed
qed

lemma dec_fix_zero_iff:
  assumes "dec_fix d = Inr d'" and "dint d = 0"
  shows "dint d' = 0"
  using assms by (auto simp add: dec_fix_def)

text \<open>
  The relative error of one rounding to 28 digits, for a result that is a normal number
  (non-zero, adjusted exponent at least \<open>Emin\<close>).
\<close>

lemma dec_fix_error:
  assumes "dec_fix d = Inr d'" and "normal d'"
  shows "dsign d' = dsign d \<and> 2 * 10 ^ 27 * \<bar>mag d' - mag d\<bar> \<le> mag d'"
proof -
  have nz: "dint d \<noteq> 0"
    using assms dec_fix_zero_iff [OF assms(1)] by (auto simp add: normal_def)
  note r = dec_fix_rounded [OF assms(1) nz]
  show ?thesis
  proof (cases "d' = d")
    case True
    then show ?thesis
      by (simp add: mag_nonneg)
  next
    case False
    then obtain k where k: "0 < k"
      "mag d' = real (round_half_even (dint d) k) * 10 powi (dexp d + int k)"
      "10 ^ 27 \<le> round_half_even (dint d) k \<or>
         d' = Decimal (dsign d) (round_half_even (dint d) k) Etiny"
      using r by auto
    define coeff where "coeff = round_half_even (dint d) k"
    define P where "P = (10::real) powi (dexp d + int k)"
    have Ppos: "0 < P" by (simp add: P_def)
    have low: "10 ^ 27 \<le> coeff"
    proof (cases "10 ^ 27 \<le> coeff")
      case True
      then show ?thesis .
    next
      case False
      then have d': "d' = Decimal (dsign d) coeff Etiny"
        using k(3) by (simp add: coeff_def)
      have "27 < ndigits coeff"
        using assms(2) by (simp add: normal_def adjusted_def d' Etiny_def prec_def)
      then show ?thesis
        by (intro ndigits_ge_imp) simp_all
    qed
    then have "(10::real) ^ 27 \<le> real coeff"
      by (metis of_nat_le_iff of_nat_numeral of_nat_power)
    then have "10 ^ 27 * P \<le> real coeff * P"
      using Ppos by (intro mult_right_mono) simp_all
    then have 1: "10 ^ 27 * P \<le> mag d'"
      by (simp add: k(2) coeff_def P_def)
    have "2 * \<bar>mag d' - mag d\<bar> \<le> P"
      using round_value [OF k(1), of "dint d" "dexp d"]
      unfolding k(2) mag_def [of d] P_def .
    then have "10 ^ 27 * (2 * \<bar>mag d' - mag d\<bar>) \<le> 10 ^ 27 * P"
      by (intro mult_left_mono) simp_all
    then show ?thesis
      using 1 r by (simp add: mult.assoc mult.left_commute)
  qed
qed

lemma normal_nonzero: "normal d \<Longrightarrow> dint d \<noteq> 0"
  by (simp add: normal_def)

lemma val_mult_Decimal:
  "val (Decimal (dsign x \<noteq> dsign y) (dint x * dint y) (dexp x + dexp y)) = val x * val y"
  by (simp add: val_def power_int_add)

lemma abs_val_diff':
  assumes "dsign x = dsign y"
  shows "\<bar>val x - val y\<bar> = \<bar>mag x - mag y\<bar>"
  by (rule abs_val_diff [OF assms])

text \<open>A 28-digit product is within \<open>5 * 10^-28\<close> of the exact one, relative to itself.\<close>

lemma dec_mul_error:
  assumes "dec_mul x y = Inr z" and "normal z"
  shows "2 * 10 ^ 27 * \<bar>val z - val x * val y\<bar> \<le> \<bar>val z\<bar>"
proof -
  define pre where "pre = Decimal (dsign x \<noteq> dsign y) (dint x * dint y) (dexp x + dexp y)"
  have f: "dec_fix pre = Inr z"
    using assms(1) by (simp add: dec_mul_def pre_def)
  note e = dec_fix_error [OF f assms(2)]
  have "\<bar>val z - val pre\<bar> = \<bar>mag z - mag pre\<bar>"
    using e by (intro abs_val_diff) simp
  then show ?thesis
    using e by (simp add: abs_val pre_def [symmetric] val_mult_Decimal [of x y, folded pre_def])
qed

lemma strip_zeros_value:
  "strip_zeros coeff e ideal = (coeff', e') \<Longrightarrow>
     real coeff' * 10 powi e' = real coeff * 10 powi e"
proof (induction coeff e ideal arbitrary: coeff' e' rule: strip_zeros.induct)
  case (1 coeff e ideal)
  show ?case
  proof (cases "e < ideal \<and> coeff mod 10 = 0")
    case True
    then have "strip_zeros (coeff div 10) (e + 1) ideal = (coeff', e')"
      using 1(2) by (simp add: strip_zeros.simps [of coeff e ideal])
    then have "real coeff' * 10 powi e' = real (coeff div 10) * 10 powi (e + 1)"
      using 1(1) [OF True] by simp
    also have "\<dots> = real (coeff div 10 * 10) * 10 powi e"
      by (simp add: power_int_add)
    also have "coeff div 10 * 10 = coeff"
      using True by (simp add: mod_eq_0_iff_dvd)
    finally show ?thesis .
  next
    case False
    then have "strip_zeros coeff e ideal = (coeff, e)"
      by (subst strip_zeros.simps) auto
    then show ?thesis
      using 1(2) by simp
  qed
qed

lemma quotient_lower:
  assumes "cx \<noteq> 0" and "cy \<noteq> 0"
    and "shift = int (ndigits cy) - int (ndigits cx) + 29"
    and "num = (if shift \<ge> 0 then cx * 10 ^ nat shift else cx)"
    and "den = (if shift \<ge> 0 then cy else cy * 10 ^ nat (- shift))"
  shows "den * 10 ^ 28 \<le> num"
proof -
  have lx: "10 ^ (ndigits cx - 1) \<le> cx" by (rule ndigits_lower [OF assms(1)])
  have ly: "cy < 10 ^ ndigits cy" by (rule ndigits_upper)
  have px: "0 < ndigits cx" by (rule ndigits_pos)
  show ?thesis
  proof (cases "shift \<ge> 0")
    case True
    have "den * 10 ^ 28 \<le> 10 ^ ndigits cy * 10 ^ 28"
      using ly True by (simp add: assms(5))
    also have "\<dots> = 10 ^ (ndigits cx - 1) * 10 ^ nat shift"
    proof -
      have "ndigits cy + 28 = (ndigits cx - 1) + nat shift"
        using True px by (simp add: assms(3))
      then show ?thesis
        by (metis power_add)
    qed
    also have "\<dots> \<le> num"
      using lx True by (simp add: assms(4))
    finally show ?thesis .
  next
    case False
    have "den * 10 ^ 28 \<le> 10 ^ ndigits cy * 10 ^ nat (- shift) * 10 ^ 28"
      using ly False by (simp add: assms(5))
    also have "\<dots> = 10 ^ (ndigits cx - 1)"
    proof -
      have "ndigits cy + nat (- shift) + 28 = ndigits cx - 1"
        using False px by (simp add: assms(3))
      then show ?thesis
        by (metis power_add)
    qed
    also have "\<dots> \<le> num"
      using lx False by (simp add: assms(4))
    finally show ?thesis .
  qed
qed

lemma quotient_value:
  assumes "cy \<noteq> 0"
    and "num = (if shift \<ge> 0 then cx * 10 ^ nat shift else cx)"
    and "den = (if shift \<ge> 0 then cy else cy * 10 ^ nat (- shift))"
  shows "real num / real den * 10 powi (ex - ey - shift) =
    (real cx * 10 powi ex) / (real cy * 10 powi ey)"
proof -
  have d: "(10::real) powi (ex - ey - shift) = 10 powi ex / (10 powi ey * 10 powi shift)"
    by (simp add: power_int_diff)
  have nz: "(10::real) powi ey \<noteq> 0" "(10::real) powi shift \<noteq> 0"
    by simp_all
  show ?thesis
  proof (cases "shift \<ge> 0")
    case True
    then have "(10::real) powi shift = 10 ^ nat shift"
      by (simp add: power_int_def)
    then show ?thesis
      using True assms(1) by (simp add: assms(2,3) d)
  next
    case False
    then have "(10::real) powi (- shift) = 10 ^ nat (- shift)"
      by (simp add: power_int_def)
    then have "(10::real) powi shift = 1 / 10 ^ nat (- shift)"
      by (simp add: power_int_minus field_simps)
    then show ?thesis
      using False assms(1) by (simp add: assms(2,3) d)
  qed
qed

lemma abs_bound_elim:
  fixes a b :: real
  assumes "c * \<bar>a\<bar> \<le> b" and "0 \<le> c"
  shows "c * a \<le> b" and "c * (- a) \<le> b"
proof -
  have 1: "c * a \<le> c * \<bar>a\<bar>"
    by (rule mult_left_mono [OF _ assms(2)]) simp
  have 2: "c * (- a) \<le> c * \<bar>a\<bar>"
    by (rule mult_left_mono [OF _ assms(2)]) simp
  show "c * a \<le> b"
    by (rule order_trans [OF 1 assms(1)])
  show "c * (- a) \<le> b"
    by (rule order_trans [OF 2 assms(1)])
qed

lemma abs_bound_intro:
  fixes a b :: real
  assumes "c * a \<le> b" and "c * (- a) \<le> b"
  shows "c * \<bar>a\<bar> \<le> b"
  using assms by (cases "0 \<le> a") (simp_all add: abs_if)

lemma combine_div:
  fixes Z Pr Qv T :: real
  assumes "2 * 10 ^ 27 * \<bar>Z - Pr\<bar> \<le> Z" and "\<bar>Pr - Qv\<bar> \<le> T" and "10 ^ 28 * T \<le> Pr"
  shows "10 ^ 27 * \<bar>Z - Qv\<bar> \<le> Z"
proof -
  have a: "2 * 10 ^ 27 * (Z - Pr) \<le> Z" "2 * 10 ^ 27 * (- (Z - Pr)) \<le> Z"
    using abs_bound_elim [OF assms(1)] by simp_all
  have b: "Pr - Qv \<le> T" "Qv - Pr \<le> T"
    using assms(2) by (simp_all add: abs_le_iff)
  have "10 ^ 27 * (Z - Qv) \<le> Z" "10 ^ 27 * (- (Z - Qv)) \<le> Z"
    using a b assms(3) by simp_all
  then show ?thesis
    by (rule abs_bound_intro)
qed

lemma val_div_mag:
  assumes "dsign z = (dsign x \<noteq> dsign y)"
  shows "\<bar>val z - val x / val y\<bar> = \<bar>mag z - mag x / mag y\<bar>"
  using assms by (simp add: val_mag abs_minus_commute)

text \<open>A 28-digit quotient is within \<open>10^-27\<close> of the exact one, relative to itself.\<close>

lemma dec_div_error:
  assumes "dec_div x y = Inr z" and "normal z"
  shows "10 ^ 27 * \<bar>val z - val x / val y\<bar> \<le> \<bar>val z\<bar>"
proof -
  have ny: "dint y \<noteq> 0"
    using assms(1) by (auto simp add: dec_div_def Let_def split: if_splits)
  have nx: "dint x \<noteq> 0"
  proof
    assume "dint x = 0"
    then have "dec_fix (Decimal (dsign x \<noteq> dsign y) 0 (dexp x - dexp y)) = Inr z"
      using assms(1) ny by (simp add: dec_div_def)
    then have "dint z = 0"
      by (rule dec_fix_zero_iff) simp
    then show False
      using assms(2) by (simp add: normal_def)
  qed
  define sign where "sign = (dsign x \<noteq> dsign y)"
  define shift where "shift = int (ndigits (dint y)) - int (ndigits (dint x)) + int prec + 1"
  have shift29: "shift = int (ndigits (dint y)) - int (ndigits (dint x)) + 29"
    by (simp add: shift_def prec_def)
  define e where "e = dexp x - dexp y - shift"
  define num where "num = (if shift \<ge> 0 then dint x * 10 ^ nat shift else dint x)"
  define den where "den = (if shift \<ge> 0 then dint y else dint y * 10 ^ nat (- shift))"
  define q where "q = num div den"
  define r where "r = num mod den"
  have dd: "dec_div x y =
      (if r \<noteq> 0 then dec_fix (Decimal sign (if q mod 5 = 0 then q + 1 else q) e)
       else (case strip_zeros q e (dexp x - dexp y) of
               (coeff', e') \<Rightarrow> dec_fix (Decimal sign coeff' e')))"
    unfolding dec_div_def Let_def sign_def shift_def e_def num_def den_def q_def r_def
    using nx ny by (simp only: if_False)
  have denpos: "0 < den"
    using ny by (simp add: den_def)
  have low: "den * 10 ^ 28 \<le> num"
    by (rule quotient_lower [OF nx ny shift29 num_def den_def])
  have "10 ^ 28 = (den * 10 ^ 28) div den"
    using denpos by simp
  also have "\<dots> \<le> q"
    unfolding q_def by (rule div_le_mono [OF low])
  finally have qlow: "10 ^ 28 \<le> q" .
  define Qv where "Qv = mag x / mag y"
  define T where "T = (10::real) powi e"
  have Tpos: "0 < T" by (simp add: T_def)
  have Q: "real num / real den * T = Qv"
    unfolding Qv_def mag_def T_def e_def
    by (rule quotient_value [OF ny num_def den_def])
  have nd: "num = q * den + r"
    by (simp add: q_def r_def)
  have rden: "r < den"
    using denpos by (simp add: r_def)
  have goal: "10 ^ 27 * \<bar>mag z - Qv\<bar> \<le> mag z \<and> dsign z = sign"
  proof (cases "r \<noteq> 0")
    case True
    define q' where "q' = (if q mod 5 = 0 then q + 1 else q)"
    define pre where "pre = Decimal sign q' e"
    have f: "dec_fix pre = Inr z"
      using assms(1) True by (simp add: dd pre_def q'_def)
    note fe = dec_fix_error [OF f assms(2)]
    have "real num = real q * real den + real r"
      using nd by (metis of_nat_add of_nat_mult)
    then have frac: "real num / real den = real q + real r / real den"
      using denpos by (simp add: field_simps)
    have "0 < real r / real den" "real r / real den < 1"
      using True rden denpos by simp_all
    then have "\<bar>real q' - real num / real den\<bar> \<le> 1"
      by (simp add: frac q'_def abs_le_iff)
    then have "\<bar>real q' - real num / real den\<bar> * T \<le> 1 * T"
      using Tpos by (intro mult_right_mono) simp_all
    moreover have "mag pre - Qv = (real q' - real num / real den) * T"
      by (simp add: pre_def mag_def T_def [symmetric] Q [symmetric] algebra_simps)
    ultimately have 1: "\<bar>mag pre - Qv\<bar> \<le> T"
      using Tpos by (simp add: abs_mult)
    have "(10::real) ^ 28 \<le> real q'"
      using qlow by (simp add: q'_def)
    then have "10 ^ 28 * T \<le> real q' * T"
      using Tpos by (intro mult_right_mono) simp_all
    then have 2: "10 ^ 28 * T \<le> mag pre"
      by (simp add: pre_def mag_def T_def)
    have "10 ^ 27 * \<bar>mag z - Qv\<bar> \<le> mag z"
      by (rule combine_div [OF conjunct2 [OF fe] 1 2])
    then show ?thesis
      using fe by (simp add: pre_def)
  next
    case False
    obtain c' e' where st: "strip_zeros q e (dexp x - dexp y) = (c', e')"
      by (cases "strip_zeros q e (dexp x - dexp y)")
    define pre where "pre = Decimal sign c' e'"
    have f: "dec_fix pre = Inr z"
      using assms(1) False by (simp add: dd pre_def st)
    note fe = dec_fix_error [OF f assms(2)]
    have "real num = real q * real den"
      using nd False by (metis add.right_neutral of_nat_mult)
    then have "real num / real den = real q"
      using denpos by simp
    then have "mag pre = Qv"
      using strip_zeros_value [OF st] by (simp add: pre_def mag_def Q [symmetric] T_def)
    then have "2 * 10 ^ 27 * \<bar>mag z - Qv\<bar> \<le> mag z"
      using fe by simp
    then have "10 ^ 27 * \<bar>mag z - Qv\<bar> \<le> mag z"
      using mag_nonneg [of z] by simp
    then show ?thesis
      using fe by (simp add: pre_def)
  qed
  have "\<bar>val z - val x / val y\<bar> = \<bar>mag z - Qv\<bar>"
    unfolding Qv_def using goal by (intro val_div_mag) (simp add: sign_def)
  then show ?thesis
    using goal by (simp add: abs_val)
qed

lemma dec_fix_small:
  assumes "dexp d = - 8" and "ndigits (dint d) \<le> prec"
  shows "\<exists>d'. dec_fix d = Inr d' \<and> val d' = val d"
proof (cases "dint d = 0")
  case True
  then show ?thesis
    by (simp add: dec_fix_def val_def)
next
  case False
  have "int (ndigits (dint d)) \<le> 28"
    using assms(2) by (simp add: prec_def)
  then have "dec_fix d = Inr d"
    using False assms(1)
    by (simp add: dec_fix_def Let_def prec_def Etop_def Etiny_def Emax_def Emin_def)
  then show ?thesis by simp
qed

lemma rescale_error:
  "2 * 10 ^ 8 * \<bar>val (rescale d (- 8)) - val d\<bar> \<le> 1 \<and> dexp (rescale d (- 8)) = - 8"
proof (cases "dint d = 0")
  case True
  then show ?thesis
    by (simp add: rescale_def val_def)
next
  case nz: False
  show ?thesis
  proof (cases "dexp d \<ge> - 8")
    case True
    have "dexp d = - 8 + int (nat (dexp d + 8))"
      using True by simp
    then have "(10::real) powi dexp d = 10 powi (- 8 + int (nat (dexp d + 8)))"
      by (rule arg_cong)
    also have "\<dots> = 10 powi (- 8) * 10 ^ nat (dexp d + 8)"
      by (rule powi_add_nat)
    finally have "val (rescale d (- 8)) = val d"
      using nz True by (simp add: rescale_def val_def)
    then show ?thesis
      using nz True by (simp add: rescale_def)
  next
    case False
    define k where "k = nat (- 8 - dexp d)"
    have k: "0 < k" "dexp d + int k = - 8"
      using False by (simp_all add: k_def)
    have r: "rescale d (- 8) = Decimal (dsign d) (round_half_even (dint d) k) (- 8)"
      using nz False by (simp add: rescale_def k_def)
    have "2 * \<bar>real (round_half_even (dint d) k) * 10 powi (- 8) - real (dint d) * 10 powi dexp d\<bar>
        \<le> 10 powi (- 8)"
      using round_value [OF k(1), of "dint d" "dexp d"] by (simp add: k(2))
    then have "2 * \<bar>mag (rescale d (- 8)) - mag d\<bar> \<le> 10 powi (- 8)"
      by (simp add: r mag_def)
    then have "10 ^ 8 * (2 * \<bar>mag (rescale d (- 8)) - mag d\<bar>) \<le> 10 ^ 8 * 10 powi (- 8)"
      by (intro mult_left_mono) simp_all
    moreover have "\<bar>val (rescale d (- 8)) - val d\<bar> = \<bar>mag (rescale d (- 8)) - mag d\<bar>"
      by (intro abs_val_diff) (simp add: r)
    ultimately show ?thesis
      by (simp add: r power_int_minus)
  qed
qed

text \<open>Quantizing to 8 places moves a value by at most half a unit of the 8th place.\<close>

lemma quantize_error:
  assumes "quantize d (- 8) = Inr q"
  shows "2 * 10 ^ 8 * \<bar>val q - val d\<bar> \<le> 1"
proof (cases "dint d = 0")
  case True
  then have "q = Decimal (dsign d) 0 (- 8)"
    using assms by (simp add: quantize_def dec_fix_def Etiny_def Emax_def Emin_def prec_def)
  then show ?thesis
    using True by (simp add: val_def)
next
  case False
  define ans where "ans = rescale d (- 8)"
  have "ndigits (dint ans) \<le> prec \<and> dec_fix ans = Inr q"
    using assms False
    by (auto simp add: quantize_def Let_def ans_def Etiny_def Emax_def Emin_def prec_def
        split: if_splits)
  then have "val q = val ans"
    using dec_fix_small [of ans] rescale_error [of d] by (auto simp add: ans_def)
  then show ?thesis
    using rescale_error [of d] by (simp add: ans_def)
qed

section \<open>Composition of rounding errors\<close>

lemma close_factor:
  fixes z x :: real
  assumes "10 ^ 27 * \<bar>z - x\<bar> \<le> \<bar>z\<bar>"
  shows "\<exists>m. x = z * m \<and> 10 ^ 27 * \<bar>1 - m\<bar> \<le> 1"
proof (cases "z = 0")
  case True
  then have "x = 0"
    using assms by simp
  then show ?thesis
    using True by (intro exI [of _ 1]) simp
next
  case False
  have "1 - x / z = (z - x) / z"
    using False by (simp add: field_simps)
  then have "10 ^ 27 * \<bar>1 - x / z\<bar> = (10 ^ 27 * \<bar>z - x\<bar>) / \<bar>z\<bar>"
    by (simp add: abs_divide)
  also have "\<dots> \<le> 1"
    using assms False by (simp add: field_simps)
  finally show ?thesis
    using False by (intro exI [of _ "x / z"]) simp
qed

lemma factor_mult:
  fixes m n :: real
  assumes "\<bar>1 - m\<bar> \<le> a" and "\<bar>1 - n\<bar> \<le> b"
  shows "\<bar>1 - m * n\<bar> \<le> a + b + a * b"
proof -
  have e: "1 - m * n = (1 - m) + (1 - n) - (1 - m) * (1 - n)"
    by (simp add: algebra_simps)
  have "\<bar>(1 - m) * (1 - n)\<bar> \<le> a * b"
    unfolding abs_mult using assms by (intro mult_mono) simp_all
  moreover have "\<bar>(1 - m) + (1 - n) - (1 - m) * (1 - n)\<bar> \<le>
      \<bar>1 - m\<bar> + \<bar>1 - n\<bar> + \<bar>(1 - m) * (1 - n)\<bar>"
    by (rule order_trans [OF abs_triangle_ineq4]) (simp add: abs_triangle_ineq)
  ultimately show ?thesis
    unfolding e using assms by linarith
qed

text \<open>
  Two legs, each the exact multiplication by \<open>\<rho>\<close> up to a factor \<open>m\<close> near \<open>1\<close>, with a
  rounding to 8 places after each leg, and reciprocal exact rates.
\<close>

lemma round_trip_real:
  fixes a c1 q1 c2 q2 r1 r2 m1 m2 h k :: real
  assumes leg1: "a * r1 = c1 * m1" and leg2: "q1 * r2 = c2 * m2" and recip: "r1 * r2 = 1"
    and m1: "\<bar>1 - m1\<bar> \<le> k" and m2: "\<bar>1 - m2\<bar> \<le> k"
    and q1: "\<bar>q1 - c1\<bar> \<le> h" and q2: "\<bar>q2 - c2\<bar> \<le> h"
    and k: "0 \<le> k" "k \<le> 1"
  shows "\<bar>q2 - a\<bar> \<le> h * (1 + 3 * k) * (1 + \<bar>r2\<bar>) + 3 * k * \<bar>q2\<bar>"
proof -
  have h0: "0 \<le> h"
    using q1 by linarith
  have "a = a * r1 * r2"
    using recip by (simp add: mult.assoc)
  also have "\<dots> = c1 * m1 * r2"
    by (simp add: leg1)
  also have "\<dots> = q1 * r2 * m1 - (q1 - c1) * m1 * r2"
    by (simp add: algebra_simps)
  also have "\<dots> = c2 * (m1 * m2) - (q1 - c1) * m1 * r2"
    by (simp add: leg2 algebra_simps)
  finally have "q2 - a = (q2 - c2) + c2 * (1 - m1 * m2) + (q1 - c1) * m1 * r2"
    by (simp add: algebra_simps)
  then have 1: "\<bar>q2 - a\<bar> \<le> \<bar>q2 - c2\<bar> + \<bar>c2 * (1 - m1 * m2)\<bar> + \<bar>(q1 - c1) * m1 * r2\<bar>"
    using abs_triangle_ineq [of "(q2 - c2) + c2 * (1 - m1 * m2)" "(q1 - c1) * m1 * r2"]
      abs_triangle_ineq [of "q2 - c2" "c2 * (1 - m1 * m2)"]
    by linarith
  have kk: "k * k \<le> k"
    using k by (simp add: mult_left_le)
  have mm: "\<bar>1 - m1 * m2\<bar> \<le> 3 * k"
    using factor_mult [OF m1 m2] kk by linarith
  have "\<bar>c2\<bar> \<le> \<bar>q2\<bar> + \<bar>q2 - c2\<bar>"
    using abs_triangle_ineq4 [of q2 "q2 - c2"] by simp
  then have c2: "\<bar>c2\<bar> \<le> \<bar>q2\<bar> + h"
    using q2 by linarith
  have "\<bar>c2 * (1 - m1 * m2)\<bar> \<le> (\<bar>q2\<bar> + h) * (3 * k)"
    unfolding abs_mult using c2 mm by (intro mult_mono) simp_all
  then have 2: "\<bar>c2 * (1 - m1 * m2)\<bar> \<le> 3 * k * \<bar>q2\<bar> + h * (3 * k)"
    by (simp add: algebra_simps)
  have "\<bar>m1\<bar> \<le> 1 + \<bar>1 - m1\<bar>"
    using abs_triangle_ineq4 [of 1 "1 - m1"] by simp
  then have am: "\<bar>m1\<bar> \<le> 1 + k"
    using m1 by linarith
  have "\<bar>(q1 - c1) * m1\<bar> \<le> h * (1 + k)"
    unfolding abs_mult using q1 am by (intro mult_mono) simp_all
  then have "\<bar>(q1 - c1) * m1\<bar> * \<bar>r2\<bar> \<le> h * (1 + k) * \<bar>r2\<bar>"
    by (intro mult_right_mono) simp_all
  then have 3: "\<bar>(q1 - c1) * m1 * r2\<bar> \<le> h * (1 + k) * \<bar>r2\<bar>"
    by (simp add: abs_mult)
  have "h * (1 + k) * \<bar>r2\<bar> \<le> h * (1 + 3 * k) * \<bar>r2\<bar>"
    using h0 k by (intro mult_right_mono mult_left_mono) simp_all
  then have "\<bar>q2 - a\<bar> \<le> h + 3 * k * \<bar>q2\<bar> + h * (3 * k) + h * (1 + 3 * k) * \<bar>r2\<bar>"
    using 1 2 3 q2 by linarith
  then show ?thesis
    by (simp add: algebra_simps)
qed

lemma val_zero_iff: "val d = 0 \<longleftrightarrow> dint d = 0"
  by (simp add: val_def)

lemma dec_div_divisor: "dec_div x y = Inr z \<Longrightarrow> val y \<noteq> 0"
  by (auto simp add: dec_div_def Let_def val_zero_iff split: if_splits)

text \<open>
  A result whose adjusted exponent is at least \<open>Emin\<close> is either a normal number or a zero that
  came from a zero operand: an underflow to zero has the exponent \<open>Etiny\<close>.
\<close>

lemma dec_fix_exact_zero:
  assumes "dec_fix d = Inr d'" and "dint d' = 0" and "Emin \<le> adjusted d'"
  shows "dint d = 0"
proof (rule ccontr)
  assume nz: "dint d \<noteq> 0"
  have m0: "mag d' = 0"
    using assms(2) by (simp add: mag_def)
  from dec_fix_rounded [OF assms(1) nz] consider "d' = d"
    | k where "mag d' = real (round_half_even (dint d) k) * 10 powi (dexp d + int k)"
      "10 ^ 27 \<le> round_half_even (dint d) k \<or>
       d' = Decimal (dsign d) (round_half_even (dint d) k) Etiny"
    by blast
  then show False
  proof cases
    case 1
    then show ?thesis
      using nz assms(2) by simp
  next
    case 2
    have z: "round_half_even (dint d) k = 0"
      using 2(1) m0 by simp
    then have "d' = Decimal (dsign d) 0 Etiny"
      using 2(2) by simp
    then have "adjusted d' = Etiny"
      by (simp add: adjusted_def ndigits.simps)
    then show ?thesis
      using assms(3) by (simp add: Etiny_def Emin_def Emax_def prec_def)
  qed
qed

lemma dec_div_pre:
  assumes "dec_div x y = Inr z" and nx: "dint x \<noteq> 0"
  shows "\<exists>pre. dec_fix pre = Inr z \<and> dint pre \<noteq> 0"
proof -
  have ny: "dint y \<noteq> 0"
    using assms(1) by (auto simp add: dec_div_def Let_def split: if_splits)
  define sign where "sign = (dsign x \<noteq> dsign y)"
  define shift where "shift = int (ndigits (dint y)) - int (ndigits (dint x)) + int prec + 1"
  have shift29: "shift = int (ndigits (dint y)) - int (ndigits (dint x)) + 29"
    by (simp add: shift_def prec_def)
  define e where "e = dexp x - dexp y - shift"
  define num where "num = (if shift \<ge> 0 then dint x * 10 ^ nat shift else dint x)"
  define den where "den = (if shift \<ge> 0 then dint y else dint y * 10 ^ nat (- shift))"
  define q where "q = num div den"
  define r where "r = num mod den"
  have dd: "dec_div x y =
      (if r \<noteq> 0 then dec_fix (Decimal sign (if q mod 5 = 0 then q + 1 else q) e)
       else (case strip_zeros q e (dexp x - dexp y) of
               (coeff', e') \<Rightarrow> dec_fix (Decimal sign coeff' e')))"
    unfolding dec_div_def Let_def sign_def shift_def e_def num_def den_def q_def r_def
    using nx ny by (simp only: if_False)
  have denpos: "0 < den"
    using ny by (simp add: den_def)
  have low: "den * 10 ^ 28 \<le> num"
    by (rule quotient_lower [OF nx ny shift29 num_def den_def])
  have "10 ^ 28 = (den * 10 ^ 28) div den"
    using denpos by simp
  also have "\<dots> \<le> q"
    unfolding q_def by (rule div_le_mono [OF low])
  finally have qlow: "10 ^ 28 \<le> q" .
  then have qpos: "0 < q"
    by (rule less_le_trans [rotated]) simp
  show ?thesis
  proof (cases "r \<noteq> 0")
    case True
    have "dec_fix (Decimal sign (if q mod 5 = 0 then q + 1 else q) e) = Inr z"
      using assms(1) True by (simp add: dd)
    moreover have "dint (Decimal sign (if q mod 5 = 0 then q + 1 else q) e) \<noteq> 0"
      using qpos by simp
    ultimately show ?thesis
      by blast
  next
    case False
    obtain c' e' where st: "strip_zeros q e (dexp x - dexp y) = (c', e')"
      by (cases "strip_zeros q e (dexp x - dexp y)")
    have f: "dec_fix (Decimal sign c' e') = Inr z"
      using assms(1) False by (simp add: dd st)
    have v: "real c' * 10 powi e' = real q * 10 powi e"
      by (rule strip_zeros_value [OF st])
    have "c' \<noteq> 0"
    proof
      assume "c' = 0"
      then have "real q * 10 powi e = 0"
        using v by simp
      then show False
        using qpos by simp
    qed
    then show ?thesis
      using f by (intro exI [of _ "Decimal sign c' e'"]) simp
  qed
qed

lemma normal_or_exact:
  assumes "Emin \<le> adjusted z"
  shows "normal z \<or> dint z = 0"
  using assms by (auto simp add: normal_def)

lemma mul_factor:
  assumes "dec_mul x y = Inr z" and "Emin \<le> adjusted z"
  shows "\<exists>m. val x * val y = val z * m \<and> 10 ^ 27 * \<bar>1 - m\<bar> \<le> 1"
proof (cases "dint z = 0")
  case True
  have "dint (Decimal (dsign x \<noteq> dsign y) (dint x * dint y) (dexp x + dexp y)) = 0"
    using assms(1) unfolding dec_mul_def by (rule dec_fix_exact_zero [OF _ True assms(2)])
  then have "val x * val y = 0"
    by (auto simp add: val_def)
  moreover have "val z = 0"
    using True by (simp add: val_def)
  ultimately show ?thesis
    by (intro exI [of _ 1]) simp
next
  case False
  then have n: "normal z"
    using assms(2) by (simp add: normal_def)
  have "2 * 10 ^ 27 * \<bar>val z - val x * val y\<bar> \<le> \<bar>val z\<bar>"
    by (rule dec_mul_error [OF assms(1) n])
  then have "10 ^ 27 * \<bar>val z - val x * val y\<bar> \<le> \<bar>val z\<bar>"
    by simp
  then show ?thesis
    by (rule close_factor)
qed

lemma div_factor:
  assumes "dec_div x y = Inr z" and "Emin \<le> adjusted z"
  shows "\<exists>m. val x / val y = val z * m \<and> 10 ^ 27 * \<bar>1 - m\<bar> \<le> 1"
proof (cases "dint z = 0")
  case True
  have "dint x = 0"
  proof (rule ccontr)
    assume "dint x \<noteq> 0"
    then obtain pre where pre: "dec_fix pre = Inr z" "dint pre \<noteq> 0"
      using dec_div_pre [OF assms(1)] by blast
    show False
      using dec_fix_exact_zero [OF pre(1) True assms(2)] pre(2) by simp
  qed
  then have "val x / val y = 0"
    by (simp add: val_def)
  moreover have "val z = 0"
    using True by (simp add: val_def)
  ultimately show ?thesis
    by (intro exI [of _ 1]) simp
next
  case False
  then have n: "normal z"
    using assms(2) by (simp add: normal_def)
  show ?thesis
    by (rule close_factor [OF dec_div_error [OF assms(1) n]])
qed

lemma two_factors:
  fixes m n :: real
  assumes "10 ^ 27 * \<bar>1 - m\<bar> \<le> 1" and "10 ^ 27 * \<bar>1 - n\<bar> \<le> 1"
  shows "\<bar>1 - m * n\<bar> \<le> 3 / 10 ^ 27"
proof -
  have "\<bar>1 - m\<bar> \<le> 1 / 10 ^ 27" "\<bar>1 - n\<bar> \<le> 1 / 10 ^ 27"
    using assms by (simp_all add: field_simps)
  from factor_mult [OF this] show ?thesis
    by simp
qed

text \<open>One leg through the basket: \<open>(a / b1) * b2\<close> in two rounded steps.\<close>

lemma leg_div_mul:
  assumes "dec_div a b1 = Inr e" and "dec_mul e b2 = Inr c"
    and "Emin \<le> adjusted e" and "Emin \<le> adjusted c"
  shows "\<exists>m. val a * (val b2 / val b1) = val c * m \<and> \<bar>1 - m\<bar> \<le> 3 / 10 ^ 27"
proof -
  obtain m1 where m1: "val a / val b1 = val e * m1" "10 ^ 27 * \<bar>1 - m1\<bar> \<le> 1"
    using div_factor [OF assms(1,3)] by blast
  obtain m2 where m2: "val e * val b2 = val c * m2" "10 ^ 27 * \<bar>1 - m2\<bar> \<le> 1"
    using mul_factor [OF assms(2,4)] by blast
  have "val a * (val b2 / val b1) = (val a / val b1) * val b2"
    by simp
  also have "\<dots> = val c * (m2 * m1)"
    using m1(1) m2(1) by (simp add: mult.assoc mult.left_commute mult.commute)
  finally show ?thesis
    using two_factors [OF m2(2) m1(2)] by blast
qed

text \<open>One leg through USDT: \<open>(a * p1) / p2\<close> in two rounded steps.\<close>

lemma leg_mul_div:
  assumes "dec_mul a p1 = Inr u" and "dec_div u p2 = Inr c"
    and "Emin \<le> adjusted u" and "Emin \<le> adjusted c"
  shows "\<exists>m. val a * (val p1 / val p2) = val c * m \<and> \<bar>1 - m\<bar> \<le> 3 / 10 ^ 27"
proof -
  obtain m1 where m1: "val a * val p1 = val u * m1" "10 ^ 27 * \<bar>1 - m1\<bar> \<le> 1"
    using mul_factor [OF assms(1,3)] by blast
  obtain m2 where m2: "val u / val p2 = val c * m2" "10 ^ 27 * \<bar>1 - m2\<bar> \<le> 1"
    using div_factor [OF assms(2,4)] by blast
  have "val a * (val p1 / val p2) = (val a * val p1) / val p2"
    by simp
  also have "\<dots> = (val u / val p2) * m1"
    by (simp add: m1(1))
  also have "\<dots> = val c * (m2 * m1)"
    by (simp add: m2(1) mult.assoc)
  finally show ?thesis
    using two_factors [OF m2(2) m1(2)] by blast
qed

lemma round_trip_bound:
  fixes a q1 q2 c1 c2 r1 r2 m1 m2 :: real
  assumes "a * r1 = c1 * m1" and "q1 * r2 = c2 * m2" and "r1 * r2 = 1"
    and "\<bar>1 - m1\<bar> \<le> 3 / 10 ^ 27" and "\<bar>1 - m2\<bar> \<le> 3 / 10 ^ 27"
    and "2 * 10 ^ 8 * \<bar>q1 - c1\<bar> \<le> 1" and "2 * 10 ^ 8 * \<bar>q2 - c2\<bar> \<le> 1"
  shows "\<bar>q2 - a\<bar> \<le> (1 + 1 / 10 ^ 26) * (1 + \<bar>r2\<bar>) / (2 * 10 ^ 8) + \<bar>q2\<bar> / 10 ^ 26"
proof -
  have h: "\<bar>q1 - c1\<bar> \<le> 1 / (2 * 10 ^ 8)" "\<bar>q2 - c2\<bar> \<le> 1 / (2 * 10 ^ 8)"
    using assms(6,7) by (simp_all add: field_simps)
  have "\<bar>q2 - a\<bar> \<le> 1 / (2 * 10 ^ 8) * (1 + 3 * (3 / 10 ^ 27)) * (1 + \<bar>r2\<bar>)
      + 3 * (3 / 10 ^ 27) * \<bar>q2\<bar>"
    by (rule round_trip_real [OF assms(1,2,3,4,5) h]) simp_all
  also have "\<dots> \<le> (1 + 1 / 10 ^ 26) * (1 + \<bar>r2\<bar>) / (2 * 10 ^ 8) + \<bar>q2\<bar> / 10 ^ 26"
  proof -
    have "1 / (2 * 10 ^ 8) * (1 + 3 * (3 / 10 ^ 27)) * (1 + \<bar>r2\<bar>) \<le>
        (1 + 1 / 10 ^ 26) * (1 + \<bar>r2\<bar>) / (2 * 10 ^ 8)"
      by (simp add: field_simps)
    moreover have "3 * (3 / 10 ^ 27) * \<bar>q2\<bar> \<le> \<bar>q2\<bar> / 10 ^ 26"
      by (simp add: field_simps)
    ultimately show ?thesis
      by linarith
  qed
  finally show ?thesis .
qed

text \<open>
  The two legs of a round trip through the basket, and through USDT: the second amount has the
  value of the first leg's quantized result.
\<close>

lemma round_trip_basket:
  assumes "dec_div a bf = Inr ea" and "dec_mul ea bt = Inr ca" and "quantize ca (- 8) = Inr qa"
    and "val a' = val qa"
    and "dec_div a' bt = Inr eb" and "dec_mul eb bf = Inr cb" and "quantize cb (- 8) = Inr qb"
    and "Emin \<le> adjusted ea" and "Emin \<le> adjusted ca"
    and "Emin \<le> adjusted eb" and "Emin \<le> adjusted cb"
  shows "\<bar>val qb - val a\<bar> \<le>
    (1 + 1 / 10 ^ 26) * (1 + \<bar>val bf / val bt\<bar>) / (2 * 10 ^ 8) + \<bar>val qb\<bar> / 10 ^ 26"
proof -
  obtain m1 where m1: "val a * (val bt / val bf) = val ca * m1" "\<bar>1 - m1\<bar> \<le> 3 / 10 ^ 27"
    using leg_div_mul [OF assms(1,2,8,9)] by blast
  obtain m2 where m2: "val a' * (val bf / val bt) = val cb * m2" "\<bar>1 - m2\<bar> \<le> 3 / 10 ^ 27"
    using leg_div_mul [OF assms(5,6,10,11)] by blast
  have nz: "val bf \<noteq> 0" "val bt \<noteq> 0"
    using dec_div_divisor [OF assms(1)] dec_div_divisor [OF assms(5)] by simp_all
  then have r: "(val bt / val bf) * (val bf / val bt) = 1"
    by simp
  have q1: "2 * 10 ^ 8 * \<bar>val a' - val ca\<bar> \<le> 1"
    using quantize_error [OF assms(3)] by (simp add: assms(4))
  have q2: "2 * 10 ^ 8 * \<bar>val qb - val cb\<bar> \<le> 1"
    by (rule quantize_error [OF assms(7)])
  show ?thesis
    by (rule round_trip_bound [OF m1(1) m2(1) r m1(2) m2(2) q1 q2])
qed

lemma round_trip_bridge:
  assumes "dec_mul a pf = Inr ua" and "dec_div ua pt = Inr ca" and "quantize ca (- 8) = Inr qa"
    and "val a' = val qa"
    and "dec_mul a' pt = Inr ub" and "dec_div ub pf = Inr cb" and "quantize cb (- 8) = Inr qb"
    and "Emin \<le> adjusted ua" and "Emin \<le> adjusted ca"
    and "Emin \<le> adjusted ub" and "Emin \<le> adjusted cb"
  shows "\<bar>val qb - val a\<bar> \<le>
    (1 + 1 / 10 ^ 26) * (1 + \<bar>val pt / val pf\<bar>) / (2 * 10 ^ 8) + \<bar>val qb\<bar> / 10 ^ 26"
proof -
  obtain m1 where m1: "val a * (val pf / val pt) = val ca * m1" "\<bar>1 - m1\<bar> \<le> 3 / 10 ^ 27"
    using leg_mul_div [OF assms(1,2,8,9)] by blast
  obtain m2 where m2: "val a' * (val pt / val pf) = val cb * m2" "\<bar>1 - m2\<bar> \<le> 3 / 10 ^ 27"
    using leg_mul_div [OF assms(5,6,10,11)] by blast
  have nz: "val pt \<noteq> 0" "val pf \<noteq> 0"
    using dec_div_divisor [OF assms(2)] dec_div_divisor [OF assms(6)] by simp_all
  then have r: "(val pf / val pt) * (val pt / val pf) = 1"
    by simp
  have q1: "2 * 10 ^ 8 * \<bar>val a' - val ca\<bar> \<le> 1"
    using quantize_error [OF assms(3)] by (simp add: assms(4))
  have q2: "2 * 10 ^ 8 * \<bar>val qb - val cb\<bar> \<le> 1"
    by (rule quantize_error [OF assms(7)])
  show ?thesis
    by (rule round_trip_bound [OF m1(1) m2(1) r m1(2) m2(2) q1 q2])
qed

section \<open>Round trips\<close>

lemma fmt_inv:
  assumes "fmt c = Inr str"
  shows "\<exists>q. quantize c (- 8) = Inr q \<and> str = format_f q"
  using assms by (auto simp add: fmt_def split: sum.splits)

lemma cc_bridge_inv:
  assumes "crypto_to_crypto prices f t amount = Inr res"
  shows "res_via res \<noteq> ''ecb'' \<and>
    (res_via res = ''USDT'' \<longrightarrow>
      (\<exists>pf pt ua ca. map_of prices (f @ ''USDT'') = Some pf \<and>
         map_of prices (t @ ''USDT'') = Some pt \<and>
         dec_mul amount pf = Inr ua \<and> dec_div ua pt = Inr ca \<and>
         fmt ca = Inr (res_converted res)))"
  using assms
  by (auto simp add: crypto_to_crypto_def Let_def ebind_def
      split: option.splits sum.splits if_splits dest!: response_inv)

lemma cf_not_round_trip:
  assumes "crypto_to_fiat e ecb_rates prices s f t amount = (Inr res, s')"
  shows "res_via res \<noteq> ''ecb'' \<and> res_via res \<noteq> ''USDT''"
  using assms
  by (auto simp add: crypto_to_fiat_def Let_def ebind_def
      split: option.splits sum.splits if_splits prod.splits dest!: response_inv)

lemma fc_not_round_trip:
  assumes "fiat_to_crypto e ecb_rates prices s f t amount = (Inr res, s')"
  shows "res_via res \<noteq> ''ecb'' \<and> res_via res \<noteq> ''USDT''"
  using assms
  by (auto simp add: fiat_to_crypto_def Let_def ebind_def
      split: option.splits sum.splits if_splits prod.splits dest!: response_inv)

lemma ff_basket_inv:
  assumes "fiat_to_fiat e ecb_rates s f t amount = (Inr res, s')"
  shows "res_via res \<noteq> ''USDT'' \<and>
    (res_via res = ''ecb'' \<longrightarrow>
      (\<exists>bf bt ea ca. map_of ecb_rates f = Some bf \<and> map_of ecb_rates t = Some bt \<and>
         dec_div amount bf = Inr ea \<and> dec_mul ea bt = Inr ca \<and>
         fmt ca = Inr (res_converted res)))"
  using assms
  by (auto simp add: fiat_to_fiat_def Let_def ebind_def getitem_def
      split: option.splits sum.splits if_splits prod.splits dest!: response_inv)


lemma convert_basket_inv:
  assumes "convert e s from_code to_code a = (Inr res, s')"
    and "get_ecb_rates (now_ecb e) (ecb_resp e) s = (Inr ecb_rates, sa)"
    and "get_binance_prices (now_binance e) (binance_resp e) sa = (binance_prices, sb)"
    and "res_via res = ''ecb''"
  shows "\<exists>bf bt ea ca qa.
    map_of ecb_rates (upper from_code) = Some bf \<and> map_of ecb_rates (upper to_code) = Some bt \<and>
    dec_div a bf = Inr ea \<and> dec_mul ea bt = Inr ca \<and> quantize ca (- 8) = Inr qa \<and>
    res_converted res = format_f qa"
proof -
  note q = convert_quadrants [OF assms(2,3), of from_code to_code a]
  have "fiat_to_fiat e ecb_rates sb (upper from_code) (upper to_code) a = (Inr res, s')"
    using assms(1,4) q
      cc_bridge_inv [of binance_prices "upper from_code" "upper to_code" a res]
      cf_not_round_trip [of e ecb_rates binance_prices sb "upper from_code" "upper to_code" a
        res s']
      fc_not_round_trip [of e ecb_rates binance_prices sb "upper from_code" "upper to_code" a
        res s']
    by (auto split: if_splits)
  from ff_basket_inv [OF this] assms(4) obtain bf bt ea ca where
    h: "map_of ecb_rates (upper from_code) = Some bf" "map_of ecb_rates (upper to_code) = Some bt"
      "dec_div a bf = Inr ea" "dec_mul ea bt = Inr ca" "fmt ca = Inr (res_converted res)"
    by blast
  from fmt_inv [OF h(5)] obtain qa where
    "quantize ca (- 8) = Inr qa" "res_converted res = format_f qa"
    by blast
  with h show ?thesis
    by blast
qed

lemma convert_bridge_inv:
  assumes "convert e s from_code to_code a = (Inr res, s')"
    and "get_ecb_rates (now_ecb e) (ecb_resp e) s = (Inr ecb_rates, sa)"
    and "get_binance_prices (now_binance e) (binance_resp e) sa = (binance_prices, sb)"
    and "res_via res = ''USDT''"
  shows "\<exists>pf pt ua ca qa.
    map_of binance_prices (upper from_code @ ''USDT'') = Some pf \<and>
    map_of binance_prices (upper to_code @ ''USDT'') = Some pt \<and>
    dec_mul a pf = Inr ua \<and> dec_div ua pt = Inr ca \<and> quantize ca (- 8) = Inr qa \<and>
    res_converted res = format_f qa"
proof -
  note q = convert_quadrants [OF assms(2,3), of from_code to_code a]
  have "crypto_to_crypto binance_prices (upper from_code) (upper to_code) a = Inr res"
    using assms(1,4) q
      ff_basket_inv [of e ecb_rates sb "upper from_code" "upper to_code" a res s']
      cf_not_round_trip [of e ecb_rates binance_prices sb "upper from_code" "upper to_code" a
        res s']
      fc_not_round_trip [of e ecb_rates binance_prices sb "upper from_code" "upper to_code" a
        res s']
    by (auto split: if_splits)
  from cc_bridge_inv [OF this] assms(4) obtain pf pt ua ca where
    h: "map_of binance_prices (upper from_code @ ''USDT'') = Some pf"
      "map_of binance_prices (upper to_code @ ''USDT'') = Some pt"
      "dec_mul a pf = Inr ua" "dec_div ua pt = Inr ca" "fmt ca = Inr (res_converted res)"
    by blast
  from fmt_inv [OF h(5)] obtain qa where
    "quantize ca (- 8) = Inr qa" "res_converted res = format_f qa"
    by blast
  with h show ?thesis
    by blast
qed

lemma arith_rt:
  "dec_div (Decimal False 246 (- 8)) (Decimal False 16000 (- 2)) = Inr (Decimal False 15375 (- 12))"
  "dec_mul (Decimal False 15375 (- 12)) (Decimal False 108 (- 2)) = Inr (Decimal False 1660500 (- 14))"
  "dec_div (Decimal False 108 (- 2)) (Decimal False 16000 (- 2)) = Inr (Decimal False 675 (- 5))"
  "dec_div (Decimal False 2 (- 8)) (Decimal False 108 (- 2)) = Inr (Decimal False 1851851851851851851851851852 (- 35))"
  "dec_mul (Decimal False 1851851851851851851851851852 (- 35)) (Decimal False 16000 (- 2)) = Inr (Decimal False 2962962962962962962962962963 (- 33))"
  "dec_div (Decimal False 16000 (- 2)) (Decimal False 108 (- 2)) = Inr (Decimal False 1481481481481481481481481481 (- 25))"
  "dec_mul (Decimal False 149 (- 8)) (Decimal False 3000 0) = Inr (Decimal False 447000 (- 8))"
  "dec_div (Decimal False 447000 (- 8)) (Decimal False 60000 0) = Inr (Decimal False 745 (- 10))"
  "dec_div (Decimal False 3000 0) (Decimal False 60000 0) = Inr (Decimal False 5 (- 2))"
  "dec_mul (Decimal False 7 (- 8)) (Decimal False 60000 0) = Inr (Decimal False 420000 (- 8))"
  "dec_div (Decimal False 420000 (- 8)) (Decimal False 3000 0) = Inr (Decimal False 140 (- 8))"
  "dec_div (Decimal False 60000 0) (Decimal False 3000 0) = Inr (Decimal False 20 0)"
  "dec_mul (Decimal False 10 (- 1)) (Decimal False 20 0) = Inr (Decimal False 200 (- 1))"
  "dec_mul (Decimal False 200 (- 1)) (Decimal False 6 (- 2)) = Inr (Decimal False 1200 (- 3))"
  "dec_mul (Decimal False 10 (- 1)) (Decimal False 9 (- 1)) = Inr (Decimal False 90 (- 2))"
  "dec_mul (Decimal False 9 (- 1)) (Decimal False 12 (- 1)) = Inr (Decimal False 108 (- 2))"
  by (simp_all add: dec_eval)

lemma fmt_rt:
  "fmt (Decimal False 246 (- 8)) = Inr ''0.00000246''"
  "fmt (Decimal False 675 (- 5)) = Inr ''0.00675000''"
  "fmt (Decimal False 1660500 (- 14)) = Inr ''0.00000002''"
  "fmt (Decimal False 2 (- 8)) = Inr ''0.00000002''"
  "fmt (Decimal False 1481481481481481481481481481 (- 25)) = Inr ''148.14814815''"
  "fmt (Decimal False 2962962962962962962962962963 (- 33)) = Inr ''0.00000296''"
  "fmt (Decimal False 149 (- 8)) = Inr ''0.00000149''"
  "fmt (Decimal False 5 (- 2)) = Inr ''0.05000000''"
  "fmt (Decimal False 745 (- 10)) = Inr ''0.00000007''"
  "fmt (Decimal False 7 (- 8)) = Inr ''0.00000007''"
  "fmt (Decimal False 20 0) = Inr ''20.00000000''"
  "fmt (Decimal False 140 (- 8)) = Inr ''0.00000140''"
  "fmt (Decimal False 10 (- 1)) = Inr ''1.00000000''"
  "fmt (Decimal False 200 (- 1)) = Inr ''20.00000000''"
  "fmt (Decimal False 6 (- 2)) = Inr ''0.06000000''"
  "fmt (Decimal False 1200 (- 3)) = Inr ''1.20000000''"
  "fmt (Decimal False 9 (- 1)) = Inr ''0.90000000''"
  "fmt (Decimal False 90 (- 2)) = Inr ''0.90000000''"
  "fmt (Decimal False 12 (- 1)) = Inr ''1.20000000''"
  "fmt (Decimal False 108 (- 2)) = Inr ''1.08000000''"
  by (simp_all add: dec_eval replicate_numeral_Cons)

lemma quantize_rt:
  "quantize (Decimal False 1660500 (- 14)) (- 8) = Inr (Decimal False 2 (- 8))"
  "quantize (Decimal False 2962962962962962962962962963 (- 33)) (- 8) = Inr (Decimal False 296 (- 8))"
  "quantize (Decimal False 745 (- 10)) (- 8) = Inr (Decimal False 7 (- 8))"
  "quantize (Decimal False 140 (- 8)) (- 8) = Inr (Decimal False 140 (- 8))"
  by (simp_all add: dec_eval)

lemma rt_basket_there:
  "fst (convert (ex_env tickers_usdt no_yahoo) CACHE_init ''JPY'' ''USD'' (Decimal False 246 (- 8))) =
     Inr \<lparr>res_from = ''JPY'', res_to = ''USD'', res_amount = ''0.00000246'',
           res_rate = ''0.00675000'', res_converted = ''0.00000002'', res_via = ''ecb''\<rparr>"
  by (simp add: ex_convert upper_codes is_in_ex_basket dict_of_def)
    (simp add: fiat_to_fiat_def ex_get_yahoo_rate_error [of _ "''JPY''" "''USD''"] upper_codes
      truthy_def present_def getitem_def map_of_ex_basket ebind_def arith_rt response_def fmt_rt
      Let_def)

lemma rt_basket_back:
  "fst (convert (ex_env tickers_usdt no_yahoo) CACHE_init ''USD'' ''JPY'' (Decimal False 2 (- 8))) =
     Inr \<lparr>res_from = ''USD'', res_to = ''JPY'', res_amount = ''0.00000002'',
           res_rate = ''148.14814815'', res_converted = ''0.00000296'', res_via = ''ecb''\<rparr>"
  by (simp add: ex_convert upper_codes is_in_ex_basket dict_of_def)
    (simp add: fiat_to_fiat_def ex_get_yahoo_rate_error [of _ "''USD''" "''JPY''"] upper_codes
      truthy_def present_def getitem_def map_of_ex_basket ebind_def arith_rt response_def fmt_rt
      Let_def)

lemma rt_bridge_there:
  "fst (convert (ex_env tickers_usdt no_yahoo) CACHE_init ''ETH'' ''BTC'' (Decimal False 149 (- 8))) =
     Inr \<lparr>res_from = ''ETH'', res_to = ''BTC'', res_amount = ''0.00000149'',
           res_rate = ''0.05000000'', res_converted = ''0.00000007'', res_via = ''USDT''\<rparr>"
  by (simp add: ex_convert upper_codes is_in_ex_basket dict_of_def)
    (simp add: tickers_usdt_def crypto_to_crypto_def truthy_def present_def ebind_def arith_rt
      response_def fmt_rt Let_def)

lemma rt_bridge_back:
  "fst (convert (ex_env tickers_usdt no_yahoo) CACHE_init ''BTC'' ''ETH'' (Decimal False 7 (- 8))) =
     Inr \<lparr>res_from = ''BTC'', res_to = ''ETH'', res_amount = ''0.00000007'',
           res_rate = ''20.00000000'', res_converted = ''0.00000140'', res_via = ''USDT''\<rparr>"
  by (simp add: ex_convert upper_codes is_in_ex_basket dict_of_def)
    (simp add: tickers_usdt_def crypto_to_crypto_def truthy_def present_def ebind_def arith_rt
      response_def fmt_rt Let_def)

lemma rt_direct_there:
  "fst (convert (ex_env tickers_rt_direct no_yahoo) CACHE_init ''BTC'' ''ETH'' (Decimal False 10 (- 1))) =
     Inr \<lparr>res_from = ''BTC'', res_to = ''ETH'', res_amount = ''1.00000000'',
           res_rate = ''20.00000000'', res_converted = ''20.00000000'', res_via = ''direct''\<rparr>"
  by (simp add: ex_convert upper_codes is_in_ex_basket dict_of_def)
    (simp add: tickers_rt_direct_def crypto_to_crypto_def truthy_def present_def ebind_def arith_rt
      response_def fmt_rt Let_def)

lemma rt_direct_back:
  "fst (convert (ex_env tickers_rt_direct no_yahoo) CACHE_init ''ETH'' ''BTC'' (Decimal False 200 (- 1))) =
     Inr \<lparr>res_from = ''ETH'', res_to = ''BTC'', res_amount = ''20.00000000'',
           res_rate = ''0.06000000'', res_converted = ''1.20000000'', res_via = ''direct''\<rparr>"
  by (simp add: ex_convert upper_codes is_in_ex_basket dict_of_def)
    (simp add: tickers_rt_direct_def crypto_to_crypto_def truthy_def present_def ebind_def arith_rt
      response_def fmt_rt Let_def)

lemma rt_yahoo_there:
  "fst (convert (ex_env tickers_usdt yahoo_rt) CACHE_init ''USD'' ''EUR'' (Decimal False 10 (- 1))) =
     Inr \<lparr>res_from = ''USD'', res_to = ''EUR'', res_amount = ''1.00000000'',
           res_rate = ''0.90000000'', res_converted = ''0.90000000'', res_via = ''yahoo''\<rparr>"
  by (simp add: ex_convert upper_codes is_in_ex_basket dict_of_def)
    (simp add: fiat_to_fiat_def get_yahoo_rate_def ex_env_def ex_cache_def yahoo_rt_def upper_codes
      truthy_def present_def ebind_def arith_rt response_def fmt_rt Let_def)

lemma rt_yahoo_back:
  "fst (convert (ex_env tickers_usdt yahoo_rt) CACHE_init ''EUR'' ''USD'' (Decimal False 9 (- 1))) =
     Inr \<lparr>res_from = ''EUR'', res_to = ''USD'', res_amount = ''0.90000000'',
           res_rate = ''1.20000000'', res_converted = ''1.08000000'', res_via = ''yahoo''\<rparr>"
  by (simp add: ex_convert upper_codes is_in_ex_basket dict_of_def)
    (simp add: fiat_to_fiat_def get_yahoo_rate_def ex_env_def ex_cache_def yahoo_rt_def upper_codes
      truthy_def present_def ebind_def arith_rt response_def fmt_rt Let_def)

lemma fst_pair: "fst p = x \<Longrightarrow> p = (x, snd p)"
  by auto

lemma adjusted_rt:
  "Emin \<le> adjusted (Decimal False 15375 (- 12))"
  "Emin \<le> adjusted (Decimal False 1660500 (- 14))"
  "Emin \<le> adjusted (Decimal False 1851851851851851851851851852 (- 35))"
  "Emin \<le> adjusted (Decimal False 2962962962962962962962962963 (- 33))"
  "Emin \<le> adjusted (Decimal False 447000 (- 8))"
  "Emin \<le> adjusted (Decimal False 745 (- 10))"
  "Emin \<le> adjusted (Decimal False 420000 (- 8))"
  "Emin \<le> adjusted (Decimal False 140 (- 8))"
  by (simp_all add: adjusted_def Emin_def Emax_def ndigits.simps)

lemma arith_wide:
  "dec_div (Decimal False 123456789 (- 8)) (Decimal False 2 1000020) = Inr (Decimal False 617284 (- 1000026))"
  "dec_mul (Decimal False 617284 (- 1000026)) (Decimal False 4 1000020) = Inr (Decimal False 2469136 (- 6))"
  "dec_div (Decimal False 4 1000020) (Decimal False 2 1000020) = Inr (Decimal False 2 0)"
  "dec_div (Decimal False 2469136 (- 6)) (Decimal False 4 1000020) = Inr (Decimal False 617284 (- 1000026))"
  "dec_mul (Decimal False 617284 (- 1000026)) (Decimal False 2 1000020) = Inr (Decimal False 1234568 (- 6))"
  "dec_div (Decimal False 2 1000020) (Decimal False 4 1000020) = Inr (Decimal False 5 (- 1))"
  by (simp_all add: dec_eval)

lemma fmt_wide:
  "fmt (Decimal False 123456789 (- 8)) = Inr ''1.23456789''"
  "fmt (Decimal False 2 0) = Inr ''2.00000000''"
  "fmt (Decimal False 2469136 (- 6)) = Inr ''2.46913600''"
  "fmt (Decimal False 5 (- 1)) = Inr ''0.50000000''"
  "fmt (Decimal False 1234568 (- 6)) = Inr ''1.23456800''"
  by (simp_all add: dec_eval replicate_numeral_Cons)

lemma wide_get_ecb_rates:
  "get_ecb_rates (now_ecb wide_env) (ecb_resp wide_env) CACHE_init =
     (Inr wide_basket,
      CACHE_init\<lparr>requests := [ECB_URL], ecb_data := Some wide_basket, ecb_timestamp := 1000\<rparr>)"
  by (simp add: get_ecb_rates_def wide_env_def CACHE_init_def data_truthy_def dict_of_def Let_def
      wide_cubes_def wide_basket_def)

lemma wide_get_binance_prices:
  "get_binance_prices (now_binance wide_env) (binance_resp wide_env)
     (CACHE_init\<lparr>requests := [ECB_URL], ecb_data := Some wide_basket, ecb_timestamp := 1000\<rparr>) =
     (dict_of [] tickers_usdt, (ex_cache tickers_usdt)\<lparr>ecb_data := Some wide_basket\<rparr>)"
  by (simp add: get_binance_prices_def wide_env_def CACHE_init_def data_truthy_def ex_cache_def
      Let_def)

lemmas wide_convert = convert_quadrants [OF wide_get_ecb_rates wide_get_binance_prices]

lemma map_of_wide_basket:
  "map_of wide_basket ''USD'' = Some (Decimal False 2 1000020)"
  "map_of wide_basket ''JPY'' = Some (Decimal False 4 1000020)"
  by (simp_all add: wide_basket_def)

lemma rt_wide_there:
  "fst (convert wide_env CACHE_init ''USD'' ''JPY'' (Decimal False 123456789 (- 8))) =
     Inr \<lparr>res_from = ''USD'', res_to = ''JPY'', res_amount = ''1.23456789'',
           res_rate = ''2.00000000'', res_converted = ''2.46913600'', res_via = ''ecb''\<rparr>"
  by (simp add: wide_convert upper_codes is_in_def map_of_wide_basket)
    (simp add: fiat_to_fiat_def get_yahoo_rate_def wide_env_def ex_cache_def no_yahoo_def
      upper_codes truthy_def present_def getitem_def map_of_wide_basket ebind_def arith_wide
      response_def fmt_wide Let_def)

lemma rt_wide_back:
  "fst (convert wide_env CACHE_init ''JPY'' ''USD'' (Decimal False 2469136 (- 6))) =
     Inr \<lparr>res_from = ''JPY'', res_to = ''USD'', res_amount = ''2.46913600'',
           res_rate = ''0.50000000'', res_converted = ''1.23456800'', res_via = ''ecb''\<rparr>"
  by (simp add: wide_convert upper_codes is_in_def map_of_wide_basket)
    (simp add: fiat_to_fiat_def get_yahoo_rate_def wide_env_def ex_cache_def no_yahoo_def
      upper_codes truthy_def present_def getitem_def map_of_wide_basket ebind_def arith_wide
      response_def fmt_wide Let_def)

lemma wide_underflow:
  "adjusted (Decimal False 617284 (- 1000026)) < Emin"
  by (simp add: adjusted_def Emin_def Emax_def ndigits.simps)

text \<open>
  C8 (as amended). Let a request from X to Y with amount \<open>a\<close> and a request from Y to X with
  amount \<open>a'\<close> both succeed against the same basket and the same crypto price mapping, both
  with via = ecb or both with via = USDT. Then the converted fields are the formatted
  quantizations \<open>qa\<close> and \<open>qb\<close> of the results of the two rounded decimal operations of each
  leg (a division by \<open>basket[from]\<close> and a multiplication by \<open>basket[to]\<close>; for USDT a
  multiplication by the from+USDT price and a division by the to+USDT price). If \<open>a'\<close> has
  the value of the first converted field and no intermediate result has underflowed (its
  adjusted exponent is at least \<open>Emin\<close>), the amount that comes back differs from \<open>a\<close> by at
  most \<open>(1 + 10^-26) * (1 + r) * 0.5 * 10^-8 + 10^-26 * |qb|\<close>, where \<open>r\<close> is the exact rate of
  the way back: \<open>|basket[X] / basket[Y]|\<close> for ecb, \<open>|price(Y+USDT) / price(X+USDT)|\<close> for
  USDT.
\<close>

theorem round_trip_tolerance:
  assumes "convert e s from_code to_code a = (Inr res, s')"
    and "convert e' t to_code from_code a' = (Inr res', t')"
    and "get_ecb_rates (now_ecb e) (ecb_resp e) s = (Inr ecb_rates, sa)"
    and "get_binance_prices (now_binance e) (binance_resp e) sa = (binance_prices, sb)"
    and "get_ecb_rates (now_ecb e') (ecb_resp e') t = (Inr ecb_rates, ta)"
    and "get_binance_prices (now_binance e') (binance_resp e') ta = (binance_prices, tb)"
  shows
    "(res_via res = ''ecb'' \<and> res_via res' = ''ecb'' \<longrightarrow>
       (\<exists>bf bt ea ca qa eb cb qb.
          map_of ecb_rates (upper from_code) = Some bf \<and>
          map_of ecb_rates (upper to_code) = Some bt \<and>
          dec_div a bf = Inr ea \<and> dec_mul ea bt = Inr ca \<and> quantize ca (- 8) = Inr qa \<and>
          res_converted res = format_f qa \<and>
          dec_div a' bt = Inr eb \<and> dec_mul eb bf = Inr cb \<and> quantize cb (- 8) = Inr qb \<and>
          res_converted res' = format_f qb \<and>
          (val a' = val qa \<and> Emin \<le> adjusted ea \<and> Emin \<le> adjusted ca \<and>
           Emin \<le> adjusted eb \<and> Emin \<le> adjusted cb \<longrightarrow>
             \<bar>val qb - val a\<bar> \<le>
               (1 + 1 / 10 ^ 26) * (1 + \<bar>val bf / val bt\<bar>) / (2 * 10 ^ 8) +
               \<bar>val qb\<bar> / 10 ^ 26))) \<and>
     (res_via res = ''USDT'' \<and> res_via res' = ''USDT'' \<longrightarrow>
       (\<exists>pf pt ua ca qa ub cb qb.
          map_of binance_prices (upper from_code @ ''USDT'') = Some pf \<and>
          map_of binance_prices (upper to_code @ ''USDT'') = Some pt \<and>
          dec_mul a pf = Inr ua \<and> dec_div ua pt = Inr ca \<and> quantize ca (- 8) = Inr qa \<and>
          res_converted res = format_f qa \<and>
          dec_mul a' pt = Inr ub \<and> dec_div ub pf = Inr cb \<and> quantize cb (- 8) = Inr qb \<and>
          res_converted res' = format_f qb \<and>
          (val a' = val qa \<and> Emin \<le> adjusted ua \<and> Emin \<le> adjusted ca \<and>
           Emin \<le> adjusted ub \<and> Emin \<le> adjusted cb \<longrightarrow>
             \<bar>val qb - val a\<bar> \<le>
               (1 + 1 / 10 ^ 26) * (1 + \<bar>val pt / val pf\<bar>) / (2 * 10 ^ 8) +
               \<bar>val qb\<bar> / 10 ^ 26)))"
proof (intro conjI impI; elim conjE)
  assume v: "res_via res = ''ecb''" "res_via res' = ''ecb''"
  from convert_basket_inv [OF assms(1,3,4) v(1)] obtain bf bt ea ca qa where
    l1: "map_of ecb_rates (upper from_code) = Some bf"
      "map_of ecb_rates (upper to_code) = Some bt"
      "dec_div a bf = Inr ea" "dec_mul ea bt = Inr ca" "quantize ca (- 8) = Inr qa"
      "res_converted res = format_f qa"
    by blast
  from convert_basket_inv [OF assms(2,5,6) v(2)] l1(1,2) obtain eb cb qb where
    l2: "dec_div a' bt = Inr eb" "dec_mul eb bf = Inr cb" "quantize cb (- 8) = Inr qb"
      "res_converted res' = format_f qb"
    by auto
  have "\<bar>val qb - val a\<bar> \<le>
      (1 + 1 / 10 ^ 26) * (1 + \<bar>val bf / val bt\<bar>) / (2 * 10 ^ 8) + \<bar>val qb\<bar> / 10 ^ 26"
    if "val a' = val qa" "Emin \<le> adjusted ea" "Emin \<le> adjusted ca"
      "Emin \<le> adjusted eb" "Emin \<le> adjusted cb"
    by (rule round_trip_basket [OF l1(3,4,5) that(1) l2(1,2,3) that(2,3,4,5)])
  with l1 l2 show "\<exists>bf bt ea ca qa eb cb qb.
      map_of ecb_rates (upper from_code) = Some bf \<and>
      map_of ecb_rates (upper to_code) = Some bt \<and>
      dec_div a bf = Inr ea \<and> dec_mul ea bt = Inr ca \<and> quantize ca (- 8) = Inr qa \<and>
      res_converted res = format_f qa \<and>
      dec_div a' bt = Inr eb \<and> dec_mul eb bf = Inr cb \<and> quantize cb (- 8) = Inr qb \<and>
      res_converted res' = format_f qb \<and>
      (val a' = val qa \<and> Emin \<le> adjusted ea \<and> Emin \<le> adjusted ca \<and>
       Emin \<le> adjusted eb \<and> Emin \<le> adjusted cb \<longrightarrow>
         \<bar>val qb - val a\<bar> \<le>
           (1 + 1 / 10 ^ 26) * (1 + \<bar>val bf / val bt\<bar>) / (2 * 10 ^ 8) +
           \<bar>val qb\<bar> / 10 ^ 26)"
    by blast
next
  assume v: "res_via res = ''USDT''" "res_via res' = ''USDT''"
  from convert_bridge_inv [OF assms(1,3,4) v(1)] obtain pf pt ua ca qa where
    l1: "map_of binance_prices (upper from_code @ ''USDT'') = Some pf"
      "map_of binance_prices (upper to_code @ ''USDT'') = Some pt"
      "dec_mul a pf = Inr ua" "dec_div ua pt = Inr ca" "quantize ca (- 8) = Inr qa"
      "res_converted res = format_f qa"
    by blast
  from convert_bridge_inv [OF assms(2,5,6) v(2)] l1(1,2) obtain ub cb qb where
    l2: "dec_mul a' pt = Inr ub" "dec_div ub pf = Inr cb" "quantize cb (- 8) = Inr qb"
      "res_converted res' = format_f qb"
    by auto
  have "\<bar>val qb - val a\<bar> \<le>
      (1 + 1 / 10 ^ 26) * (1 + \<bar>val pt / val pf\<bar>) / (2 * 10 ^ 8) + \<bar>val qb\<bar> / 10 ^ 26"
    if "val a' = val qa" "Emin \<le> adjusted ua" "Emin \<le> adjusted ca"
      "Emin \<le> adjusted ub" "Emin \<le> adjusted cb"
    by (rule round_trip_bridge [OF l1(3,4,5) that(1) l2(1,2,3) that(2,3,4,5)])
  with l1 l2 show "\<exists>pf pt ua ca qa ub cb qb.
      map_of binance_prices (upper from_code @ ''USDT'') = Some pf \<and>
      map_of binance_prices (upper to_code @ ''USDT'') = Some pt \<and>
      dec_mul a pf = Inr ua \<and> dec_div ua pt = Inr ca \<and> quantize ca (- 8) = Inr qa \<and>
      res_converted res = format_f qa \<and>
      dec_mul a' pt = Inr ub \<and> dec_div ub pf = Inr cb \<and> quantize cb (- 8) = Inr qb \<and>
      res_converted res' = format_f qb \<and>
      (val a' = val qa \<and> Emin \<le> adjusted ua \<and> Emin \<le> adjusted ca \<and>
       Emin \<le> adjusted ub \<and> Emin \<le> adjusted cb \<longrightarrow>
         \<bar>val qb - val a\<bar> \<le>
           (1 + 1 / 10 ^ 26) * (1 + \<bar>val pt / val pf\<bar>) / (2 * 10 ^ 8) +
           \<bar>val qb\<bar> / 10 ^ 26)"
    by blast
qed

theorem round_trip_tolerance_witness:
  "\<bar>val (Decimal False 296 (- 8)) - val (Decimal False 246 (- 8))\<bar> \<le>
     (1 + 1 / 10 ^ 26) *
       (1 + \<bar>val (Decimal False 16000 (- 2)) / val (Decimal False 108 (- 2))\<bar>) / (2 * 10 ^ 8) +
     \<bar>val (Decimal False 296 (- 8))\<bar> / 10 ^ 26 \<and>
   \<bar>val (Decimal False 140 (- 8)) - val (Decimal False 149 (- 8))\<bar> \<le>
     (1 + 1 / 10 ^ 26) *
       (1 + \<bar>val (Decimal False 60000 0) / val (Decimal False 3000 0)\<bar>) / (2 * 10 ^ 8) +
     \<bar>val (Decimal False 140 (- 8))\<bar> / 10 ^ 26"
  using
    round_trip_tolerance [OF rt_basket_there [THEN fst_pair] rt_basket_back [THEN fst_pair]
      ex_get_ecb_rates ex_get_binance_prices ex_get_ecb_rates ex_get_binance_prices]
    round_trip_tolerance [OF rt_bridge_there [THEN fst_pair] rt_bridge_back [THEN fst_pair]
      ex_get_ecb_rates ex_get_binance_prices ex_get_ecb_rates ex_get_binance_prices]
  by (simp add: upper_codes map_of_ex_basket dict_of_def tickers_usdt_def arith_rt quantize_rt
      adjusted_rt)

text \<open>
  The claim as stated fails. With a direct quote of 20 for BTCETH and of 0.06 for ETHBTC, 1 BTC
  comes back as 1.2 BTC, both legs via direct; with pair rates 0.9 for USDEUR and 1.2 for
  EURUSD, 1 USD comes back as 1.08 USD, both legs via yahoo. Via ecb, 0.00000246 JPY comes
  back as 0.00000296 JPY, and via USDT, 0.00000149 ETH comes back as 0.00000140 ETH: the half
  unit that the quantization of the first leg may lose is multiplied by the rate of the way
  back. With basket rates of 2E+1000020 and 4E+1000020 the first quotient underflows and
  keeps six digits, and 1.23456789 comes back as 1.23456800.
\<close>

theorem round_trip_tolerance_counterexample:
  "fst (convert (ex_env tickers_rt_direct no_yahoo) CACHE_init ''BTC'' ''ETH'' (Decimal False 10 (- 1))) =
     Inr \<lparr>res_from = ''BTC'', res_to = ''ETH'', res_amount = ''1.00000000'',
           res_rate = ''20.00000000'', res_converted = ''20.00000000'', res_via = ''direct''\<rparr> \<and>
   fst (convert (ex_env tickers_rt_direct no_yahoo) CACHE_init ''ETH'' ''BTC'' (Decimal False 200 (- 1))) =
     Inr \<lparr>res_from = ''ETH'', res_to = ''BTC'', res_amount = ''20.00000000'',
           res_rate = ''0.06000000'', res_converted = ''1.20000000'', res_via = ''direct''\<rparr> \<and>
   fst (convert (ex_env tickers_usdt yahoo_rt) CACHE_init ''USD'' ''EUR'' (Decimal False 10 (- 1))) =
     Inr \<lparr>res_from = ''USD'', res_to = ''EUR'', res_amount = ''1.00000000'',
           res_rate = ''0.90000000'', res_converted = ''0.90000000'', res_via = ''yahoo''\<rparr> \<and>
   fst (convert (ex_env tickers_usdt yahoo_rt) CACHE_init ''EUR'' ''USD'' (Decimal False 9 (- 1))) =
     Inr \<lparr>res_from = ''EUR'', res_to = ''USD'', res_amount = ''0.90000000'',
           res_rate = ''1.20000000'', res_converted = ''1.08000000'', res_via = ''yahoo''\<rparr> \<and>
   fst (convert (ex_env tickers_usdt no_yahoo) CACHE_init ''JPY'' ''USD'' (Decimal False 246 (- 8))) =
     Inr \<lparr>res_from = ''JPY'', res_to = ''USD'', res_amount = ''0.00000246'',
           res_rate = ''0.00675000'', res_converted = ''0.00000002'', res_via = ''ecb''\<rparr> \<and>
   fst (convert (ex_env tickers_usdt no_yahoo) CACHE_init ''USD'' ''JPY'' (Decimal False 2 (- 8))) =
     Inr \<lparr>res_from = ''USD'', res_to = ''JPY'', res_amount = ''0.00000002'',
           res_rate = ''148.14814815'', res_converted = ''0.00000296'', res_via = ''ecb''\<rparr> \<and>
   fst (convert (ex_env tickers_usdt no_yahoo) CACHE_init ''ETH'' ''BTC'' (Decimal False 149 (- 8))) =
     Inr \<lparr>res_from = ''ETH'', res_to = ''BTC'', res_amount = ''0.00000149'',
           res_rate = ''0.05000000'', res_converted = ''0.00000007'', res_via = ''USDT''\<rparr> \<and>
   fst (convert (ex_env tickers_usdt no_yahoo) CACHE_init ''BTC'' ''ETH'' (Decimal False 7 (- 8))) =
     Inr \<lparr>res_from = ''BTC'', res_to = ''ETH'', res_amount = ''0.00000007'',
           res_rate = ''20.00000000'', res_converted = ''0.00000140'', res_via = ''USDT''\<rparr> \<and>
   fst (convert wide_env CACHE_init ''USD'' ''JPY'' (Decimal False 123456789 (- 8))) =
     Inr \<lparr>res_from = ''USD'', res_to = ''JPY'', res_amount = ''1.23456789'',
           res_rate = ''2.00000000'', res_converted = ''2.46913600'', res_via = ''ecb''\<rparr> \<and>
   fst (convert wide_env CACHE_init ''JPY'' ''USD'' (Decimal False 2469136 (- 6))) =
     Inr \<lparr>res_from = ''JPY'', res_to = ''USD'', res_amount = ''2.46913600'',
           res_rate = ''0.50000000'', res_converted = ''1.23456800'', res_via = ''ecb''\<rparr> \<and>
   dec_div (Decimal False 123456789 (- 8)) (Decimal False 2 1000020) =
     Inr (Decimal False 617284 (- 1000026)) \<and>
   adjusted (Decimal False 617284 (- 1000026)) < Emin"
  using rt_direct_there rt_direct_back rt_yahoo_there rt_yahoo_back rt_basket_there
    rt_basket_back rt_bridge_there rt_bridge_back rt_wide_there rt_wide_back wide_underflow
  by (simp add: arith_wide)

end
